theory Spec2Isabelle
  imports Main "HOL-Library.AList"
begin

section \<open>Errors\<close>

text \<open>
  The reasons a condition is marked with are the constants \<open>v1alpha1.Reason...\<close>; the
  superseded revision of the controllers passes string literals instead, which
  \<open>ReasonLiteral\<close> holds. A message is a format string with its arguments.
\<close>

datatype reason =
    ReasonUnknownError | ReasonNotFound | ReasonNotReady | ReasonUnsupportedIssuer
  | ReasonInvalidSeedSecret | ReasonInvalidJWTSecret | ReasonInvalidSigningKeyOwner
  | ReasonIssuerSeedError | ReasonMalformedSeedSecret | ReasonPublicKeyMismatch
  | ReasonJWTPushError | ReasonLiteral string

type_synonym message = "string \<times> string list"

datatype severity = SeverityFailed | SeverityUnknown

text \<open>
  A Go \<open>error\<close> value. \<open>StatusNotFound\<close> is an API status error whose reason is
  NotFound, \<open>OtherError\<close> any other error of a collaborator (store, network, crypto),
  \<open>ConditionError\<close> what \<open>ConditionFailed\<close> and \<open>ConditionUnknown\<close> build,
  \<open>Wrapped\<close> is \<open>fmt.Errorf("...: %w", err)\<close>, \<open>MultiErr\<close> is
  \<open>multierr.Append\<close> of two errors, and \<open>Panic\<close> a nil dereference.
\<close>

datatype error =
    StatusNotFound string
  | OtherError string
  | ConditionError severity reason message
  | Wrapped string error
  | MultiErr error error
  | Panic string

fun IsNotFound :: "error \<Rightarrow> bool" where
  "IsNotFound (StatusNotFound _) = True"
| "IsNotFound (Wrapped _ e) = IsNotFound e"
| "IsNotFound _ = False"

fun Error :: "error \<Rightarrow> string" where
  "Error (StatusNotFound s) = s"
| "Error (OtherError s) = s"
| "Error (ConditionError _ _ m) = fst m"
| "Error (Wrapped s e) = s @ '': '' @ Error e"
| "Error (MultiErr a b) = Error a @ ''; '' @ Error b"
| "Error (Panic s) = s"

definition ConditionFailed :: "reason \<Rightarrow> message \<Rightarrow> error" where
  "ConditionFailed r m = ConditionError SeverityFailed r m"

definition ConditionUnknown :: "reason \<Rightarrow> message \<Rightarrow> error" where
  "ConditionUnknown r m = ConditionError SeverityUnknown r m"

fun asConditionError :: "error option \<Rightarrow> (severity \<times> reason \<times> message) option" where
  "asConditionError None = None"
| "asConditionError (Some (ConditionError s r m)) = Some (s, r, m)"
| "asConditionError (Some (Wrapped _ e)) = asConditionError (Some e)"
| "asConditionError (Some _) = None"

fun multierr_Append :: "error option \<Rightarrow> error \<Rightarrow> error option" where
  "multierr_Append None e2 = Some e2"
| "multierr_Append (Some e) e2 = Some (MultiErr e e2)"

section \<open>Conditions\<close>

datatype cond_status = ConditionStatusUnknown | ConditionStatusTrue | ConditionStatusFalse

datatype cond_type =
    SeedSecretReady | IssuerResolved | OperatorResolved | AccountResolved
  | SigningKeysUpdated | JWTSecretReady | JWTPushed | CredentialsSecretReady
  | OwnerResolved | SystemAccountResolved

record Condition =
  Status :: cond_status
  Reason :: "reason option"
  Message :: message

type_synonym conditions = "(cond_type \<times> Condition) list"

definition GetCondition :: "conditions \<Rightarrow> cond_type \<Rightarrow> Condition option" where
  "GetCondition cs t = map_of cs t"

fun IsTrue :: "Condition option \<Rightarrow> bool" where
  "IsTrue None = False"
| "IsTrue (Some c) = (Status c = ConditionStatusTrue)"

definition SetCondition :: "cond_type \<Rightarrow> Condition \<Rightarrow> conditions \<Rightarrow> conditions" where
  "SetCondition t c cs = AList.update t c cs"

text \<open>
  Modelled from the spec: the condition manager of the status types (package
  \<open>v1alpha1\<close>, not among the sources). \<open>initialize()\<close> seeds every known condition
  type that has no entry yet with Unknown; \<open>markTrue\<close>, \<open>markFalse\<close> and
  \<open>markUnknown\<close> set the named condition. The aggregate Ready condition is derived
  (\<open>isReady\<close>), not stored.
\<close>

fun InitializeConditions :: "cond_type list \<Rightarrow> conditions \<Rightarrow> conditions" where
  "InitializeConditions [] cs = cs"
| "InitializeConditions (t # ts) cs =
     InitializeConditions ts
       (case map_of cs t of
          None \<Rightarrow> SetCondition t \<lparr>Status = ConditionStatusUnknown, Reason = None, Message = ('''', [])\<rparr> cs
        | Some _ \<Rightarrow> cs)"

definition MarkTrue :: "cond_type \<Rightarrow> conditions \<Rightarrow> conditions" where
  "MarkTrue t cs = SetCondition t \<lparr>Status = ConditionStatusTrue, Reason = None, Message = ('''', [])\<rparr> cs"

definition MarkFalse :: "cond_type \<Rightarrow> reason \<Rightarrow> message \<Rightarrow> conditions \<Rightarrow> conditions" where
  "MarkFalse t r m cs = SetCondition t \<lparr>Status = ConditionStatusFalse, Reason = Some r, Message = m\<rparr> cs"

definition MarkUnknown :: "cond_type \<Rightarrow> reason \<Rightarrow> message \<Rightarrow> conditions \<Rightarrow> conditions" where
  "MarkUnknown t r m cs = SetCondition t \<lparr>Status = ConditionStatusUnknown, Reason = Some r, Message = m\<rparr> cs"

definition isReady :: "cond_type list \<Rightarrow> conditions \<Rightarrow> bool" where
  "isReady required cs = list_all (\<lambda>t. IsTrue (GetCondition cs t)) required"

section \<open>Resources\<close>

record KeyPair =
  PublicKey :: string
  SeedSecretName :: string

record InferredObjectReference =
  ref_Namespace :: string
  ref_Name :: string

record TypedObjectReference =
  APIVersion :: string
  Kind :: string
  tref_Name :: string
  tref_Namespace :: string
  tref_UID :: string

record IssuerReference =
  Ref :: TypedObjectReference

type_synonym GroupVersionKind = "string \<times> string"

definition GetGroupVersionKind :: "TypedObjectReference \<Rightarrow> GroupVersionKind" where
  "GetGroupVersionKind r = (APIVersion r, Kind r)"

definition GVK_String :: "GroupVersionKind \<Rightarrow> string" where
  "GVK_String gvk = fst gvk @ '', Kind='' @ snd gvk"

record SigningKeyEmbeddedStatus =
  sk_Name :: string
  sk_KeyPair :: KeyPair

text \<open>
  Every identity resource carries object metadata and, in its status, a condition list
  and a key pair (the \<open>KeyPairable\<close> interface). The records below extend that common
  part; the fields of \<open>.spec\<close> and \<open>.status\<close> are kept side by side.
\<close>

record ObjectMeta =
  Name :: string
  Namespace :: string
  UID :: string
  DeletionTimestamp :: "nat option"
  Finalizers :: "string list"

record KeyPairable = ObjectMeta +
  Conditions :: conditions
  StatusKeyPair :: "KeyPair option"

record SecretKeySelector =
  sel_Name :: string
  sel_Key :: string

record TLSConfig =
  CAFile :: "SecretKeySelector option"

record Operator = KeyPairable +
  AccountServerURL :: string
  TLSConfig :: "TLSConfig option"
  ResolvedSystemAccount :: "InferredObjectReference option"

record SigningKey = KeyPairable +
  OwnerRef :: "TypedObjectReference option"

record Account = KeyPairable +
  acc_Issuer :: IssuerReference
  acc_SeedSecretName :: string
  acc_JWTSecretName :: string
  acc_SigningKeysSelector :: "string option"
  acc_Claims :: string
  OperatorRef :: "InferredObjectReference option"
  SigningKeys :: "SigningKeyEmbeddedStatus list"

record User = KeyPairable +
  usr_Issuer :: IssuerReference
  usr_SeedSecretName :: string
  usr_JWTSecretName :: string
  usr_CredentialsSecretName :: string
  usr_Claims :: string
  AccountRef :: "InferredObjectReference option"

datatype kind =
    OperatorKind | AccountKind | UserKind | SigningKeyKind
  | OtherClientKind string | NonClientKind string

datatype object =
    OperatorObj Operator
  | AccountObj Account
  | UserObj User
  | SigningKeyObj SigningKey
  | OtherObj string

fun obj_KeyPair :: "object \<Rightarrow> KeyPair option option" where
  "obj_KeyPair (OperatorObj x) = Some (StatusKeyPair x)"
| "obj_KeyPair (AccountObj x) = Some (StatusKeyPair x)"
| "obj_KeyPair (UserObj x) = Some (StatusKeyPair x)"
| "obj_KeyPair (SigningKeyObj x) = Some (StatusKeyPair x)"
| "obj_KeyPair (OtherObj _) = None"

fun obj_Namespace :: "object \<Rightarrow> string" where
  "obj_Namespace (OperatorObj x) = Namespace x"
| "obj_Namespace (AccountObj x) = Namespace x"
| "obj_Namespace (UserObj x) = Namespace x"
| "obj_Namespace (SigningKeyObj x) = Namespace x"
| "obj_Namespace (OtherObj _) = []"

fun obj_Name :: "object \<Rightarrow> string" where
  "obj_Name (OperatorObj x) = Name x"
| "obj_Name (AccountObj x) = Name x"
| "obj_Name (UserObj x) = Name x"
| "obj_Name (SigningKeyObj x) = Name x"
| "obj_Name (OtherObj n) = n"

fun obj_Conditions :: "object \<Rightarrow> conditions" where
  "obj_Conditions (OperatorObj x) = Conditions x"
| "obj_Conditions (AccountObj x) = Conditions x"
| "obj_Conditions (UserObj x) = Conditions x"
| "obj_Conditions (SigningKeyObj x) = Conditions x"
| "obj_Conditions (OtherObj _) = []"

fun obj_GVK_String :: "object \<Rightarrow> string" where
  "obj_GVK_String (OperatorObj _) = ''accounts.nats.io/v1alpha1, Kind=Operator''"
| "obj_GVK_String (AccountObj _) = ''accounts.nats.io/v1alpha1, Kind=Account''"
| "obj_GVK_String (UserObj _) = ''accounts.nats.io/v1alpha1, Kind=User''"
| "obj_GVK_String (SigningKeyObj _) = ''accounts.nats.io/v1alpha1, Kind=SigningKey''"
| "obj_GVK_String (OtherObj n) = n"

text \<open>
  The condition types each kind's condition set manages, read off the \<open>Mark...\<close>
  calls of the controllers (the condition sets themselves are declared in package
  \<open>v1alpha1\<close>).
\<close>

definition AccountConditionSet :: "cond_type list" where
  "AccountConditionSet =
     [SeedSecretReady, IssuerResolved, OperatorResolved, SigningKeysUpdated, JWTSecretReady, JWTPushed]"

definition UserConditionSet :: "cond_type list" where
  "UserConditionSet =
     [SeedSecretReady, IssuerResolved, AccountResolved, JWTSecretReady, CredentialsSecretReady]"

definition OperatorConditionSet :: "cond_type list" where
  "OperatorConditionSet = [SeedSecretReady, SystemAccountResolved, SigningKeysUpdated, JWTSecretReady]"

definition SigningKeyConditionSet :: "cond_type list" where
  "SigningKeyConditionSet = [SeedSecretReady, OwnerResolved]"

fun obj_InitializeConditions :: "object \<Rightarrow> object" where
  "obj_InitializeConditions (OperatorObj x) =
     OperatorObj (x\<lparr>Conditions := InitializeConditions OperatorConditionSet (Conditions x)\<rparr>)"
| "obj_InitializeConditions (AccountObj x) =
     AccountObj (x\<lparr>Conditions := InitializeConditions AccountConditionSet (Conditions x)\<rparr>)"
| "obj_InitializeConditions (UserObj x) =
     UserObj (x\<lparr>Conditions := InitializeConditions UserConditionSet (Conditions x)\<rparr>)"
| "obj_InitializeConditions (SigningKeyObj x) =
     SigningKeyObj (x\<lparr>Conditions := InitializeConditions SigningKeyConditionSet (Conditions x)\<rparr>)"
| "obj_InitializeConditions (OtherObj n) = OtherObj n"

section \<open>Secrets, keys and tokens\<close>

record Secret =
  sec_Name :: string
  sec_Namespace :: string
  sec_Data :: "(string \<times> string) list"
  sec_Immutable :: bool
  sec_Controller :: "string option"

text \<open>
  Modelled from the spec: the well-known field names of the managed secrets (section 6),
  constants of package \<open>v1alpha1\<close>.
\<close>

definition NatsSecretSeedKey :: string where "NatsSecretSeedKey = ''seed''"

definition NatsSecretPublicKeyKey :: string where "NatsSecretPublicKeyKey = ''public-key''"

definition NatsSecretJWTKey :: string where "NatsSecretJWTKey = ''jwt''"

definition NatsSecretCredsKey :: string where "NatsSecretCredsKey = ''creds''"

datatype PrefixByte = PrefixByteOperator | PrefixByteAccount | PrefixByteUser | PrefixByteOther

fun PrefixByte_String :: "PrefixByte \<Rightarrow> string" where
  "PrefixByte_String PrefixByteOperator = ''operator''"
| "PrefixByte_String PrefixByteAccount = ''account''"
| "PrefixByte_String PrefixByteUser = ''user''"
| "PrefixByte_String PrefixByteOther = ''unknown''"

text \<open>An \<open>nkeys.KeyPair\<close>: what its methods \<open>Seed()\<close> and \<open>PublicKey()\<close> return.\<close>

record nkeys_KeyPair =
  kp_Seed :: "error + string"
  kp_PublicKey :: "error + string"

text \<open>
  The claims of a token: the issuance timestamp \<open>iat\<close>, and everything else.
\<close>

record Claims =
  IssuedAt :: int
  Content :: string

text \<open>
  Modelled from the spec: \<open>nsc.Equality\<close> (package \<open>pkg/nsc\<close>, not among the
  sources) compares two claim sets semantically after excluding the issuance-timestamp
  field (section 4.5).
\<close>

definition Equality_DeepEqual :: "Claims \<Rightarrow> Claims \<Rightarrow> bool" where
  "Equality_DeepEqual got want = (got\<lparr>IssuedAt := 0\<rparr> = want\<lparr>IssuedAt := 0\<rparr>)"

record Selector =
  sel_Empty :: bool
  sel_String :: string

definition labels_Everything :: Selector where
  "labels_Everything = \<lparr>sel_Empty = True, sel_String = []\<rparr>"

datatype nats_Option = CABundle string

section \<open>The collaborators\<close>

text \<open>
  Everything a reconciliation pass asks of the object store, of the key and token
  libraries, of the secret builders (package \<open>controllers/resources\<close>) and of the
  remote authority is a field of \<open>World\<close>: the answer the collaborator gives. Reads
  are snapshot reads. A store write, a key generation, a remote call or an event is
  recorded as an \<open>effect\<close>, in the order issued, whether or not the collaborator then
  reports an error.
\<close>

record World =
  SchemeNew :: "GroupVersionKind \<Rightarrow> error + kind"
  ClientGet :: "kind \<Rightarrow> string \<Rightarrow> string \<Rightarrow> error + object"
  AccountsGet :: "string \<Rightarrow> string \<Rightarrow> error + Account"
  UsersGet :: "string \<Rightarrow> string \<Rightarrow> error + User"
  OperatorsGet :: "string \<Rightarrow> string \<Rightarrow> error + Operator"
  SecretsGet :: "string \<Rightarrow> string \<Rightarrow> error + Secret"
  SigningKeysList :: "string \<Rightarrow> string \<Rightarrow> error + SigningKey list"
  ClientCreate :: "Secret \<Rightarrow> error option"
  ClientUpdate :: "Secret \<Rightarrow> error option"
  UpdateAccount :: "Account \<Rightarrow> error option"
  StatusUpdateAccount :: "Account \<Rightarrow> error option"
  StatusUpdateUser :: "User \<Rightarrow> error option"
  nkeys_CreateAccount :: "error + nkeys_KeyPair"
  nkeys_CreateUser :: "error + nkeys_KeyPair"
  nkeys_FromSeed :: "string \<Rightarrow> error + nkeys_KeyPair"
  nkeys_DecodeSeed :: "string \<Rightarrow> error + PrefixByte"
  jwt_Decode :: "string \<Rightarrow> error + Claims"
  nsc_CreateAccountClaims :: "Account \<Rightarrow> nkeys_KeyPair \<Rightarrow> error + (Claims \<times> string)"
  nsc_CreateUserClaims :: "User \<Rightarrow> nkeys_KeyPair \<Rightarrow> error + (Claims \<times> string)"
  SysAccountLoader_Load :: "Operator \<Rightarrow> error + string"
  nsc_Connect :: "string \<Rightarrow> nkeys_KeyPair \<Rightarrow> string \<Rightarrow> nats_Option list \<Rightarrow> error option"
  nsc_Push :: "string \<Rightarrow> error option"
  nsc_Delete :: "string \<Rightarrow> error option"
  LabelSelectorAsSelector :: "string \<Rightarrow> error + Selector"
  KeyPairSecretBuild :: "Secret option \<Rightarrow> object \<Rightarrow> nkeys_KeyPair \<Rightarrow> error + Secret"
  JWTSecretBuild :: "Secret option \<Rightarrow> object \<Rightarrow> string \<Rightarrow> error + Secret"
  UserCredentialSecretBuild :: "Secret option \<Rightarrow> object \<Rightarrow> string \<Rightarrow> string \<Rightarrow> error + Secret"
  SetControllerReference :: "object \<Rightarrow> Secret \<Rightarrow> error + Secret"

datatype event_type = EventTypeNormal | EventTypeWarning

datatype effect =
    CreateSecret Secret
  | UpdateSecret Secret
  | UpdateObject object
  | UpdateStatus object
  | GenerateKeyPair PrefixByte
  | RemoteConnect string
  | RemotePush string
  | RemoteDelete string
  | RemoteClose
  | RecordEvent event_type string message

section \<open>Marking conditions on a status\<close>

text \<open>
  Modelled from the spec: the \<open>Mark...\<close> methods of the status types (package
  \<open>v1alpha1\<close>) and \<open>MarkCondition\<close> of a condition error. Each sets its own
  condition; \<open>MarkSeedSecretReady\<close> also records the public key and the secret name,
  \<open>MarkOperatorResolved\<close> and \<open>MarkAccountResolved\<close> the resolved owner, and
  \<open>MarkSigningKeysUpdated\<close> the resolved membership.
\<close>

named_theorems mark_defs

definition MarkSeedSecretReady :: "string \<Rightarrow> string \<Rightarrow> 'a KeyPairable_scheme \<Rightarrow> 'a KeyPairable_scheme" where
  [mark_defs]: "MarkSeedSecretReady pubkey name x =
     x\<lparr>StatusKeyPair := Some \<lparr>PublicKey = pubkey, SeedSecretName = name\<rparr>,
       Conditions := MarkTrue SeedSecretReady (Conditions x)\<rparr>"

definition MarkSeedSecretFailed :: "reason \<Rightarrow> message \<Rightarrow> 'a KeyPairable_scheme \<Rightarrow> 'a KeyPairable_scheme" where
  [mark_defs]: "MarkSeedSecretFailed r m x = x\<lparr>Conditions := MarkFalse SeedSecretReady r m (Conditions x)\<rparr>"

definition MarkSeedSecretUnknown :: "reason \<Rightarrow> message \<Rightarrow> 'a KeyPairable_scheme \<Rightarrow> 'a KeyPairable_scheme" where
  [mark_defs]: "MarkSeedSecretUnknown r m x = x\<lparr>Conditions := MarkUnknown SeedSecretReady r m (Conditions x)\<rparr>"

definition MarkIssuerResolved :: "'a KeyPairable_scheme \<Rightarrow> 'a KeyPairable_scheme" where
  [mark_defs]: "MarkIssuerResolved x = x\<lparr>Conditions := MarkTrue IssuerResolved (Conditions x)\<rparr>"

definition MarkIssuerResolveFailed :: "reason \<Rightarrow> message \<Rightarrow> 'a KeyPairable_scheme \<Rightarrow> 'a KeyPairable_scheme" where
  [mark_defs]: "MarkIssuerResolveFailed r m x = x\<lparr>Conditions := MarkFalse IssuerResolved r m (Conditions x)\<rparr>"

definition MarkIssuerResolveUnknown :: "reason \<Rightarrow> message \<Rightarrow> 'a KeyPairable_scheme \<Rightarrow> 'a KeyPairable_scheme" where
  [mark_defs]: "MarkIssuerResolveUnknown r m x = x\<lparr>Conditions := MarkUnknown IssuerResolved r m (Conditions x)\<rparr>"

definition MarkJWTSecretReady :: "'a KeyPairable_scheme \<Rightarrow> 'a KeyPairable_scheme" where
  [mark_defs]: "MarkJWTSecretReady x = x\<lparr>Conditions := MarkTrue JWTSecretReady (Conditions x)\<rparr>"

definition MarkJWTSecretFailed :: "reason \<Rightarrow> message \<Rightarrow> 'a KeyPairable_scheme \<Rightarrow> 'a KeyPairable_scheme" where
  [mark_defs]: "MarkJWTSecretFailed r m x = x\<lparr>Conditions := MarkFalse JWTSecretReady r m (Conditions x)\<rparr>"

definition MarkJWTSecretUnknown :: "reason \<Rightarrow> message \<Rightarrow> 'a KeyPairable_scheme \<Rightarrow> 'a KeyPairable_scheme" where
  [mark_defs]: "MarkJWTSecretUnknown r m x = x\<lparr>Conditions := MarkUnknown JWTSecretReady r m (Conditions x)\<rparr>"

definition MarkJWTPushed :: "'a KeyPairable_scheme \<Rightarrow> 'a KeyPairable_scheme" where
  [mark_defs]: "MarkJWTPushed x = x\<lparr>Conditions := MarkTrue JWTPushed (Conditions x)\<rparr>"

definition MarkJWTPushFailed :: "reason \<Rightarrow> message \<Rightarrow> 'a KeyPairable_scheme \<Rightarrow> 'a KeyPairable_scheme" where
  [mark_defs]: "MarkJWTPushFailed r m x = x\<lparr>Conditions := MarkFalse JWTPushed r m (Conditions x)\<rparr>"

definition MarkJWTPushUnknown :: "reason \<Rightarrow> message \<Rightarrow> 'a KeyPairable_scheme \<Rightarrow> 'a KeyPairable_scheme" where
  [mark_defs]: "MarkJWTPushUnknown r m x = x\<lparr>Conditions := MarkUnknown JWTPushed r m (Conditions x)\<rparr>"

definition MarkOperatorResolved :: "InferredObjectReference \<Rightarrow> Account \<Rightarrow> Account" where
  [mark_defs]: "MarkOperatorResolved ref x =
     x\<lparr>OperatorRef := Some ref, Conditions := MarkTrue OperatorResolved (Conditions x)\<rparr>"

definition MarkOperatorResolveFailed :: "reason \<Rightarrow> message \<Rightarrow> Account \<Rightarrow> Account" where
  [mark_defs]: "MarkOperatorResolveFailed r m x = x\<lparr>Conditions := MarkFalse OperatorResolved r m (Conditions x)\<rparr>"

definition MarkOperatorResolveUnknown :: "reason \<Rightarrow> message \<Rightarrow> Account \<Rightarrow> Account" where
  [mark_defs]: "MarkOperatorResolveUnknown r m x = x\<lparr>Conditions := MarkUnknown OperatorResolved r m (Conditions x)\<rparr>"

definition MarkSigningKeysUpdated :: "SigningKeyEmbeddedStatus list \<Rightarrow> Account \<Rightarrow> Account" where
  [mark_defs]: "MarkSigningKeysUpdated sks x =
     x\<lparr>SigningKeys := sks, Conditions := MarkTrue SigningKeysUpdated (Conditions x)\<rparr>"

definition MarkSigningKeysUpdateUnknown :: "reason \<Rightarrow> message \<Rightarrow> Account \<Rightarrow> Account" where
  [mark_defs]: "MarkSigningKeysUpdateUnknown r m x = x\<lparr>Conditions := MarkUnknown SigningKeysUpdated r m (Conditions x)\<rparr>"

definition MarkAccountResolved :: "InferredObjectReference \<Rightarrow> User \<Rightarrow> User" where
  [mark_defs]: "MarkAccountResolved ref x =
     x\<lparr>AccountRef := Some ref, Conditions := MarkTrue AccountResolved (Conditions x)\<rparr>"

definition MarkAccountResolveFailed :: "reason \<Rightarrow> message \<Rightarrow> User \<Rightarrow> User" where
  [mark_defs]: "MarkAccountResolveFailed r m x = x\<lparr>Conditions := MarkFalse AccountResolved r m (Conditions x)\<rparr>"

definition MarkAccountResolveUnknown :: "reason \<Rightarrow> message \<Rightarrow> User \<Rightarrow> User" where
  [mark_defs]: "MarkAccountResolveUnknown r m x = x\<lparr>Conditions := MarkUnknown AccountResolved r m (Conditions x)\<rparr>"

definition MarkCredentialsSecretReady :: "User \<Rightarrow> User" where
  [mark_defs]: "MarkCredentialsSecretReady x = x\<lparr>Conditions := MarkTrue CredentialsSecretReady (Conditions x)\<rparr>"

definition MarkCredentialsSecretFailed :: "reason \<Rightarrow> message \<Rightarrow> User \<Rightarrow> User" where
  [mark_defs]: "MarkCredentialsSecretFailed r m x = x\<lparr>Conditions := MarkFalse CredentialsSecretReady r m (Conditions x)\<rparr>"

definition MarkCredentialsSecretUnknown :: "reason \<Rightarrow> message \<Rightarrow> User \<Rightarrow> User" where
  [mark_defs]: "MarkCredentialsSecretUnknown r m x = x\<lparr>Conditions := MarkUnknown CredentialsSecretReady r m (Conditions x)\<rparr>"

fun MarkCondition ::
  "severity \<times> reason \<times> message \<Rightarrow> (reason \<Rightarrow> message \<Rightarrow> 'a \<Rightarrow> 'a) \<Rightarrow> (reason \<Rightarrow> message \<Rightarrow> 'a \<Rightarrow> 'a) \<Rightarrow> 'a \<Rightarrow> 'a" where
  "MarkCondition (SeverityFailed, r, m) failed unknown x = failed r m x"
| "MarkCondition (SeverityUnknown, r, m) failed unknown x = unknown r m x"

text \<open>
  The pattern the controllers repeat after a helper of the base reconciler returned an
  error: a condition error marks its own condition, any other error marks Unknown with
  its text. A nil error has no text: \<open>err.Error()\<close> panics, and the status is left as
  it was.
\<close>

definition markFromError ::
  "error option \<Rightarrow> (reason \<Rightarrow> message \<Rightarrow> 'a \<Rightarrow> 'a) \<Rightarrow> (reason \<Rightarrow> message \<Rightarrow> 'a \<Rightarrow> 'a) \<Rightarrow> 'a \<Rightarrow> 'a" where
  "markFromError err failed unknown x =
     (case asConditionError err of
        Some cerr \<Rightarrow> MarkCondition cerr failed unknown x
      | None \<Rightarrow> (case err of Some e \<Rightarrow> unknown ReasonUnknownError (Error e, []) x | None \<Rightarrow> x))"

fun panicked :: "error option \<Rightarrow> bool" where
  "panicked (Some (Panic _)) = True"
| "panicked _ = False"

section \<open>The base reconciler\<close>

fun isClientObject :: "kind \<Rightarrow> bool" where
  "isClientObject (NonClientKind _) = False"
| "isClientObject _ = True"

text \<open>\<open>BaseReconciler.ensureSeedSecretUpToDate\<close>\<close>

definition base_ensureSeedSecretUpToDate ::
  "World \<Rightarrow> object \<Rightarrow> Secret \<Rightarrow> (nkeys_KeyPair option \<times> bool \<times> error option) \<times> effect list" where
  "base_ensureSeedSecretUpToDate w owner got =
     (case map_of (sec_Data got) NatsSecretSeedKey of
        None \<Rightarrow>
          ((None, True, Some (ConditionFailed ReasonInvalidSeedSecret
              (''seed secret does not contain seed data, delete the secret for a new keypair'', []))), [])
      | Some seed \<Rightarrow>
          (case nkeys_FromSeed w seed of
             Inl err \<Rightarrow>
               ((None, True, Some (ConditionFailed ReasonInvalidSeedSecret
                   (''failed to parse seed: %s'', [Error err]))), [])
           | Inr kp \<Rightarrow>
               (case KeyPairSecretBuild w (Some got) owner kp of
                  Inl err \<Rightarrow> ((Some kp, True, Some (ConditionFailed ReasonUnknownError (Error err, []))), [])
                | Inr want \<Rightarrow>
                    if got \<noteq> want then
                      (case ClientUpdate w want of
                         Some err \<Rightarrow>
                           ((Some kp, False, Some (ConditionFailed ReasonUnknownError (Error err, []))),
                            [UpdateSecret want])
                       | None \<Rightarrow>
                           ((Some kp, True, None),
                            [UpdateSecret want,
                             RecordEvent EventTypeNormal ''SeedSecretUpdated''
                               (''updated secret: %s/%s'', [sec_Namespace want, sec_Name want])]))
                    else ((Some kp, True, None), []))))"

text \<open>\<open>BaseReconciler.resolveIssuer\<close>\<close>

definition resolveIssuer ::
  "World \<Rightarrow> IssuerReference \<Rightarrow> string \<Rightarrow> object option \<times> bool \<times> error option" where
  "resolveIssuer w issuer fallbackNamespace =
     (let issuerGVK = GetGroupVersionKind (Ref issuer) in
      case SchemeNew w issuerGVK of
        Inl err \<Rightarrow>
          (None, True, Some (ConditionFailed ReasonUnsupportedIssuer
              (''unsupported GroupVersionKind: %s'', [Error err])))
      | Inr obj \<Rightarrow>
          if \<not> isClientObject obj then
            (None, True, Some (ConditionFailed ReasonUnsupportedIssuer
                (''runtime.Object cannot be converted to client.Object'', [GVK_String issuerGVK])))
          else
            let ns = (if tref_Namespace (Ref issuer) \<noteq> [] then tref_Namespace (Ref issuer)
                      else fallbackNamespace)
            in
              (case ClientGet w obj ns (tref_Name (Ref issuer)) of
                 Inl err \<Rightarrow>
                   if IsNotFound err then
                     (None, True, Some (ConditionFailed ReasonNotFound
                         (''%s, %s/%s: not found'', [GVK_String issuerGVK, ns, tref_Name (Ref issuer)])))
                   else (None, False, Some (ConditionUnknown ReasonUnknownError (''%s'', [Error err])))
               | Inr issuerObj \<Rightarrow>
                   (case obj_KeyPair issuerObj of
                      None \<Rightarrow>
                        (None, True, Some (ConditionFailed ReasonUnsupportedIssuer
                            (''issuer does not implement KeyPairable interface'', [])))
                    | Some _ \<Rightarrow>
                        let keyPairable = obj_InitializeConditions issuerObj in
                          if \<not> IsTrue (GetCondition (obj_Conditions keyPairable) SeedSecretReady) then
                            (None, True, Some (ConditionUnknown ReasonNotReady
                                (''issuer seed secret is not ready'', [])))
                          else (Some keyPairable, True, None))))"

text \<open>\<open>BaseReconciler.resolveSigningKeyOwner\<close>\<close>

definition resolveSigningKeyOwner ::
  "World \<Rightarrow> SigningKey \<Rightarrow> object option \<times> bool \<times> error option" where
  "resolveSigningKeyOwner w sk =
     (if \<not> IsTrue (GetCondition (Conditions sk) OwnerResolved) then
        (None, True, Some (ConditionUnknown ReasonNotReady (''signing key owner has not been resolved'', [])))
      else
        case OwnerRef sk of
          None \<Rightarrow> (None, False, Some (Panic ''nil pointer dereference: sk.Status.OwnerRef''))
        | Some ownerRef \<Rightarrow>
            let gvk = GetGroupVersionKind ownerRef in
              (case SchemeNew w gvk of
                 Inl err \<Rightarrow>
                   (None, True, Some (ConditionFailed ReasonInvalidSigningKeyOwner
                       (''unsupported GroupVersionKind: %s'', [Error err])))
               | Inr obj \<Rightarrow>
                   if \<not> isClientObject obj then
                     (None, True, Some (ConditionFailed ReasonInvalidSigningKeyOwner
                         (''runtime.Object cannot be converted to client.Object'', [GVK_String gvk])))
                   else
                     (case ClientGet w obj (tref_Namespace ownerRef) (tref_Name ownerRef) of
                        Inl err \<Rightarrow>
                          if IsNotFound err then
                            (None, True, Some (ConditionFailed ReasonNotFound (Error err, [])))
                          else (None, False, Some (ConditionUnknown ReasonUnknownError (Error err, [])))
                      | Inr owner \<Rightarrow> (Some owner, True, None))))"

text \<open>\<open>BaseReconciler.loadIssuerSeed\<close>\<close>

definition base_loadIssuerSeed ::
  "World \<Rightarrow> object \<Rightarrow> PrefixByte \<Rightarrow> nkeys_KeyPair option \<times> bool \<times> error option" where
  "base_loadIssuerSeed w issuer wantPrefix =
     (case obj_KeyPair issuer of
        None \<Rightarrow> (None, False, Some (Panic ''issuer is not KeyPairable''))
      | Some None \<Rightarrow> (None, True, Some (ConditionFailed ReasonUnknownError (''issuer KeyPair is nil'', [])))
      | Some (Some keyPair) \<Rightarrow>
          (case SecretsGet w (obj_Namespace issuer) (SeedSecretName keyPair) of
             Inl err \<Rightarrow>
               (None, IsNotFound err, Some (ConditionUnknown ReasonIssuerSeedError
                   (''failed to get issuer seed: %s'', [Error err])))
           | Inr skSeedSecret \<Rightarrow>
               (case map_of (sec_Data skSeedSecret) NatsSecretSeedKey of
                  None \<Rightarrow>
                    (None, True, Some (ConditionFailed ReasonMalformedSeedSecret
                        (''secret missing required field: %s'', [NatsSecretSeedKey])))
                | Some seed \<Rightarrow>
                    (case nkeys_DecodeSeed w seed of
                       Inl err \<Rightarrow>
                         (None, True, Some (ConditionFailed ReasonMalformedSeedSecret
                             (''failed to parse seed: %s'', [Error err])))
                     | Inr prefix \<Rightarrow>
                         if prefix \<noteq> wantPrefix then
                           (None, True, Some (ConditionFailed ReasonMalformedSeedSecret
                               (''unexpected seed prefix, wanted %q but got %q'',
                                [PrefixByte_String wantPrefix, PrefixByte_String prefix])))
                         else
                           (case nkeys_FromSeed w seed of
                              Inl _ \<Rightarrow> (None, False, Some (Panic ''nil pointer dereference: kp''))
                            | Inr kp \<Rightarrow>
                                (case kp_PublicKey kp of
                                   Inl err \<Rightarrow>
                                     (None, True, Some (ConditionFailed ReasonUnknownError
                                         (''failed to get public key from seed: %s'', [Error err])))
                                 | Inr pk \<Rightarrow>
                                     if pk \<noteq> PublicKey keyPair then
                                       (None, False, Some (ConditionFailed ReasonPublicKeyMismatch
                                           (''public key mismatch, wanted %q but got %q'',
                                            [PublicKey keyPair, pk])))
                                     else (Some kp, True, None)))))))"

section \<open>Helpers of package \<open>pkg/helpers\<close>\<close>

text \<open>
  Modelled from the spec: \<open>helpers.IsSystemAccount\<close> (not among the sources). An
  Account is the system account of an Operator when it is the account the Operator
  designates, by name and namespace; the superseded revision of the account controller
  compares the same two fields of the Operator's resolved system account.
\<close>

definition IsSystemAccount :: "Account \<Rightarrow> Operator \<Rightarrow> bool" where
  "IsSystemAccount acc operator =
     (case ResolvedSystemAccount operator of
        None \<Rightarrow> False
      | Some sys \<Rightarrow> Name acc = ref_Name sys \<and> Namespace acc = ref_Namespace sys)"

text \<open>
  Modelled from the spec: \<open>helpers.NextSigningKeys\<close> (not among the sources), the
  signing-key membership resolver of section 4.4. Its caller hands it the owner's UID,
  the recorded membership and the listing. The desired membership is the listing
  filtered to the Signing Keys that are ready and whose resolved owner reference is the
  calling resource, which the helper knows by the UID it is handed, each projected to
  its name and key pair. The result is order-stable:
  the recorded entries that are still desired keep their recorded order, and the new
  entries follow in the order of the listing.
\<close>

definition ownedBy :: "string \<Rightarrow> SigningKey \<Rightarrow> bool" where
  "ownedBy ownerUID sk = (case OwnerRef sk of None \<Rightarrow> False | Some ref \<Rightarrow> tref_UID ref = ownerUID)"

definition embedded :: "SigningKey \<Rightarrow> SigningKeyEmbeddedStatus" where
  "embedded sk =
     \<lparr>sk_Name = Name sk,
      sk_KeyPair = (case StatusKeyPair sk of
                      Some kp \<Rightarrow> kp
                    | None \<Rightarrow> \<lparr>PublicKey = [], SeedSecretName = []\<rparr>)\<rparr>"

definition desiredSigningKeys :: "string \<Rightarrow> SigningKey list \<Rightarrow> SigningKeyEmbeddedStatus list" where
  "desiredSigningKeys ownerUID skList =
     map embedded
       (filter (\<lambda>sk. isReady SigningKeyConditionSet (Conditions sk) \<and> ownedBy ownerUID sk) skList)"

definition NextSigningKeys ::
  "string \<Rightarrow> SigningKeyEmbeddedStatus list \<Rightarrow> SigningKey list \<Rightarrow> SigningKeyEmbeddedStatus list" where
  "NextSigningKeys ownerUID prev skList =
     (let desired = desiredSigningKeys ownerUID skList in
        filter (\<lambda>e. e \<in> set desired) prev @ filter (\<lambda>e. e \<notin> set prev) desired)"

section \<open>The account controller\<close>

definition AccountFinalizer :: string where
  "AccountFinalizer = ''accounts.nats.io/finalizer''"

type_synonym AccountStatus =
  "conditions \<times> KeyPair option \<times> InferredObjectReference option \<times> SigningKeyEmbeddedStatus list"

definition acc_Status :: "Account \<Rightarrow> AccountStatus" where
  "acc_Status acc = (Conditions acc, StatusKeyPair acc, OperatorRef acc, SigningKeys acc)"

text \<open>\<open>AccountReconciler.createSeedSecret\<close>\<close>

definition acc_createSeedSecret :: "World \<Rightarrow> Account \<Rightarrow> error option \<times> Account \<times> effect list" where
  "acc_createSeedSecret w acc =
     (case nkeys_CreateAccount w of
        Inl err \<Rightarrow>
          (Some err, MarkSeedSecretFailed ReasonUnknownError (Error err, []) acc,
           [GenerateKeyPair PrefixByteAccount])
      | Inr kp \<Rightarrow>
          (case KeyPairSecretBuild w None (AccountObj acc) kp of
             Inl err \<Rightarrow>
               (Some err, MarkSeedSecretFailed ReasonUnknownError (Error err, []) acc,
                [GenerateKeyPair PrefixByteAccount])
           | Inr built \<Rightarrow>
               (case SetControllerReference w (AccountObj acc) built of
                  Inl err \<Rightarrow>
                    (Some err, MarkSeedSecretFailed ReasonUnknownError (Error err, []) acc,
                     [GenerateKeyPair PrefixByteAccount])
                | Inr secret \<Rightarrow>
                    (case ClientCreate w secret of
                       Some err \<Rightarrow>
                         (Some err, MarkSeedSecretFailed ReasonUnknownError (Error err, []) acc,
                          [GenerateKeyPair PrefixByteAccount, CreateSecret secret])
                     | None \<Rightarrow>
                         (let effs = [GenerateKeyPair PrefixByteAccount, CreateSecret secret,
                                      RecordEvent EventTypeNormal ''SeedSecretCreated''
                                        (''created secret: %s/%s'', [sec_Namespace secret, sec_Name secret])]
                          in case kp_PublicKey kp of
                               Inl err \<Rightarrow>
                                 (Some err, MarkSeedSecretFailed ReasonUnknownError (Error err, []) acc, effs)
                             | Inr pubkey \<Rightarrow>
                                 (None, MarkSeedSecretReady pubkey (sec_Name secret) acc, effs))))))"

text \<open>\<open>AccountReconciler.ensureSeedSecretUpToDate\<close>\<close>

definition acc_ensureSeedSecretUpToDate ::
  "World \<Rightarrow> Account \<Rightarrow> Secret \<Rightarrow> (bool \<times> error option) \<times> Account \<times> effect list" where
  "acc_ensureSeedSecretUpToDate w acc got =
     (case map_of (sec_Data got) NatsSecretSeedKey of
        None \<Rightarrow>
          ((False, None),
           MarkSeedSecretFailed ReasonInvalidSeedSecret
             (''seed secret does not contain seed data, delete the secret for a new keypair'', []) acc,
           [])
      | Some seed \<Rightarrow>
          (case nkeys_FromSeed w seed of
             Inl err \<Rightarrow>
               ((False, None),
                MarkSeedSecretFailed ReasonInvalidSeedSecret (''failed to parse seed: %s'', [Error err]) acc,
                [])
           | Inr kp \<Rightarrow>
               (case KeyPairSecretBuild w (Some got) (AccountObj acc) kp of
                  Inl err \<Rightarrow>
                    ((False, Some err), MarkSeedSecretUnknown ReasonUnknownError (Error err, []) acc, [])
                | Inr want \<Rightarrow>
                    (let pubkey = (case kp_PublicKey kp of Inr pk \<Rightarrow> pk | Inl _ \<Rightarrow> [])
                     in if got \<noteq> want then
                          (case ClientUpdate w want of
                             Some err \<Rightarrow>
                               ((False, Some err),
                                MarkSeedSecretUnknown ReasonUnknownError (Error err, []) acc,
                                [UpdateSecret want])
                           | None \<Rightarrow>
                               ((True, None), MarkSeedSecretReady pubkey (sec_Name want) acc,
                                [UpdateSecret want,
                                 RecordEvent EventTypeNormal ''SeedSecretUpdated''
                                   (''updated secret: %s/%s'', [sec_Namespace want, sec_Name want])]))
                        else ((True, None), MarkSeedSecretReady pubkey (sec_Name want) acc, [])))))"

text \<open>\<open>AccountReconciler.reconcileSeedSecret\<close>\<close>

definition acc_reconcileSeedSecret ::
  "World \<Rightarrow> Account \<Rightarrow> (bool \<times> error option) \<times> Account \<times> effect list" where
  "acc_reconcileSeedSecret w acc =
     (case SecretsGet w (Namespace acc) (acc_SeedSecretName acc) of
        Inl err \<Rightarrow>
          if IsNotFound err then
            (let (e, acc', effs) = acc_createSeedSecret w acc in ((True, e), acc', effs))
          else ((False, Some err), MarkSeedSecretUnknown ReasonUnknownError (Error err, []) acc, [])
      | Inr got \<Rightarrow> acc_ensureSeedSecretUpToDate w acc got)"

text \<open>\<open>AccountReconciler.resolveOperator\<close>\<close>

definition resolveOperator ::
  "World \<Rightarrow> Account \<Rightarrow> object \<Rightarrow> (Operator option \<times> bool \<times> error option) \<times> Account" where
  "resolveOperator w acc keyPair =
     (let resolved = (\<lambda>operator.
            ((Some operator, True, None),
             MarkOperatorResolved \<lparr>ref_Namespace = Namespace operator, ref_Name = Name operator\<rparr> acc))
      in case keyPair of
           OperatorObj v \<Rightarrow> resolved v
         | SigningKeyObj v \<Rightarrow>
             (let (owner, ok, err) = resolveSigningKeyOwner w v in
                if err \<noteq> None \<or> \<not> ok then
                  (if panicked err \<or> err = None then
                     ((None, False, Some (Panic (case err of Some e \<Rightarrow> Error e | None \<Rightarrow> ''nil error''))), acc)
                   else
                     (let acc' = markFromError err MarkOperatorResolveFailed MarkOperatorResolveUnknown acc
                      in if ok then ((None, True, None), acc') else ((None, False, err), acc')))
                else
                  (case owner of
                     Some (OperatorObj operator) \<Rightarrow> resolved operator
                   | Some other \<Rightarrow>
                       ((None, False, None),
                        MarkOperatorResolveFailed ReasonInvalidSigningKeyOwner
                          (''account issuer is not owned by an Operator, got: %s'', [obj_GVK_String other]) acc)
                   | None \<Rightarrow> ((None, False, Some (Panic ''nil pointer dereference: owner'')), acc)))
         | other \<Rightarrow>
             ((None, False, None),
              MarkOperatorResolveFailed ReasonUnsupportedIssuer
                (''invalid keypair, expected Operator or SigningKey, got: %s'', [obj_GVK_String other]) acc))"

text \<open>\<open>AccountReconciler.ensureSigningKeysUpdated\<close>\<close>

definition ensureSigningKeysUpdated :: "World \<Rightarrow> Account \<Rightarrow> error option \<times> Account \<times> effect list" where
  "ensureSigningKeysUpdated w acc =
     (case (case acc_SigningKeysSelector acc of
              None \<Rightarrow> Inr labels_Everything
            | Some sel \<Rightarrow> LabelSelectorAsSelector w sel) of
        Inl err \<Rightarrow>
          (Some err, acc,
           [RecordEvent EventTypeWarning ''InvalidSigningKeysSelector''
              (''Failed to parse label selector: %s'', [Error err])])
      | Inr labelSelector \<Rightarrow>
          (let listOptions = (if \<not> sel_Empty labelSelector then sel_String labelSelector else [])
           in case SigningKeysList w (Namespace acc) listOptions of
                Inl err \<Rightarrow> (Some (Wrapped ''failed to list SigningKeys'' err), acc, [])
              | Inr skList \<Rightarrow>
                  (let nextSKs = NextSigningKeys (UID acc) (SigningKeys acc) skList
                   in (None, MarkSigningKeysUpdated nextSKs acc,
                       if SigningKeys acc \<noteq> nextSKs
                       then [RecordEvent EventTypeNormal ''SigningKeysChanged'' ([], [])]
                       else []))))"

text \<open>\<open>AccountReconciler.loadIssuerSeed\<close>\<close>

definition acc_loadIssuerSeed ::
  "World \<Rightarrow> Account \<Rightarrow> object \<Rightarrow> (nkeys_KeyPair option \<times> bool \<times> error option) \<times> Account" where
  "acc_loadIssuerSeed w acc issuer =
     (case obj_KeyPair issuer of
        None \<Rightarrow> ((None, False, Some (Panic ''issuer is not KeyPairable'')), acc)
      | Some None \<Rightarrow>
          ((None, False, None), MarkIssuerResolveFailed ReasonUnknownError (''issuer KeyPair is nil'', []) acc)
      | Some (Some keyPair) \<Rightarrow>
          (case SecretsGet w (obj_Namespace issuer) (SeedSecretName keyPair) of
             Inl err \<Rightarrow>
               ((None, False, if IsNotFound err then None else Some err),
                MarkIssuerResolveUnknown ReasonIssuerSeedError
                  (''failed to get issuer seed: %s'', [Error err]) acc)
           | Inr skSeedSecret \<Rightarrow>
               (case map_of (sec_Data skSeedSecret) NatsSecretSeedKey of
                  None \<Rightarrow>
                    ((None, False, None),
                     MarkIssuerResolveFailed ReasonMalformedSeedSecret
                       (''secret missing required field: %s'', [NatsSecretSeedKey]) acc)
                | Some seed \<Rightarrow>
                    (case nkeys_DecodeSeed w seed of
                       Inl err \<Rightarrow>
                         ((None, False, None),
                          MarkIssuerResolveFailed ReasonMalformedSeedSecret
                            (''failed to parse seed: %s'', [Error err]) acc)
                     | Inr prefix \<Rightarrow>
                         if prefix \<noteq> PrefixByteOperator then
                           ((None, False, None),
                            MarkIssuerResolveFailed ReasonMalformedSeedSecret
                              (''unexpected seed prefix, wanted %q but got %q'',
                               [PrefixByte_String PrefixByteOperator, PrefixByte_String prefix]) acc)
                         else
                           (case nkeys_FromSeed w seed of
                              Inl _ \<Rightarrow> ((None, False, Some (Panic ''nil pointer dereference: kp'')), acc)
                            | Inr kp \<Rightarrow>
                                (case kp_PublicKey kp of
                                   Inl err \<Rightarrow>
                                     ((None, False, None),
                                      MarkIssuerResolveFailed ReasonUnknownError
                                        (''failed to get public key from seed: %s'', [Error err]) acc)
                                 | Inr pk \<Rightarrow>
                                     if pk \<noteq> PublicKey keyPair then
                                       ((None, False, None),
                                        MarkIssuerResolveFailed ReasonPublicKeyMismatch
                                          (''public key mismatch, wanted %q but got %q'',
                                           [PublicKey keyPair, pk]) acc)
                                     else ((Some kp, True, None), MarkIssuerResolved acc)))))))"

text \<open>\<open>AccountReconciler.createJWTSecret\<close>\<close>

definition acc_createJWTSecret ::
  "World \<Rightarrow> Account \<Rightarrow> string \<Rightarrow> error option \<times> Account \<times> effect list" where
  "acc_createJWTSecret w acc accountJWT =
     (case JWTSecretBuild w None (AccountObj acc) accountJWT of
        Inl err \<Rightarrow> (Some err, MarkJWTSecretFailed ReasonUnknownError (Error err, []) acc, [])
      | Inr built \<Rightarrow>
          (case SetControllerReference w (AccountObj acc) built of
             Inl err \<Rightarrow> (Some err, MarkJWTSecretFailed ReasonUnknownError (Error err, []) acc, [])
           | Inr secret \<Rightarrow>
               (case ClientCreate w secret of
                  Some err \<Rightarrow>
                    (Some err, MarkJWTSecretFailed ReasonUnknownError (Error err, []) acc,
                     [CreateSecret secret])
                | None \<Rightarrow>
                    (None, acc,
                     [CreateSecret secret,
                      RecordEvent EventTypeNormal ''JWTSecretCreated''
                        (''created secret: %s/%s'', [sec_Namespace secret, sec_Name secret])]))))"

text \<open>\<open>AccountReconciler.ensureJWTSecretUpToDate\<close>\<close>

definition acc_ensureJWTSecretUpToDate ::
  "World \<Rightarrow> Account \<Rightarrow> Claims \<Rightarrow> Secret \<Rightarrow> string \<Rightarrow> (string \<times> bool \<times> error option) \<times> Account \<times> effect list" where
  "acc_ensureJWTSecretUpToDate w acc wantClaims got nextJWT =
     (case map_of (sec_Data got) NatsSecretJWTKey of
        None \<Rightarrow>
          (([], False, None),
           MarkJWTSecretFailed ReasonInvalidJWTSecret
             (''JWT secret does not contain JWT data, delete the secret to generate a new JWT'', []) acc,
           [])
      | Some gotJWT \<Rightarrow>
          (let update =
             (case JWTSecretBuild w (Some got) (AccountObj acc) nextJWT of
                Inl err \<Rightarrow>
                  (([], False, Some err), MarkSeedSecretUnknown ReasonUnknownError (Error err, []) acc, [])
              | Inr want \<Rightarrow>
                  (case ClientUpdate w want of
                     Some err \<Rightarrow>
                       (([], False, Some err), MarkSeedSecretUnknown ReasonUnknownError (Error err, []) acc,
                        [UpdateSecret want])
                   | None \<Rightarrow>
                       ((nextJWT, True, None), MarkJWTSecretReady acc,
                        [UpdateSecret want,
                         RecordEvent EventTypeNormal ''SeedSecretUpdated''
                           (''updated secret: %s/%s'', [sec_Namespace want, sec_Name want])])))
           in case jwt_Decode w gotJWT of
                Inl err \<Rightarrow> update
              | Inr gotClaims \<Rightarrow>
                  if \<not> Equality_DeepEqual gotClaims wantClaims then update
                  else ((gotJWT, True, None), MarkJWTSecretReady acc, [])))"

text \<open>\<open>AccountReconciler.reconcileJWTSecret\<close>\<close>

definition acc_reconcileJWTSecret ::
  "World \<Rightarrow> Account \<Rightarrow> nkeys_KeyPair \<Rightarrow> (string \<times> bool \<times> error option) \<times> Account \<times> effect list" where
  "acc_reconcileJWTSecret w acc issuerKP =
     (case nsc_CreateAccountClaims w acc issuerKP of
        Inl err \<Rightarrow> (([], False, Some err), MarkJWTSecretFailed ReasonUnknownError (Error err, []) acc, [])
      | Inr (wantClaims, nextJWT) \<Rightarrow>
          (case SecretsGet w (Namespace acc) (acc_JWTSecretName acc) of
             Inl err \<Rightarrow>
               if IsNotFound err then
                 (let (e, acc', effs) = acc_createJWTSecret w acc nextJWT in ((nextJWT, True, e), acc', effs))
               else (([], False, Some err), MarkJWTSecretUnknown ReasonUnknownError (Error err, []) acc, [])
           | Inr got \<Rightarrow> acc_ensureJWTSecretUpToDate w acc wantClaims got nextJWT))"

text \<open>\<open>AccountReconciler.loadCAFile\<close> and \<open>AccountReconciler.getNATSOptions\<close>\<close>

definition loadCAFile :: "World \<Rightarrow> string \<Rightarrow> SecretKeySelector \<Rightarrow> error + string" where
  "loadCAFile w ns selector =
     (case SecretsGet w ns (sel_Name selector) of
        Inl err \<Rightarrow> Inl (Wrapped ''failed to get caFile secret'' err)
      | Inr secret \<Rightarrow>
          (let key = (if sel_Key selector \<noteq> [] then sel_Key selector else ''ca.crt'')
           in case map_of (sec_Data secret) key of
                None \<Rightarrow> Inl (OtherError (''caFile secret missing key '' @ key))
              | Some caFile \<Rightarrow> Inr caFile))"

definition getNATSOptions :: "World \<Rightarrow> Operator \<Rightarrow> error + nats_Option list" where
  "getNATSOptions w operator =
     (case TLSConfig operator of
        None \<Rightarrow> Inr []
      | Some tlsConfig \<Rightarrow>
          (case CAFile tlsConfig of
             Some caFileSelector \<Rightarrow>
               (case loadCAFile w (Namespace operator) caFileSelector of
                  Inl err \<Rightarrow> Inl (Wrapped ''failed to load CA file'' err)
                | Inr caFile \<Rightarrow> Inr [CABundle caFile])
           | None \<Rightarrow> Inl (OtherError ''invalid TLS config: missing CA file'')))"

text \<open>\<open>AccountReconciler.ensureJWTPushed\<close>\<close>

definition ensureJWTPushed ::
  "World \<Rightarrow> Account \<Rightarrow> Operator \<Rightarrow> nkeys_KeyPair \<Rightarrow> string \<Rightarrow> error option \<times> Account \<times> effect list" where
  "ensureJWTPushed w acc operator issuer ajwt =
     (case SysAccountLoader_Load w operator of
        Inl err \<Rightarrow> (Some err, MarkJWTPushFailed ReasonUnknownError (Error err, []) acc, [])
      | Inr sysSeed \<Rightarrow>
          (case getNATSOptions w operator of
             Inl err \<Rightarrow> (Some err, MarkJWTPushFailed ReasonUnknownError (Error err, []) acc, [])
           | Inr opts \<Rightarrow>
               (case nsc_Connect w (AccountServerURL operator) issuer sysSeed opts of
                  Some err \<Rightarrow>
                    (Some err, MarkJWTPushFailed ReasonUnknownError (Error err, []) acc,
                     [RemoteConnect (AccountServerURL operator)])
                | None \<Rightarrow>
                    (case nsc_Push w ajwt of
                       Some err \<Rightarrow>
                         (Some err, MarkJWTPushFailed ReasonJWTPushError (Error err, []) acc,
                          [RemoteConnect (AccountServerURL operator), RemotePush ajwt, RemoteClose])
                     | None \<Rightarrow>
                         (None, MarkJWTPushed acc,
                          [RemoteConnect (AccountServerURL operator), RemotePush ajwt, RemoteClose])))))"

text \<open>\<open>AccountReconciler.finalizeAccount\<close>\<close>

definition finalizeAccount :: "World \<Rightarrow> Account \<Rightarrow> error option \<times> Account \<times> effect list" where
  "finalizeAccount w acc =
     (if \<not> IsTrue (GetCondition (Conditions acc) JWTSecretReady) then (None, acc, [])
      else if \<not> IsTrue (GetCondition (Conditions acc) JWTPushed) then (None, acc, [])
      else
        case OperatorRef acc of
          None \<Rightarrow> (Some (Panic ''nil pointer dereference: acc.Status.OperatorRef''), acc, [])
        | Some operatorRef \<Rightarrow>
        (case OperatorsGet w (ref_Namespace operatorRef) (ref_Name operatorRef) of
           Inl err \<Rightarrow>
             if IsNotFound err then (None, acc, [])
             else (Some (Wrapped ''operator could not be loaded'' err), acc, [])
         | Inr operator \<Rightarrow>
        (case StatusKeyPair operator of
           None \<Rightarrow> (Some (OtherError ''operator not ready''), acc, [])
         | Some operatorKeyPair \<Rightarrow>
        (case SecretsGet w (Namespace operator) (SeedSecretName operatorKeyPair) of
           Inl err \<Rightarrow> (Some (Wrapped ''unable to load operator seed'' err), acc, [])
         | Inr operatorSeed \<Rightarrow>
        (case map_of (sec_Data operatorSeed) NatsSecretSeedKey of
           None \<Rightarrow> (Some (OtherError ''operator seed secret missing property, seed''), acc, [])
         | Some operatorSeedData \<Rightarrow>
        (case nkeys_FromSeed w operatorSeedData of
           Inl err \<Rightarrow> (Some (Wrapped ''failed to parse operator seed data'' err), acc, [])
         | Inr operatorKP \<Rightarrow>
        (case SysAccountLoader_Load w operator of
           Inl err \<Rightarrow> if IsNotFound err then (None, acc, []) else (Some err, acc, [])
         | Inr sysSeed \<Rightarrow>
        (case getNATSOptions w operator of
           Inl err \<Rightarrow> (Some err, MarkJWTPushFailed ReasonUnknownError (Error err, []) acc, [])
         | Inr opts \<Rightarrow>
        (case nsc_Connect w (AccountServerURL operator) operatorKP sysSeed opts of
           Some err \<Rightarrow> (Some err, acc, [RemoteConnect (AccountServerURL operator)])
         | None \<Rightarrow>
        (case StatusKeyPair acc of
           None \<Rightarrow>
             (Some (Panic ''nil pointer dereference: acc.Status.KeyPair''), acc,
              [RemoteConnect (AccountServerURL operator), RemoteClose])
         | Some keyPair \<Rightarrow>
             (nsc_Delete w (PublicKey keyPair), acc,
              [RemoteConnect (AccountServerURL operator), RemoteDelete (PublicKey keyPair),
               RemoteClose])))))))))))"

text \<open>
  The publication step that ends the pipeline of \<open>AccountReconciler.Reconcile\<close>. The
  Operator is nil when the issuer is a Signing Key whose owner could not be resolved
  and the failure was recorded as a condition: the helper then dereferences nil.
\<close>

definition publish ::
  "World \<Rightarrow> Account \<Rightarrow> Operator option \<Rightarrow> nkeys_KeyPair \<Rightarrow> string \<Rightarrow> error option \<times> Account \<times> effect list" where
  "publish w acc operator issuerKP accountJWT =
     (case operator of
        None \<Rightarrow> (Some (Panic ''nil pointer dereference: operator''), acc, [])
      | Some op \<Rightarrow>
          if \<not> IsSystemAccount acc op then ensureJWTPushed w acc op issuerKP accountJWT
          else (None, MarkJWTPushed acc, []))"

text \<open>The pipeline of \<open>AccountReconciler.Reconcile\<close>, run while the deletion timestamp is zero.\<close>

definition acc_pipeline :: "World \<Rightarrow> Account \<Rightarrow> error option \<times> Account \<times> effect list" where
  "acc_pipeline w acc0 =
     (let ((ok, err), acc1, e1) = acc_reconcileSeedSecret w acc0 in
      if err \<noteq> None \<or> \<not> ok then (err, acc1, e1)
      else
        let (keyPairable, ok, err) = resolveIssuer w (acc_Issuer acc1) (Namespace acc1) in
        if err \<noteq> None \<or> \<not> ok then
          (case err of
             None \<Rightarrow> (Some (Panic ''nil pointer dereference: err''), acc1, e1)
           | Some _ \<Rightarrow>
               (if ok then None else err,
                markFromError err MarkIssuerResolveFailed MarkIssuerResolveUnknown acc1, e1))
        else
          case keyPairable of
            None \<Rightarrow> (Some (Panic ''nil pointer dereference: keyPairable''), acc1, e1)
          | Some issuer \<Rightarrow>
          let ((operator, ok, err), acc2) = resolveOperator w acc1 issuer in
          if err \<noteq> None \<or> \<not> ok then (err, acc2, e1)
          else
            let (err, acc3, e3) = ensureSigningKeysUpdated w acc2 in
            if err \<noteq> None then (err, acc3, e1 @ e3)
            else
              let ((issuerKP, ok, err), acc4) = acc_loadIssuerSeed w acc3 issuer in
              if err \<noteq> None \<or> \<not> ok then (if ok then None else err, acc4, e1 @ e3)
              else
                case issuerKP of
                  None \<Rightarrow> (Some (Panic ''nil pointer dereference: issuerKP''), acc4, e1 @ e3)
                | Some kp \<Rightarrow>
                let ((accountJWT, ok, err), acc5, e5) = acc_reconcileJWTSecret w acc4 kp in
                if err \<noteq> None \<or> \<not> ok then (err, acc5, e1 @ e3 @ e5)
                else
                  let (err, acc6, e6) = publish w acc5 operator kp accountJWT in
                    (err, acc6, e1 @ e3 @ e5 @ e6))"

text \<open>
  \<open>AccountReconciler.Reconcile\<close>, after the Account was fetched: the finalizer
  handling, the pipeline, and the deferred status update. It returns the error handed
  to the controller runtime, the Account as it stands in memory, and the effects.
\<close>

definition acc_reconcile :: "World \<Rightarrow> Account \<Rightarrow> error option \<times> Account \<times> effect list" where
  "acc_reconcile w acc =
     (if DeletionTimestamp acc = None then
        (if AccountFinalizer \<notin> set (Finalizers acc) then
           (let acc1 = acc\<lparr>Finalizers := Finalizers acc @ [AccountFinalizer]\<rparr> in
              case UpdateAccount w acc1 of
                Some err \<Rightarrow> (Some err, acc1, [UpdateObject (AccountObj acc1)])
              | None \<Rightarrow>
                  (let (err, acc2, effs) = acc_pipeline w acc1
                   in (err, acc2, UpdateObject (AccountObj acc1) # effs)))
         else acc_pipeline w acc)
      else
        (if AccountFinalizer \<in> set (Finalizers acc) then
           (let (err, acc1, e1) = finalizeAccount w acc in
              if err \<noteq> None then (err, acc1, e1)
              else
                (let acc2 = acc1\<lparr>Finalizers := removeAll AccountFinalizer (Finalizers acc1)\<rparr>
                 in (UpdateAccount w acc2, acc2, e1 @ [UpdateObject (AccountObj acc2)])))
         else (None, acc, [])))"

definition Account_Reconcile :: "World \<Rightarrow> string \<Rightarrow> string \<Rightarrow> error option \<times> Account option \<times> effect list" where
  "Account_Reconcile w ns name =
     (case AccountsGet w ns name of
        Inl err \<Rightarrow> (if IsNotFound err then None else Some err, None, [])
      | Inr fetched \<Rightarrow>
          (let originalStatus = acc_Status fetched;
               acc = fetched\<lparr>Conditions := InitializeConditions AccountConditionSet (Conditions fetched)\<rparr>;
               (err, acc', effs) = acc_reconcile w acc
           in if originalStatus \<noteq> acc_Status acc' then
                (case StatusUpdateAccount w acc' of
                   Some err2 \<Rightarrow> (multierr_Append err err2, Some acc', effs @ [UpdateStatus (AccountObj acc')])
                 | None \<Rightarrow> (err, Some acc', effs @ [UpdateStatus (AccountObj acc')]))
              else (err, Some acc', effs)))"

section \<open>The user controller\<close>

type_synonym UserStatus = "conditions \<times> KeyPair option \<times> InferredObjectReference option"

definition usr_Status :: "User \<Rightarrow> UserStatus" where
  "usr_Status usr = (Conditions usr, StatusKeyPair usr, AccountRef usr)"

text \<open>\<open>UserReconciler.createSeedSecret\<close>\<close>

definition usr_createSeedSecret ::
  "World \<Rightarrow> User \<Rightarrow> (string \<times> bool \<times> error option) \<times> User \<times> effect list" where
  "usr_createSeedSecret w usr =
     (case nkeys_CreateUser w of
        Inl err \<Rightarrow>
          (([], False, Some err), MarkSeedSecretFailed ReasonUnknownError (Error err, []) usr,
           [GenerateKeyPair PrefixByteUser])
      | Inr kp \<Rightarrow>
          (case KeyPairSecretBuild w None (UserObj usr) kp of
             Inl err \<Rightarrow>
               (([], False, Some err), MarkSeedSecretFailed ReasonUnknownError (Error err, []) usr,
                [GenerateKeyPair PrefixByteUser])
           | Inr secret \<Rightarrow>
               (case ClientCreate w secret of
                  Some err \<Rightarrow>
                    (([], False, Some err), MarkSeedSecretFailed ReasonUnknownError (Error err, []) usr,
                     [GenerateKeyPair PrefixByteUser, CreateSecret secret])
                | None \<Rightarrow>
                    (let effs = [GenerateKeyPair PrefixByteUser, CreateSecret secret,
                                 RecordEvent EventTypeNormal ''SeedSecretCreated''
                                   (''created secret: %s/%s'', [sec_Namespace secret, sec_Name secret])]
                     in case kp_PublicKey kp of
                          Inl err \<Rightarrow>
                            (([], True, Some err),
                             MarkSeedSecretFailed ReasonUnknownError (Error err, []) usr, effs)
                        | Inr pubkey \<Rightarrow>
                            (((case kp_Seed kp of Inr sd \<Rightarrow> sd | Inl _ \<Rightarrow> []), True, None),
                             MarkSeedSecretReady pubkey (sec_Name secret) usr, effs)))))"

text \<open>\<open>UserReconciler.reconcileSeedSecret\<close>\<close>

definition usr_reconcileSeedSecret ::
  "World \<Rightarrow> User \<Rightarrow> (string \<times> bool \<times> error option) \<times> User \<times> effect list" where
  "usr_reconcileSeedSecret w usr =
     (case SecretsGet w (Namespace usr) (usr_SeedSecretName usr) of
        Inl err \<Rightarrow>
          if IsNotFound err then usr_createSeedSecret w usr
          else (([], False, Some err), MarkSeedSecretUnknown ReasonUnknownError (Error err, []) usr, [])
      | Inr got \<Rightarrow>
          (let ((kp, ok, err), effs) = base_ensureSeedSecretUpToDate w (UserObj usr) got in
             if err \<noteq> None \<or> \<not> ok then
               (case err of
                  None \<Rightarrow> (([], False, Some (Panic ''nil pointer dereference: err'')), usr, effs)
                | Some _ \<Rightarrow>
                    (([], ok, err), markFromError err MarkSeedSecretFailed MarkSeedSecretUnknown usr, effs))
             else
               (case kp of
                  None \<Rightarrow> (([], False, Some (Panic ''nil pointer dereference: kp'')), usr, effs)
                | Some kp \<Rightarrow>
                    (let seedBytes = (case kp_Seed kp of Inr sd \<Rightarrow> sd | Inl _ \<Rightarrow> []);
                         pubkey = (case kp_PublicKey kp of Inr pk \<Rightarrow> pk | Inl _ \<Rightarrow> [])
                     in ((seedBytes, True, None),
                         MarkSeedSecretReady pubkey (usr_SeedSecretName usr) usr, effs)))))"

text \<open>\<open>UserReconciler.resolveAccount\<close>\<close>

definition resolveAccount ::
  "World \<Rightarrow> User \<Rightarrow> object \<Rightarrow> (Account option \<times> bool \<times> error option) \<times> User" where
  "resolveAccount w usr keyPair =
     (let resolved = (\<lambda>account.
            ((Some account, True, None),
             MarkAccountResolved \<lparr>ref_Namespace = Namespace account, ref_Name = Name account\<rparr> usr))
      in case keyPair of
           AccountObj v \<Rightarrow> resolved v
         | SigningKeyObj v \<Rightarrow>
             (let (owner, ok, err) = resolveSigningKeyOwner w v in
                if err \<noteq> None \<or> \<not> ok then
                  (if panicked err \<or> err = None then
                     ((None, False, Some (Panic (case err of Some e \<Rightarrow> Error e | None \<Rightarrow> ''nil error''))), usr)
                   else
                     (let usr' = markFromError err MarkAccountResolveFailed MarkAccountResolveUnknown usr
                      in if ok then ((None, True, None), usr') else ((None, False, err), usr')))
                else
                  (case owner of
                     Some (AccountObj account) \<Rightarrow> resolved account
                   | Some other \<Rightarrow>
                       ((None, False, None),
                        MarkAccountResolveFailed ReasonInvalidSigningKeyOwner
                          (''user issuer is not owned by an Account, got: %s'', [obj_GVK_String other]) usr)
                   | None \<Rightarrow> ((None, False, Some (Panic ''nil pointer dereference: owner'')), usr)))
         | other \<Rightarrow>
             ((None, False, None),
              MarkAccountResolveFailed ReasonUnsupportedIssuer
                (''invalid keypair, expected Account or SigningKey, got: %s'', [obj_GVK_String other]) usr))"

text \<open>\<open>UserReconciler.createJWTSecret\<close>\<close>

definition usr_createJWTSecret ::
  "World \<Rightarrow> User \<Rightarrow> string \<Rightarrow> (bool \<times> error option) \<times> User \<times> effect list" where
  "usr_createJWTSecret w usr userJWT =
     (case JWTSecretBuild w None (UserObj usr) userJWT of
        Inl err \<Rightarrow> ((True, Some err), MarkJWTSecretFailed ReasonUnknownError (Error err, []) usr, [])
      | Inr secret \<Rightarrow>
          (case ClientCreate w secret of
             Some err \<Rightarrow>
               ((False, Some err), MarkJWTSecretFailed ReasonUnknownError (Error err, []) usr,
                [CreateSecret secret])
           | None \<Rightarrow>
               ((True, None), usr,
                [CreateSecret secret,
                 RecordEvent EventTypeNormal ''JWTSecretCreated''
                   (''created secret: %s/%s'', [sec_Namespace secret, sec_Name secret])])))"

text \<open>\<open>UserReconciler.ensureJWTSecretUpToDate\<close>\<close>

definition usr_ensureJWTSecretUpToDate ::
  "World \<Rightarrow> User \<Rightarrow> Claims \<Rightarrow> Secret \<Rightarrow> string \<Rightarrow> (string \<times> bool \<times> error option) \<times> User \<times> effect list" where
  "usr_ensureJWTSecretUpToDate w usr wantClaims got nextJWT =
     (case map_of (sec_Data got) NatsSecretJWTKey of
        None \<Rightarrow>
          (([], False, None),
           MarkJWTSecretFailed ReasonInvalidJWTSecret
             (''JWT secret does not contain JWT data, delete the secret to generate a new JWT'', []) usr,
           [])
      | Some gotJWT \<Rightarrow>
          (let update =
             (case JWTSecretBuild w (Some got) (UserObj usr) nextJWT of
                Inl err \<Rightarrow>
                  (([], True, Some err), MarkSeedSecretUnknown ReasonUnknownError (Error err, []) usr, [])
              | Inr want \<Rightarrow>
                  (case ClientUpdate w want of
                     Some err \<Rightarrow>
                       (([], False, Some err), MarkSeedSecretUnknown ReasonUnknownError (Error err, []) usr,
                        [UpdateSecret want])
                   | None \<Rightarrow>
                       ((nextJWT, True, None), MarkJWTSecretReady usr,
                        [UpdateSecret want,
                         RecordEvent EventTypeNormal ''SeedSecretUpdated''
                           (''updated secret: %s/%s'', [sec_Namespace want, sec_Name want])])))
           in case jwt_Decode w gotJWT of
                Inl err \<Rightarrow> update
              | Inr gotClaims \<Rightarrow>
                  if \<not> Equality_DeepEqual gotClaims wantClaims then update
                  else ((gotJWT, True, None), MarkJWTSecretReady usr, [])))"

text \<open>\<open>UserReconciler.reconcileJWTSecret\<close>\<close>

definition usr_reconcileJWTSecret ::
  "World \<Rightarrow> User \<Rightarrow> object \<Rightarrow> (string \<times> bool \<times> error option) \<times> User \<times> effect list" where
  "usr_reconcileJWTSecret w usr keyPairable =
     (let (issuerKP, ok, err) = base_loadIssuerSeed w keyPairable PrefixByteAccount in
      if err \<noteq> None \<or> \<not> ok then
        (if panicked err \<or> err = None then
           (([], False, Some (Panic (case err of Some e \<Rightarrow> Error e | None \<Rightarrow> ''nil error''))), usr, [])
         else (([], ok, err), markFromError err MarkIssuerResolveFailed MarkIssuerResolveUnknown usr, []))
      else
        case issuerKP of
          None \<Rightarrow> (([], False, Some (Panic ''nil pointer dereference: issuerKP'')), usr, [])
        | Some kp \<Rightarrow>
            (let usr1 = MarkIssuerResolved usr in
               case nsc_CreateUserClaims w usr1 kp of
                 Inl err \<Rightarrow>
                   (([], False, None), MarkJWTSecretFailed ReasonUnknownError (Error err, []) usr1, [])
               | Inr (wantClaims, nextJWT) \<Rightarrow>
                   (case SecretsGet w (Namespace usr1) (usr_JWTSecretName usr1) of
                      Inl err \<Rightarrow>
                        if IsNotFound err then
                          (let ((ok, err), usr2, effs) = usr_createJWTSecret w usr1 nextJWT in
                             if err \<noteq> None \<or> \<not> ok then (([], ok, err), usr2, effs)
                             else ((nextJWT, True, None), usr2, effs))
                        else
                          (([], False, Some err),
                           MarkJWTSecretUnknown ReasonUnknownError (Error err, []) usr1, [])
                    | Inr got \<Rightarrow> usr_ensureJWTSecretUpToDate w usr1 wantClaims got nextJWT)))"

text \<open>\<open>UserReconciler.createCredentialsSecret\<close>\<close>

definition createCredentialsSecret ::
  "World \<Rightarrow> User \<Rightarrow> string \<Rightarrow> string \<Rightarrow> error option \<times> User \<times> effect list" where
  "createCredentialsSecret w usr ujwt seed =
     (case UserCredentialSecretBuild w None (UserObj usr) ujwt seed of
        Inl err \<Rightarrow> (Some err, MarkCredentialsSecretFailed ReasonUnknownError (Error err, []) usr, [])
      | Inr secret \<Rightarrow>
          (case ClientCreate w secret of
             Some err \<Rightarrow>
               (Some err, MarkCredentialsSecretFailed ReasonUnknownError (Error err, []) usr,
                [CreateSecret secret])
           | None \<Rightarrow>
               (None, MarkCredentialsSecretReady usr,
                [CreateSecret secret,
                 RecordEvent EventTypeNormal ''CredentialsSecretCreated''
                   (''created secret: %s/%s'', [sec_Namespace secret, sec_Name secret])])))"

text \<open>\<open>UserReconciler.ensureCredentialsSecretUpToDate\<close>\<close>

definition ensureCredentialsSecretUpToDate ::
  "World \<Rightarrow> User \<Rightarrow> string \<Rightarrow> string \<Rightarrow> Secret \<Rightarrow> error option \<times> User \<times> effect list" where
  "ensureCredentialsSecretUpToDate w usr ujwt seed got =
     (case UserCredentialSecretBuild w (Some got) (UserObj usr) ujwt seed of
        Inl err \<Rightarrow>
          (let err' = Wrapped ''failed to build desired credentials secret'' err
           in (Some err', MarkCredentialsSecretFailed ReasonUnknownError (Error err', []) usr, []))
      | Inr want \<Rightarrow>
          if got = want then (None, MarkCredentialsSecretReady usr, [])
          else
            (case ClientUpdate w want of
               Some err \<Rightarrow>
                 (let err' = Wrapped ''failed to update credentials secret'' err
                  in (Some err', MarkCredentialsSecretFailed ReasonUnknownError (Error err', []) usr,
                      [UpdateSecret want]))
             | None \<Rightarrow>
                 (None, MarkCredentialsSecretReady usr,
                  [UpdateSecret want,
                   RecordEvent EventTypeNormal ''CredentialsSecretUpdated''
                     (''updated secret: %s/%s'', [sec_Namespace want, sec_Name want])])))"

text \<open>\<open>UserReconciler.reconcileUserCredentialSecret\<close>\<close>

definition reconcileUserCredentialSecret ::
  "World \<Rightarrow> User \<Rightarrow> string \<Rightarrow> string \<Rightarrow> error option \<times> User \<times> effect list" where
  "reconcileUserCredentialSecret w usr ujwt seed =
     (case SecretsGet w (Namespace usr) (usr_CredentialsSecretName usr) of
        Inl err \<Rightarrow>
          if IsNotFound err then createCredentialsSecret w usr ujwt seed
          else (Some err, MarkCredentialsSecretUnknown ReasonUnknownError (Error err, []) usr, [])
      | Inr got \<Rightarrow> ensureCredentialsSecretUpToDate w usr ujwt seed got)"

text \<open>
  \<open>UserReconciler.Reconcile\<close>, after the User was fetched and its conditions
  initialised, up to the deferred status update.
\<close>

definition usr_pipeline :: "World \<Rightarrow> User \<Rightarrow> error option \<times> User \<times> effect list" where
  "usr_pipeline w usr0 =
     (let ((seed, ok, err), usr1, e1) = usr_reconcileSeedSecret w usr0 in
      if err \<noteq> None \<or> \<not> ok then (err, usr1, e1)
      else
        let (keyPairable, ok, err) = resolveIssuer w (usr_Issuer usr1) (Namespace usr1) in
        if err \<noteq> None \<or> \<not> ok then
          (case err of
             None \<Rightarrow> (Some (Panic ''nil pointer dereference: err''), usr1, e1)
           | Some _ \<Rightarrow>
               (if ok then None else err,
                markFromError err MarkIssuerResolveFailed MarkIssuerResolveUnknown usr1, e1))
        else
          case keyPairable of
            None \<Rightarrow> (Some (Panic ''nil pointer dereference: keyPairable''), usr1, e1)
          | Some issuer \<Rightarrow>
          let ((account, ok, err), usr2) = resolveAccount w usr1 issuer in
          if err \<noteq> None \<or> \<not> ok then (err, usr2, e1)
          else
            let ((ujwt, ok, err), usr3, e3) = usr_reconcileJWTSecret w usr2 issuer in
            if err \<noteq> None \<or> \<not> ok then
              (if ok then None else err, usr3, e1 @ e3)
            else
              let (err, usr4, e4) = reconcileUserCredentialSecret w usr3 ujwt seed in
                (err, usr4, e1 @ e3 @ e4))"

definition User_Reconcile :: "World \<Rightarrow> string \<Rightarrow> string \<Rightarrow> error option \<times> User option \<times> effect list" where
  "User_Reconcile w ns name =
     (case UsersGet w ns name of
        Inl err \<Rightarrow> (if IsNotFound err then None else Some err, None, [])
      | Inr fetched \<Rightarrow>
          (let originalStatus = usr_Status fetched;
               usr = fetched\<lparr>Conditions := InitializeConditions UserConditionSet (Conditions fetched)\<rparr>;
               (err, usr', effs) = usr_pipeline w usr
           in if originalStatus \<noteq> usr_Status usr' then
                (case StatusUpdateUser w usr' of
                   Some err2 \<Rightarrow> (multierr_Append err err2, Some usr', effs @ [UpdateStatus (UserObj usr')])
                 | None \<Rightarrow> (err, Some usr', effs @ [UpdateStatus (UserObj usr')]))
              else (err, Some usr', effs)))"

section \<open>The superseded revision of the account controller\<close>

text \<open>
  \<open>controllers/account_controller.go\<close> holds an earlier revision of the account
  controller, in which the system-account test is a method of the reconciler and
  guards the two places that publish a token. The collaborators this revision has
  beyond those of \<open>World\<close>: \<open>nsc.CreateAccount\<close>, which returns the signed token, the
  public key and the seed of a new account; \<open>createOrUpdateSecret\<close> and the secret
  client's \<open>Update\<close>; the \<open>PushJWT\<close> and \<open>UpdateJWT\<close> calls of the NSC helper; the
  decoding and encoding of account claims; and \<open>isEqualUnordered\<close>.
\<close>

record AccountClaims =
  ac_Subject :: string
  ac_SigningKeys :: "string list"
  ac_Content :: string

record Superseded =
  nsc_CreateAccount :: "string \<Rightarrow> AccountClaims \<Rightarrow> nkeys_KeyPair \<Rightarrow> error + (string \<times> string \<times> string)"
  createOrUpdateSecret :: "Secret \<Rightarrow> bool \<Rightarrow> error option"
  Secrets_Update :: "Secret \<Rightarrow> error option"
  nsc_PushJWT :: "string \<Rightarrow> error option"
  nsc_UpdateJWT :: "string \<Rightarrow> string \<Rightarrow> error option"
  jwt_DecodeAccountClaims :: "string \<Rightarrow> error + AccountClaims"
  claims_Encode :: "AccountClaims \<Rightarrow> nkeys_KeyPair \<Rightarrow> error + string"
  isEqualUnordered :: "string list \<Rightarrow> string list \<Rightarrow> bool"

text \<open>The writes and remote calls of the superseded revision, in the order issued.\<close>

datatype call =
    WriteSecret Secret bool
  | UpdateSecretData Secret
  | PushJWT string
  | UpdateJWT string string

definition NewSecret :: "string \<Rightarrow> string \<Rightarrow> (string \<times> string) list \<Rightarrow> bool \<Rightarrow> Secret" where
  "NewSecret name ns data immutable =
     \<lparr>sec_Name = name, sec_Namespace = ns, sec_Data = data, sec_Immutable = immutable,
      sec_Controller = None\<rparr>"

definition errors_IsNotFound :: "error option \<Rightarrow> bool" where
  "errors_IsNotFound err = (case err of None \<Rightarrow> False | Some e \<Rightarrow> IsNotFound e)"

text \<open>
  \<open>AccountReconciler.isSystemAccount\<close> (superseded revision). It returns a flag and an
  error; dereferencing a nil operator reference or a nil resolved system account panics
  (\<open>Inl\<close>).
\<close>

definition isSystemAccount :: "World \<Rightarrow> Account \<Rightarrow> error + (bool \<times> error option)" where
  "isSystemAccount w acc =
     (if \<not> IsTrue (GetCondition (Conditions acc) OperatorResolved) then Inr (True, None)
      else
        case OperatorRef acc of
          None \<Rightarrow> Inl (Panic ''nil pointer dereference: acc.Status.OperatorRef'')
        | Some operatorRef \<Rightarrow>
            (case OperatorsGet w (ref_Namespace operatorRef) (ref_Name operatorRef) of
               Inl err \<Rightarrow> Inr (True, Some err)
             | Inr operator \<Rightarrow>
                 if \<not> IsTrue (GetCondition (Conditions operator) SystemAccountResolved)
                 then Inr (True, None)
                 else
                   (case ResolvedSystemAccount operator of
                      None \<Rightarrow>
                        Inl (Panic ''nil pointer dereference: operator.Status.ResolvedSystemAccount'')
                    | Some sys \<Rightarrow>
                        if Name acc = ref_Name sys \<and> Namespace acc = ref_Namespace sys
                        then Inr (True, None)
                        else Inr (False, None))))"

text \<open>\<open>AccountReconciler.updateAccountJWTSigningKeys\<close> (superseded revision)\<close>

definition updateAccountJWTSigningKeys ::
  "World \<Rightarrow> Superseded \<Rightarrow> Account \<Rightarrow> string \<Rightarrow> Secret \<Rightarrow> string list \<Rightarrow> error option \<times> call list" where
  "updateAccountJWTSigningKeys w s acc operatorSeed jwtSecret sKeys =
     (let accJWTEncoded = (case map_of (sec_Data jwtSecret) NatsSecretJWTKey of
                             Some j \<Rightarrow> j | None \<Rightarrow> [])
      in case jwt_DecodeAccountClaims s accJWTEncoded of
           Inl err \<Rightarrow> (Some err, [])
         | Inr decoded \<Rightarrow>
             if isEqualUnordered s (ac_SigningKeys decoded) sKeys then (None, [])
             else
               (let accClaims = decoded\<lparr>ac_SigningKeys := sKeys\<rparr> in
                case nkeys_FromSeed w operatorSeed of
                  Inl err \<Rightarrow> (Some err, [])
                | Inr kPair \<Rightarrow>
                    (case claims_Encode s accClaims kPair of
                       Inl err \<Rightarrow> (Some err, [])
                     | Inr ajwt \<Rightarrow>
                         (let updated = jwtSecret\<lparr>sec_Data :=
                                          AList.update NatsSecretJWTKey ajwt (sec_Data jwtSecret)\<rparr>
                          in case Secrets_Update s updated of
                               Some err \<Rightarrow> (Some err, [UpdateSecretData updated])
                             | None \<Rightarrow>
                                 (case isSystemAccount w acc of
                                    Inl p \<Rightarrow> (Some p, [UpdateSecretData updated])
                                  | Inr (isSys, err) \<Rightarrow>
                                      if err = None \<and> \<not> isSys then
                                        (nsc_UpdateJWT s (ac_Subject accClaims) ajwt,
                                         [UpdateSecretData updated,
                                          UpdateJWT (ac_Subject accClaims) ajwt])
                                      else (None, [UpdateSecretData updated]))))))"

text \<open>\<open>AccountReconciler.ensureSeedJWTSecrets\<close> (superseded revision)\<close>

definition ensureSeedJWTSecrets ::
  "World \<Rightarrow> Superseded \<Rightarrow> Account \<Rightarrow> SigningKeyEmbeddedStatus list \<Rightarrow> string \<Rightarrow>
     error option \<times> Account \<times> call list" where
  "ensureSeedJWTSecrets w s acc sKeys opSkey =
     (let gotSeed = SecretsGet w (Namespace acc) (acc_SeedSecretName acc);
          gotJWT = SecretsGet w (Namespace acc) (acc_JWTSecretName acc);
          errSeed = (case gotSeed of Inl e \<Rightarrow> Some e | Inr _ \<Rightarrow> None);
          errJWT = (case gotJWT of Inl e \<Rightarrow> Some e | Inr _ \<Rightarrow> None);
          sKeysPublicKeys = map (\<lambda>sk. PublicKey (sk_KeyPair sk)) sKeys
      in
      if errors_IsNotFound errSeed \<or> errors_IsNotFound errJWT then
        (let accClaims = \<lparr>ac_Subject = [], ac_SigningKeys = sKeysPublicKeys,
                          ac_Content = acc_Claims acc\<rparr>
         in case nkeys_FromSeed w opSkey of
              Inl err \<Rightarrow> (Some err, acc, [])
            | Inr kPair \<Rightarrow>
         (case nsc_CreateAccount s (Name acc) accClaims kPair of
            Inl err \<Rightarrow> (Some err, acc, [])
          | Inr (ajwt, publicKey, seed) \<Rightarrow>
         (case SetControllerReference w (AccountObj acc)
                 (NewSecret (acc_JWTSecretName acc) (Namespace acc) [(NatsSecretJWTKey, ajwt)] False) of
            Inl err \<Rightarrow> (Some err, acc, [])
          | Inr jwtSecret \<Rightarrow>
         (let w1 = [WriteSecret jwtSecret (\<not> errors_IsNotFound errJWT)] in
          case createOrUpdateSecret s jwtSecret (\<not> errors_IsNotFound errJWT) of
            Some err \<Rightarrow> (Some err, acc, w1)
          | None \<Rightarrow>
         (case SetControllerReference w (AccountObj acc)
                 (NewSecret (acc_SeedSecretName acc) (Namespace acc) [(NatsSecretSeedKey, seed)] True) of
            Inl err \<Rightarrow> (Some err, acc, w1)
          | Inr seedSecret \<Rightarrow>
         (let w2 = w1 @ [WriteSecret seedSecret (\<not> errors_IsNotFound errSeed)];
              ready = (\<lambda>a. MarkSeedSecretReady publicKey (sec_Name seedSecret)
                               (MarkJWTSecretReady (MarkJWTPushed a)))
          in case createOrUpdateSecret s seedSecret (\<not> errors_IsNotFound errSeed) of
               Some err \<Rightarrow> (Some err, acc, w2)
             | None \<Rightarrow>
                 (case isSystemAccount w acc of
                    Inl p \<Rightarrow> (Some p, acc, w2)
                  | Inr (isSys, err) \<Rightarrow>
                      if err = None \<and> \<not> isSys then
                        (case nsc_PushJWT s ajwt of
                           Some err \<Rightarrow>
                             (None,
                              MarkJWTPushFailed
                                (ReasonLiteral ''failed to push account jwt to nats server'')
                                (''error: %s'', [Error err]) acc,
                              w2 @ [PushJWT ajwt])
                         | None \<Rightarrow> (None, ready acc, w2 @ [PushJWT ajwt]))
                      else if err \<noteq> None then (err, acc, w2)
                      else (None, ready acc, w2))))))))
      else
        case errSeed of
          Some err \<Rightarrow>
            (Some err, MarkSeedSecretUnknown (ReasonLiteral ''failed to get seed secret'') ([], []) acc, [])
        | None \<Rightarrow>
            (case gotJWT of
               Inl err \<Rightarrow>
                 (Some err,
                  MarkJWTPushUnknown (ReasonLiteral ''failed to get jwt secret'') ([], [])
                    (MarkJWTSecretUnknown (ReasonLiteral ''failed to get jwt secret'') ([], []) acc),
                  [])
             | Inr jwtSec \<Rightarrow>
                 (let (err, calls) =
                        updateAccountJWTSigningKeys w s acc opSkey jwtSec sKeysPublicKeys
                  in if err \<noteq> None then
                       (None,
                        MarkJWTSecretUnknown
                          (ReasonLiteral ''failed to update account JWT with signing keys'') ([], [])
                          (MarkJWTPushUnknown
                             (ReasonLiteral ''failed to update account JWT with signing keys'') ([], [])
                             acc),
                        calls)
                     else (None, acc, calls))))"

section \<open>Notions the properties are stated with\<close>

text \<open>The kinds of effect a pass can have.\<close>

fun isSecretWrite :: "effect \<Rightarrow> bool" where
  "isSecretWrite (CreateSecret _) = True"
| "isSecretWrite (UpdateSecret _) = True"
| "isSecretWrite _ = False"

fun isRemoteCall :: "effect \<Rightarrow> bool" where
  "isRemoteCall (RemoteConnect _) = True"
| "isRemoteCall (RemotePush _) = True"
| "isRemoteCall (RemoteDelete _) = True"
| "isRemoteCall RemoteClose = True"
| "isRemoteCall _ = False"

fun isRemotePush :: "effect \<Rightarrow> bool" where
  "isRemotePush (RemotePush _) = True"
| "isRemotePush _ = False"

fun isRemoteDelete :: "effect \<Rightarrow> bool" where
  "isRemoteDelete (RemoteDelete _) = True"
| "isRemoteDelete _ = False"

fun isKeyGeneration :: "effect \<Rightarrow> bool" where
  "isKeyGeneration (GenerateKeyPair _) = True"
| "isKeyGeneration _ = False"

fun isStatusUpdate :: "effect \<Rightarrow> bool" where
  "isStatusUpdate (UpdateStatus _) = True"
| "isStatusUpdate _ = False"

fun isEvent :: "effect \<Rightarrow> bool" where
  "isEvent (RecordEvent _ _ _) = True"
| "isEvent _ = False"

text \<open>The namespace \<open>resolveIssuer\<close> looks the issuer up in.\<close>

definition issuerNamespace :: "IssuerReference \<Rightarrow> string \<Rightarrow> string" where
  "issuerNamespace issuer fallbackNamespace =
     (if tref_Namespace (Ref issuer) \<noteq> [] then tref_Namespace (Ref issuer) else fallbackNamespace)"

text \<open>Fetching the referenced issuer fails with an error other than not-found.\<close>

definition transientFetchError :: "World \<Rightarrow> IssuerReference \<Rightarrow> string \<Rightarrow> bool" where
  "transientFetchError w issuer fallbackNamespace =
     (case SchemeNew w (GetGroupVersionKind (Ref issuer)) of
        Inl _ \<Rightarrow> False
      | Inr k \<Rightarrow>
          isClientObject k \<and>
          (case ClientGet w k (issuerNamespace issuer fallbackNamespace) (tref_Name (Ref issuer)) of
             Inl e \<Rightarrow> \<not> IsNotFound e
           | Inr _ \<Rightarrow> False))"

section \<open>Concrete worlds and resources\<close>

text \<open>A world in which nothing exists and every collaborator reports an error.\<close>

definition nothing :: World where
  "nothing =
     \<lparr>SchemeNew = (\<lambda>_. Inl (OtherError ''no kind is registered'')),
      ClientGet = (\<lambda>_ _ _. Inl (StatusNotFound ''not found'')),
      AccountsGet = (\<lambda>_ _. Inl (StatusNotFound ''not found'')),
      UsersGet = (\<lambda>_ _. Inl (StatusNotFound ''not found'')),
      OperatorsGet = (\<lambda>_ _. Inl (StatusNotFound ''not found'')),
      SecretsGet = (\<lambda>_ _. Inl (StatusNotFound ''not found'')),
      SigningKeysList = (\<lambda>_ _. Inr []),
      ClientCreate = (\<lambda>_. None),
      ClientUpdate = (\<lambda>_. None),
      UpdateAccount = (\<lambda>_. None),
      StatusUpdateAccount = (\<lambda>_. None),
      StatusUpdateUser = (\<lambda>_. None),
      nkeys_CreateAccount = Inl (OtherError ''no entropy''),
      nkeys_CreateUser = Inl (OtherError ''no entropy''),
      nkeys_FromSeed = (\<lambda>_. Inl (OtherError ''invalid seed'')),
      nkeys_DecodeSeed = (\<lambda>_. Inl (OtherError ''invalid seed'')),
      jwt_Decode = (\<lambda>_. Inl (OtherError ''invalid token'')),
      nsc_CreateAccountClaims = (\<lambda>_ _. Inl (OtherError ''cannot sign'')),
      nsc_CreateUserClaims = (\<lambda>_ _. Inl (OtherError ''cannot sign'')),
      SysAccountLoader_Load = (\<lambda>_. Inl (StatusNotFound ''not found'')),
      nsc_Connect = (\<lambda>_ _ _ _. Some (OtherError ''connection refused'')),
      nsc_Push = (\<lambda>_. Some (OtherError ''not connected'')),
      nsc_Delete = (\<lambda>_. Some (OtherError ''not connected'')),
      LabelSelectorAsSelector = (\<lambda>_. Inl (OtherError ''invalid selector'')),
      KeyPairSecretBuild = (\<lambda>_ _ _. Inl (OtherError ''cannot build'')),
      JWTSecretBuild = (\<lambda>_ _ _. Inl (OtherError ''cannot build'')),
      UserCredentialSecretBuild = (\<lambda>_ _ _ _. Inl (OtherError ''cannot build'')),
      SetControllerReference = (\<lambda>_ s. Inr s)\<rparr>"

definition operatorIssuer :: IssuerReference where
  "operatorIssuer =
     \<lparr>Ref = \<lparr>APIVersion = ''accounts.nats.io/v1alpha1'', Kind = ''Operator'', tref_Name = ''op'',
             tref_Namespace = [], tref_UID = []\<rparr>\<rparr>"

text \<open>The store knows the Operator kind but times out on every fetch.\<close>

definition timeoutWorld :: World where
  "timeoutWorld =
     nothing\<lparr>SchemeNew := (\<lambda>_. Inr OperatorKind),
             ClientGet := (\<lambda>_ _ _. Inl (OtherError ''timeout''))\<rparr>"

text \<open>
  The Operator as finalization loads it: fetched through the Account's operator
  reference, with the key pair decoded from the Operator's seed secret.
\<close>

definition loadedOperator :: "World \<Rightarrow> Account \<Rightarrow> (Operator \<times> nkeys_KeyPair) option" where
  "loadedOperator w acc =
     (case OperatorRef acc of
        None \<Rightarrow> None
      | Some operatorRef \<Rightarrow>
          (case OperatorsGet w (ref_Namespace operatorRef) (ref_Name operatorRef) of
             Inl _ \<Rightarrow> None
           | Inr operator \<Rightarrow>
               (case StatusKeyPair operator of
                  None \<Rightarrow> None
                | Some operatorKeyPair \<Rightarrow>
                    (case SecretsGet w (Namespace operator) (SeedSecretName operatorKeyPair) of
                       Inl _ \<Rightarrow> None
                     | Inr operatorSeed \<Rightarrow>
                         (case map_of (sec_Data operatorSeed) NatsSecretSeedKey of
                            None \<Rightarrow> None
                          | Some operatorSeedData \<Rightarrow>
                              (case nkeys_FromSeed w operatorSeedData of
                                 Inl _ \<Rightarrow> None
                               | Inr operatorKP \<Rightarrow> Some (operator, operatorKP)))))))"

definition operatorNotFound :: "World \<Rightarrow> Account \<Rightarrow> bool" where
  "operatorNotFound w acc =
     (case OperatorRef acc of
        None \<Rightarrow> False
      | Some operatorRef \<Rightarrow>
          (case OperatorsGet w (ref_Namespace operatorRef) (ref_Name operatorRef) of
             Inl e \<Rightarrow> IsNotFound e
           | Inr _ \<Rightarrow> False))"

definition trueCondition :: Condition where
  "trueCondition = \<lparr>Status = ConditionStatusTrue, Reason = None, Message = ([], [])\<rparr>"

definition theOperator :: Operator where
  "theOperator =
     \<lparr>Name = ''op'', Namespace = ''default'', UID = ''uid-op'', DeletionTimestamp = None, Finalizers = [],
      Conditions = [(SeedSecretReady, trueCondition), (SystemAccountResolved, trueCondition),
                    (SigningKeysUpdated, trueCondition), (JWTSecretReady, trueCondition)],
      StatusKeyPair = Some \<lparr>PublicKey = ''OPUB'', SeedSecretName = ''op-seed''\<rparr>,
      AccountServerURL = ''nats://nats:4222'', TLSConfig = None,
      ResolvedSystemAccount = Some \<lparr>ref_Namespace = ''default'', ref_Name = ''sys''\<rparr>\<rparr>"

definition operatorSeedSecret :: Secret where
  "operatorSeedSecret =
     \<lparr>sec_Name = ''op-seed'', sec_Namespace = ''default'', sec_Data = [(''seed'', ''SOSEED'')],
      sec_Immutable = True, sec_Controller = Some ''uid-op''\<rparr>"

definition operatorKP :: nkeys_KeyPair where
  "operatorKP = \<lparr>kp_Seed = Inr ''SOSEED'', kp_PublicKey = Inr ''OPUB''\<rparr>"

text \<open>An Account that was published and is now marked for deletion.\<close>

definition deletedAccount :: Account where
  "deletedAccount =
     \<lparr>Name = ''a'', Namespace = ''default'', UID = ''uid-a'', DeletionTimestamp = Some 1,
      Finalizers = [AccountFinalizer],
      Conditions = [(SeedSecretReady, trueCondition), (IssuerResolved, trueCondition),
                    (OperatorResolved, trueCondition), (SigningKeysUpdated, trueCondition),
                    (JWTSecretReady, trueCondition), (JWTPushed, trueCondition)],
      StatusKeyPair = Some \<lparr>PublicKey = ''APUB'', SeedSecretName = ''a-seed''\<rparr>,
      acc_Issuer = operatorIssuer, acc_SeedSecretName = ''a-seed'', acc_JWTSecretName = ''a-jwt'',
      acc_SigningKeysSelector = None, acc_Claims = [],
      OperatorRef = Some \<lparr>ref_Namespace = ''default'', ref_Name = ''op''\<rparr>,
      SigningKeys = []\<rparr>"

text \<open>
  A world holding the Operator, its seed secret and its system account, with a remote
  authority that accepts the connection and the calls.
\<close>

definition revokeWorld :: World where
  "revokeWorld =
     nothing\<lparr>AccountsGet := (\<lambda>_ _. Inr deletedAccount),
             OperatorsGet := (\<lambda>_ _. Inr theOperator),
             SecretsGet := (\<lambda>ns n. if n = ''op-seed'' then Inr operatorSeedSecret
                                    else Inl (StatusNotFound ''not found'')),
             nkeys_FromSeed := (\<lambda>_. Inr operatorKP),
             SysAccountLoader_Load := (\<lambda>_. Inr ''SASEED''),
             nsc_Connect := (\<lambda>_ _ _ _. None),
             nsc_Push := (\<lambda>_. None),
             nsc_Delete := (\<lambda>_. None)\<rparr>"

text \<open>The same world, with a remote authority that refuses the connection.\<close>

definition refusedWorld :: World where
  "refusedWorld = revokeWorld\<lparr>nsc_Connect := (\<lambda>_ _ _ _. Some (OtherError ''connection refused''))\<rparr>"

abbreviation effects :: "'a \<times> 'b \<times> effect list \<Rightarrow> effect list" where
  "effects r \<equiv> snd (snd r)"

text \<open>
  The stored token is stale: it does not decode, or its claims differ from the
  canonical claims once the issuance timestamp is set aside.
\<close>

definition tokenStale :: "World \<Rightarrow> string \<Rightarrow> Claims \<Rightarrow> bool" where
  "tokenStale w gotJWT wantClaims =
     (case jwt_Decode w gotJWT of
        Inl _ \<Rightarrow> True
      | Inr gotClaims \<Rightarrow> \<not> Equality_DeepEqual gotClaims wantClaims)"

text \<open>An Account that is live, published and in its converged state.\<close>

definition liveAccount :: Account where
  "liveAccount = deletedAccount\<lparr>DeletionTimestamp := None\<rparr>"

definition storedJWTSecret :: Secret where
  "storedJWTSecret =
     \<lparr>sec_Name = ''a-jwt'', sec_Namespace = ''default'', sec_Data = [(''jwt'', ''OLDJWT'')],
      sec_Immutable = False, sec_Controller = Some ''uid-a''\<rparr>"

definition wantedClaims :: Claims where
  "wantedClaims = \<lparr>IssuedAt = 200, Content = ''account a, issuer OPUB''\<rparr>"

text \<open>
  The stored token decodes to the canonical claims, issued earlier.
\<close>

definition sameClaimsWorld :: World where
  "sameClaimsWorld =
     nothing\<lparr>jwt_Decode := (\<lambda>t. if t = ''OLDJWT''
                                   then Inr \<lparr>IssuedAt = 100, Content = ''account a, issuer OPUB''\<rparr>
                                   else Inl (OtherError ''invalid token''))\<rparr>"

text \<open>
  The stored secret is controlled by another owner: the builder of the replacement
  secret reports an error. No token decodes.
\<close>

definition foreignOwnerWorld :: World where
  "foreignOwnerWorld =
     nothing\<lparr>JWTSecretBuild := (\<lambda>_ _ _. Inl (OtherError ''Object is already owned by another controller''))\<rparr>"

text \<open>
  Two Accounts (two Users) that differ in their status at most: a pass changes nothing
  else of the resource it holds in memory.
\<close>

definition acc_sameSpec :: "Account \<Rightarrow> Account \<Rightarrow> bool" where
  "acc_sameSpec a b =
     (a\<lparr>Conditions := [], StatusKeyPair := None, OperatorRef := None, SigningKeys := []\<rparr> =
      b\<lparr>Conditions := [], StatusKeyPair := None, OperatorRef := None, SigningKeys := []\<rparr>)"

definition usr_sameSpec :: "User \<Rightarrow> User \<Rightarrow> bool" where
  "usr_sameSpec a b =
     (a\<lparr>Conditions := [], StatusKeyPair := None, AccountRef := None\<rparr> =
      b\<lparr>Conditions := [], StatusKeyPair := None, AccountRef := None\<rparr>)"

text \<open>The Operator the account pipeline resolves from the Account's issuer reference.\<close>

definition resolvedOperator :: "World \<Rightarrow> Account \<Rightarrow> Operator option" where
  "resolvedOperator w acc =
     (case resolveIssuer w (acc_Issuer acc) (Namespace acc) of
        (Some issuer, ok, err) \<Rightarrow> fst (fst (resolveOperator w acc issuer))
      | (None, ok, err) \<Rightarrow> None)"

text \<open>The seed secret a resource names is absent from the store.\<close>

definition seedSecretAbsent :: "World \<Rightarrow> string \<Rightarrow> string \<Rightarrow> bool" where
  "seedSecretAbsent w ns name =
     (case SecretsGet w ns name of Inl e \<Rightarrow> IsNotFound e | Inr _ \<Rightarrow> False)"

text \<open>
  The secret an existing seed secret is repaired to: the one the builder makes from the
  stored secret and the key pair its own seed decodes to.
\<close>

definition repairedSeedSecret :: "World \<Rightarrow> Secret \<Rightarrow> object \<Rightarrow> Secret option" where
  "repairedSeedSecret w got owner =
     (case map_of (sec_Data got) NatsSecretSeedKey of
        None \<Rightarrow> None
      | Some seed \<Rightarrow>
          (case nkeys_FromSeed w seed of
             Inl _ \<Rightarrow> None
           | Inr kp \<Rightarrow>
               (case KeyPairSecretBuild w (Some got) owner kp of
                  Inl _ \<Rightarrow> None
                | Inr want \<Rightarrow> Some want)))"

text \<open>
  A cluster in its converged state: the Operator \<open>op\<close>, the Account \<open>a\<close> it issues
  and the User \<open>u\<close> the Account issues, each with its seed secret, the Account and the
  User with a stored token that decodes to the canonical claims (issued earlier), the
  User with its credentials secret. The builders return the stored secret when it
  already is as desired; the remote authority accepts every call.
\<close>

definition accountIssuer :: IssuerReference where
  "accountIssuer =
     \<lparr>Ref = \<lparr>APIVersion = ''accounts.nats.io/v1alpha1'', Kind = ''Account'', tref_Name = ''a'',
             tref_Namespace = [], tref_UID = []\<rparr>\<rparr>"

definition accountSeedSecret :: Secret where
  "accountSeedSecret =
     \<lparr>sec_Name = ''a-seed'', sec_Namespace = ''default'', sec_Data = [(''seed'', ''SASEED'')],
      sec_Immutable = True, sec_Controller = Some ''uid-a''\<rparr>"

definition accountKP :: nkeys_KeyPair where
  "accountKP = \<lparr>kp_Seed = Inr ''SASEED'', kp_PublicKey = Inr ''APUB''\<rparr>"

definition theUser :: User where
  "theUser =
     \<lparr>Name = ''u'', Namespace = ''default'', UID = ''uid-u'', DeletionTimestamp = None, Finalizers = [],
      Conditions = [(SeedSecretReady, trueCondition), (IssuerResolved, trueCondition),
                    (AccountResolved, trueCondition), (JWTSecretReady, trueCondition),
                    (CredentialsSecretReady, trueCondition)],
      StatusKeyPair = Some \<lparr>PublicKey = ''UPUB'', SeedSecretName = ''u-seed''\<rparr>,
      usr_Issuer = accountIssuer, usr_SeedSecretName = ''u-seed'', usr_JWTSecretName = ''u-jwt'',
      usr_CredentialsSecretName = ''u-creds'', usr_Claims = [],
      AccountRef = Some \<lparr>ref_Namespace = ''default'', ref_Name = ''a''\<rparr>\<rparr>"

definition userSeedSecret :: Secret where
  "userSeedSecret =
     \<lparr>sec_Name = ''u-seed'', sec_Namespace = ''default'',
      sec_Data = [(''seed'', ''SUSEED''), (''public-key'', ''UPUB'')],
      sec_Immutable = True, sec_Controller = Some ''uid-u''\<rparr>"

definition userKP :: nkeys_KeyPair where
  "userKP = \<lparr>kp_Seed = Inr ''SUSEED'', kp_PublicKey = Inr ''UPUB''\<rparr>"

definition userJWTSecret :: Secret where
  "userJWTSecret =
     \<lparr>sec_Name = ''u-jwt'', sec_Namespace = ''default'', sec_Data = [(''jwt'', ''OLDUJWT'')],
      sec_Immutable = True, sec_Controller = Some ''uid-u''\<rparr>"

definition userCredsSecret :: Secret where
  "userCredsSecret =
     \<lparr>sec_Name = ''u-creds'', sec_Namespace = ''default'', sec_Data = [(''creds'', ''OLDUJWT+SUSEED'')],
      sec_Immutable = False, sec_Controller = Some ''uid-u''\<rparr>"

definition wantedUserClaims :: Claims where
  "wantedUserClaims = \<lparr>IssuedAt = 300, Content = ''user u, issuer APUB''\<rparr>"

definition builtSecret :: "Secret option \<Rightarrow> object \<Rightarrow> string \<Rightarrow> (string \<times> string) list \<Rightarrow> Secret" where
  "builtSecret got owner suffix dat =
     (case got of
        Some s \<Rightarrow> s\<lparr>sec_Data := dat\<rparr>
      | None \<Rightarrow>
          \<lparr>sec_Name = obj_Name owner @ suffix, sec_Namespace = obj_Namespace owner, sec_Data = dat,
           sec_Immutable = False, sec_Controller = None\<rparr>)"

definition clusterSecrets :: "string \<Rightarrow> string \<Rightarrow> error + Secret" where
  "clusterSecrets ns n =
     (if n = ''op-seed'' then Inr operatorSeedSecret
      else if n = ''a-seed'' then Inr accountSeedSecret
      else if n = ''a-jwt'' then Inr storedJWTSecret
      else if n = ''u-seed'' then Inr userSeedSecret
      else if n = ''u-jwt'' then Inr userJWTSecret
      else if n = ''u-creds'' then Inr userCredsSecret
      else Inl (StatusNotFound ''not found''))"

definition clusterWorld :: World where
  "clusterWorld =
     nothing\<lparr>SchemeNew := (\<lambda>gvk. if snd gvk = ''Operator'' then Inr OperatorKind
                                  else if snd gvk = ''Account'' then Inr AccountKind
                                  else Inl (OtherError ''no kind is registered'')),
             ClientGet := (\<lambda>k ns n. case k of
                               OperatorKind \<Rightarrow> Inr (OperatorObj theOperator)
                             | AccountKind \<Rightarrow> Inr (AccountObj liveAccount)
                             | _ \<Rightarrow> Inl (StatusNotFound ''not found'')),
             AccountsGet := (\<lambda>_ _. Inr liveAccount),
             UsersGet := (\<lambda>_ _. Inr theUser),
             OperatorsGet := (\<lambda>_ _. Inr theOperator),
             SecretsGet := clusterSecrets,
             nkeys_FromSeed := (\<lambda>s. if s = ''SOSEED'' then Inr operatorKP
                                      else if s = ''SASEED'' then Inr accountKP
                                      else if s = ''SUSEED'' then Inr userKP
                                      else Inl (OtherError ''invalid seed'')),
             nkeys_DecodeSeed := (\<lambda>s. if s = ''SOSEED'' then Inr PrefixByteOperator
                                        else if s = ''SASEED'' then Inr PrefixByteAccount
                                        else if s = ''SUSEED'' then Inr PrefixByteUser
                                        else Inl (OtherError ''invalid seed'')),
             jwt_Decode := (\<lambda>t. if t = ''OLDJWT''
                                  then Inr \<lparr>IssuedAt = 100, Content = ''account a, issuer OPUB''\<rparr>
                                  else if t = ''OLDUJWT''
                                  then Inr \<lparr>IssuedAt = 100, Content = ''user u, issuer APUB''\<rparr>
                                  else Inl (OtherError ''invalid token'')),
             nsc_CreateAccountClaims := (\<lambda>_ _. Inr (wantedClaims, ''NEWJWT'')),
             nsc_CreateUserClaims := (\<lambda>_ _. Inr (wantedUserClaims, ''NEWUJWT'')),
             SysAccountLoader_Load := (\<lambda>_. Inr ''SYSSEED''),
             nsc_Connect := (\<lambda>_ _ _ _. None),
             nsc_Push := (\<lambda>_. None),
             nsc_Delete := (\<lambda>_. None),
             KeyPairSecretBuild := (\<lambda>got owner kp.
                case got of
                  Some s \<Rightarrow> Inr s
                | None \<Rightarrow> Inr (builtSecret None owner ''-seed''
                                 [(''seed'', case kp_Seed kp of Inr s \<Rightarrow> s | Inl _ \<Rightarrow> [])])),
             JWTSecretBuild := (\<lambda>got owner jwt. Inr (builtSecret got owner ''-jwt'' [(''jwt'', jwt)])),
             UserCredentialSecretBuild := (\<lambda>got owner jwt seed.
                Inr (builtSecret got owner ''-creds'' [(''creds'', jwt @ ''+'' @ seed)]))\<rparr>"

text \<open>The same cluster before the User's token and credentials secrets were written.\<close>

definition seedOnlySecrets :: "string \<Rightarrow> string \<Rightarrow> error + Secret" where
  "seedOnlySecrets ns n =
     (if n = ''u-jwt'' \<or> n = ''u-creds'' then Inl (StatusNotFound ''not found'')
      else clusterSecrets ns n)"

definition seedOnlyWorld :: World where
  "seedOnlyWorld = clusterWorld\<lparr>SecretsGet := seedOnlySecrets\<rparr>"

definition newUserJWTSecret :: Secret where
  "newUserJWTSecret =
     \<lparr>sec_Name = ''u-jwt'', sec_Namespace = ''default'', sec_Data = [(''jwt'', ''NEWUJWT'')],
      sec_Immutable = False, sec_Controller = None\<rparr>"

definition newUserCredsSecret :: Secret where
  "newUserCredsSecret =
     \<lparr>sec_Name = ''u-creds'', sec_Namespace = ''default'', sec_Data = [(''creds'', ''NEWUJWT+SUSEED'')],
      sec_Immutable = False, sec_Controller = None\<rparr>"

text \<open>The Account \<open>sys\<close>, which the Operator designates as its system account.\<close>

definition systemAccount :: Account where
  "systemAccount = liveAccount\<lparr>Name := ''sys'', UID := ''uid-sys''\<rparr>"

text \<open>
  The issuer's stored seed has the wanted prefix and decodes to a public key other
  than the one recorded in the issuer's status.
\<close>

definition issuerKeyMismatch :: "World \<Rightarrow> object \<Rightarrow> PrefixByte \<Rightarrow> bool" where
  "issuerKeyMismatch w issuer wantPrefix =
     (case obj_KeyPair issuer of
        Some (Some keyPair) \<Rightarrow>
          (case SecretsGet w (obj_Namespace issuer) (SeedSecretName keyPair) of
             Inl _ \<Rightarrow> False
           | Inr skSeedSecret \<Rightarrow>
               (case map_of (sec_Data skSeedSecret) NatsSecretSeedKey of
                  None \<Rightarrow> False
                | Some seed \<Rightarrow>
                    (case nkeys_DecodeSeed w seed of
                       Inl _ \<Rightarrow> False
                     | Inr prefix \<Rightarrow>
                         prefix = wantPrefix \<and>
                         (case nkeys_FromSeed w seed of
                            Inl _ \<Rightarrow> False
                          | Inr kp \<Rightarrow>
                              (case kp_PublicKey kp of
                                 Inl _ \<Rightarrow> False
                               | Inr pk \<Rightarrow> pk \<noteq> PublicKey keyPair)))))
      | _ \<Rightarrow> False)"

text \<open>
  The key pair a resource's own stored seed decodes to, when the seed secret is as
  desired or the store accepts its update.
\<close>

definition ownSeedKeyPair :: "World \<Rightarrow> Secret \<Rightarrow> object \<Rightarrow> (nkeys_KeyPair \<times> Secret) option" where
  "ownSeedKeyPair w got owner =
     (case map_of (sec_Data got) NatsSecretSeedKey of
        None \<Rightarrow> None
      | Some seed \<Rightarrow>
          (case nkeys_FromSeed w seed of
             Inl _ \<Rightarrow> None
           | Inr kp \<Rightarrow>
               (case KeyPairSecretBuild w (Some got) owner kp of
                  Inl _ \<Rightarrow> None
                | Inr want \<Rightarrow> if got = want \<or> ClientUpdate w want = None then Some (kp, want) else None)))"

definition publicKeyOf :: "nkeys_KeyPair \<Rightarrow> string" where
  "publicKeyOf kp = (case kp_PublicKey kp of Inr pk \<Rightarrow> pk | Inl _ \<Rightarrow> [])"

text \<open>
  The cluster with a seed secret of the Account that no longer decodes to the public
  key the Account's status records, and the cluster with such a seed secret of the
  Operator.
\<close>

definition driftedKP :: nkeys_KeyPair where
  "driftedKP = \<lparr>kp_Seed = Inr ''SASEED'', kp_PublicKey = Inr ''BPUB''\<rparr>"

definition driftWorld :: World where
  "driftWorld =
     clusterWorld\<lparr>nkeys_FromSeed := (\<lambda>s. if s = ''SASEED'' then Inr driftedKP
                                          else nkeys_FromSeed clusterWorld s)\<rparr>"

definition driftedOperatorKP :: nkeys_KeyPair where
  "driftedOperatorKP = \<lparr>kp_Seed = Inr ''SOSEED'', kp_PublicKey = Inr ''XPUB''\<rparr>"

definition issuerDriftWorld :: World where
  "issuerDriftWorld =
     clusterWorld\<lparr>nkeys_FromSeed := (\<lambda>s. if s = ''SOSEED'' then Inr driftedOperatorKP
                                          else nkeys_FromSeed clusterWorld s)\<rparr>"

text \<open>The Account as the pass over the drifted seed secret leaves it.\<close>

definition driftedAccount :: Account where
  "driftedAccount = liveAccount\<lparr>StatusKeyPair := Some \<lparr>PublicKey = ''BPUB'', SeedSecretName = ''a-seed''\<rparr>\<rparr>"

subsection \<open>Signing-key membership\<close>

text \<open>
  The listing the membership resolver works on: the Signing Keys of the Account's
  namespace that match its selector (every one of them when no selector is set), when
  the selector parses and the store answers.
\<close>

definition listedSigningKeys :: "World \<Rightarrow> Account \<Rightarrow> SigningKey list option" where
  "listedSigningKeys w acc =
     (case (case acc_SigningKeysSelector acc of
              None \<Rightarrow> Inr labels_Everything
            | Some sel \<Rightarrow> LabelSelectorAsSelector w sel) of
        Inl _ \<Rightarrow> None
      | Inr labelSelector \<Rightarrow>
          (case SigningKeysList w (Namespace acc)
                  (if \<not> sel_Empty labelSelector then sel_String labelSelector else []) of
             Inl _ \<Rightarrow> None
           | Inr skList \<Rightarrow> Some skList))"

text \<open>The resolved owner reference of a Signing Key names the Account (namespace and name).\<close>

definition ownerIsAccount :: "SigningKey \<Rightarrow> Account \<Rightarrow> bool" where
  "ownerIsAccount sk acc =
     (case OwnerRef sk of
        None \<Rightarrow> False
      | Some ref \<Rightarrow> tref_Namespace ref = Namespace acc \<and> tref_Name ref = Name acc)"

definition signingKeysChanged :: effect where
  "signingKeysChanged = RecordEvent EventTypeNormal ''SigningKeysChanged'' ([], [])"

text \<open>
  Signing Keys of the namespace \<open>default\<close>: \<open>keyA\<close> and \<open>keyB\<close> are ready and owned by
  the Account \<open>a\<close>, \<open>keyC\<close> is owned by it but its seed secret is not ready, and
  \<open>staleKey\<close> is ready with an owner reference that names the Account \<open>a\<close> but was
  resolved from an earlier object of that name (another UID).
\<close>

definition ownerA :: "string \<Rightarrow> TypedObjectReference" where
  "ownerA uid =
     \<lparr>APIVersion = ''accounts.nats.io/v1alpha1'', Kind = ''Account'', tref_Name = ''a'',
      tref_Namespace = ''default'', tref_UID = uid\<rparr>"

definition signingKey :: "string \<Rightarrow> string \<Rightarrow> bool \<Rightarrow> string \<Rightarrow> SigningKey" where
  "signingKey n pk ready uid =
     \<lparr>Name = n, Namespace = ''default'', UID = ''uid-'' @ n, DeletionTimestamp = None, Finalizers = [],
      Conditions = (if ready then [(SeedSecretReady, trueCondition), (OwnerResolved, trueCondition)]
                    else [(OwnerResolved, trueCondition)]),
      StatusKeyPair = Some \<lparr>PublicKey = pk, SeedSecretName = n @ ''-seed''\<rparr>,
      OwnerRef = Some (ownerA uid)\<rparr>"

definition keyA :: SigningKey where "keyA = signingKey ''A'' ''pkA'' True ''uid-a''"
definition keyB :: SigningKey where "keyB = signingKey ''B'' ''pkB'' True ''uid-a''"
definition keyC :: SigningKey where "keyC = signingKey ''C'' ''pkC'' False ''uid-a''"
definition staleKey :: SigningKey where "staleKey = signingKey ''S'' ''pkS'' True ''uid-old''"

definition staleWorld :: World where
  "staleWorld = clusterWorld\<lparr>SigningKeysList := (\<lambda>_ _. Inr [staleKey])\<rparr>"

text \<open>The Account with the recorded membership \<open>{A, B}\<close>, and a listing of \<open>A\<close> and \<open>C\<close>.\<close>

definition recordedAccount :: Account where
  "recordedAccount = liveAccount\<lparr>SigningKeys := [embedded keyA, embedded keyB]\<rparr>"

definition shrunkWorld :: World where
  "shrunkWorld = clusterWorld\<lparr>SigningKeysList := (\<lambda>_ _. Inr [keyA, keyC])\<rparr>"

subsection \<open>Converged resources\<close>

text \<open>
  The observed state of a resource matches its desired state: every condition of its
  condition set is recorded True; the seed secret is the secret the builder makes from
  it and from the key pair its seed decodes to, and the status records that key pair;
  the issuer and the owner resolve and the status records the owner; the stored token
  decodes to the canonical claims, the issuance timestamp set aside; for a User, the
  credentials secret is the secret the builder makes from it, the stored token and the
  seed; for an Account, the recorded membership is the desired one.
\<close>

definition conditionsSet :: "cond_type list \<Rightarrow> conditions \<Rightarrow> bool" where
  "conditionsSet ts cs = list_all (\<lambda>t. map_of cs t = Some trueCondition) ts"

definition desiredSeedSecret :: "World \<Rightarrow> object \<Rightarrow> string \<Rightarrow> nkeys_KeyPair option" where
  "desiredSeedSecret w owner name =
     (case SecretsGet w (obj_Namespace owner) name of
        Inl _ \<Rightarrow> None
      | Inr got \<Rightarrow>
          (case map_of (sec_Data got) NatsSecretSeedKey of
             None \<Rightarrow> None
           | Some seed \<Rightarrow>
               (case nkeys_FromSeed w seed of
                  Inl _ \<Rightarrow> None
                | Inr kp \<Rightarrow>
                    if KeyPairSecretBuild w (Some got) owner kp = Inr got \<and> sec_Name got = name
                    then Some kp else None)))"

definition currentToken :: "World \<Rightarrow> string \<Rightarrow> string \<Rightarrow> Claims \<Rightarrow> string option" where
  "currentToken w ns name wantClaims =
     (case SecretsGet w ns name of
        Inl _ \<Rightarrow> None
      | Inr got \<Rightarrow>
          (case map_of (sec_Data got) NatsSecretJWTKey of
             None \<Rightarrow> None
           | Some gotJWT \<Rightarrow> if tokenStale w gotJWT wantClaims then None else Some gotJWT))"

definition seedOf :: "nkeys_KeyPair \<Rightarrow> string" where
  "seedOf kp = (case kp_Seed kp of Inr sd \<Rightarrow> sd | Inl _ \<Rightarrow> [])"

definition credentialsCurrent :: "World \<Rightarrow> User \<Rightarrow> string \<Rightarrow> string \<Rightarrow> bool" where
  "credentialsCurrent w usr ujwt seed =
     (case SecretsGet w (Namespace usr) (usr_CredentialsSecretName usr) of
        Inl _ \<Rightarrow> False
      | Inr got \<Rightarrow> UserCredentialSecretBuild w (Some got) (UserObj usr) ujwt seed = Inr got)"

definition usr_converged :: "World \<Rightarrow> User \<Rightarrow> bool" where
  "usr_converged w usr =
     (conditionsSet UserConditionSet (Conditions usr) \<and>
      (case desiredSeedSecret w (UserObj usr) (usr_SeedSecretName usr) of
         None \<Rightarrow> False
       | Some kp \<Rightarrow>
           StatusKeyPair usr =
             Some \<lparr>PublicKey = publicKeyOf kp, SeedSecretName = usr_SeedSecretName usr\<rparr> \<and>
           (case resolveIssuer w (usr_Issuer usr) (Namespace usr) of
              (Some issuer, True, None) \<Rightarrow>
                (case fst (resolveAccount w usr issuer) of
                   (Some account, True, None) \<Rightarrow>
                     AccountRef usr =
                       Some \<lparr>ref_Namespace = Namespace account, ref_Name = Name account\<rparr> \<and>
                     (case base_loadIssuerSeed w issuer PrefixByteAccount of
                        (Some issuerKP, True, None) \<Rightarrow>
                          (case nsc_CreateUserClaims w usr issuerKP of
                             Inl _ \<Rightarrow> False
                           | Inr (wantClaims, nextJWT) \<Rightarrow>
                               (case currentToken w (Namespace usr) (usr_JWTSecretName usr) wantClaims of
                                  None \<Rightarrow> False
                                | Some ujwt \<Rightarrow> credentialsCurrent w usr ujwt (seedOf kp)))
                      | _ \<Rightarrow> False)
                 | _ \<Rightarrow> False)
            | _ \<Rightarrow> False)))"

text \<open>
  A converged Account, with the Operator it resolves to, the key pair of its issuer and
  the token its JWT secret stores.
\<close>

definition acc_converged :: "World \<Rightarrow> Account \<Rightarrow> (Operator \<times> nkeys_KeyPair \<times> string) option" where
  "acc_converged w acc =
     (if \<not> (conditionsSet AccountConditionSet (Conditions acc) \<and> DeletionTimestamp acc = None \<and>
             AccountFinalizer \<in> set (Finalizers acc)) then None
      else
        case desiredSeedSecret w (AccountObj acc) (acc_SeedSecretName acc) of
          None \<Rightarrow> None
        | Some kp \<Rightarrow>
            if StatusKeyPair acc \<noteq>
                 Some \<lparr>PublicKey = publicKeyOf kp, SeedSecretName = acc_SeedSecretName acc\<rparr> then None
            else
              (case resolveIssuer w (acc_Issuer acc) (Namespace acc) of
                 (Some issuer, True, None) \<Rightarrow>
                   (case fst (resolveOperator w acc issuer) of
                      (Some operator, True, None) \<Rightarrow>
                        if OperatorRef acc \<noteq>
                             Some \<lparr>ref_Namespace = Namespace operator, ref_Name = Name operator\<rparr>
                        then None
                        else
                          (case listedSigningKeys w acc of
                             None \<Rightarrow> None
                           | Some skList \<Rightarrow>
                               if set (desiredSigningKeys (UID acc) skList) \<noteq> set (SigningKeys acc)
                               then None
                               else
                                 (case fst (acc_loadIssuerSeed w acc issuer) of
                                    (Some issuerKP, True, None) \<Rightarrow>
                                      (case nsc_CreateAccountClaims w acc issuerKP of
                                         Inl _ \<Rightarrow> None
                                       | Inr (wantClaims, nextJWT) \<Rightarrow>
                                           (case currentToken w (Namespace acc) (acc_JWTSecretName acc)
                                                   wantClaims of
                                              None \<Rightarrow> None
                                            | Some ajwt \<Rightarrow> Some (operator, issuerKP, ajwt)))
                                  | _ \<Rightarrow> None))
                    | _ \<Rightarrow> None)
               | _ \<Rightarrow> None))"

text \<open>The remote authority accepts the connection and the push of the token.\<close>

definition pushAccepted :: "World \<Rightarrow> Operator \<Rightarrow> nkeys_KeyPair \<Rightarrow> string \<Rightarrow> bool" where
  "pushAccepted w operator issuerKP ajwt =
     (case SysAccountLoader_Load w operator of
        Inl _ \<Rightarrow> False
      | Inr sysSeed \<Rightarrow>
          (case getNATSOptions w operator of
             Inl _ \<Rightarrow> False
           | Inr opts \<Rightarrow>
               nsc_Connect w (AccountServerURL operator) issuerKP sysSeed opts = None \<and>
               nsc_Push w ajwt = None))"

text \<open>The cluster as the system account \<open>sys\<close> sees it.\<close>

definition sysWorld :: World where
  "sysWorld = clusterWorld\<lparr>AccountsGet := (\<lambda>_ _. Inr systemAccount)\<rparr>"

subsection \<open>The superseded system-account test\<close>

text \<open>The calls that publish a token to the remote authority.\<close>

fun isPush :: "call \<Rightarrow> bool" where
  "isPush (PushJWT _) = True"
| "isPush (UpdateJWT _ _) = True"
| "isPush _ = False"

text \<open>
  Collaborators that accept everything, a store without secrets, an Account whose
  Operator is not resolved yet, and an Operator whose system account is not resolved.
\<close>

definition accepting :: Superseded where
  "accepting =
     \<lparr>nsc_CreateAccount = (\<lambda>_ _ _. Inr (''AJWT'', ''APUB'', ''SASEED'')),
      createOrUpdateSecret = (\<lambda>_ _. None),
      Secrets_Update = (\<lambda>_. None),
      nsc_PushJWT = (\<lambda>_. None),
      nsc_UpdateJWT = (\<lambda>_ _. None),
      jwt_DecodeAccountClaims =
        (\<lambda>_. Inr \<lparr>ac_Subject = ''APUB'', ac_SigningKeys = [], ac_Content = []\<rparr>),
      claims_Encode = (\<lambda>_ _. Inr ''AJWT2''),
      isEqualUnordered = (\<lambda>a b. set a = set b)\<rparr>"

definition emptyStore :: World where
  "emptyStore = clusterWorld\<lparr>SecretsGet := (\<lambda>_ _. Inl (StatusNotFound ''not found''))\<rparr>"

definition unresolvedAccount :: Account where
  "unresolvedAccount = liveAccount\<lparr>Conditions := [], OperatorRef := None\<rparr>"

definition pendingOperatorWorld :: World where
  "pendingOperatorWorld =
     clusterWorld\<lparr>OperatorsGet := (\<lambda>_ _. Inr (theOperator\<lparr>Conditions := []\<rparr>))\<rparr>"

section \<open>Properties of the condition manager\<close>

lemma GetCondition_SetCondition:
  "GetCondition (SetCondition t c cs) t' = (if t' = t then Some c else GetCondition cs t')"
  by (simp add: GetCondition_def SetCondition_def update_conv')

lemma IsTrue_MarkTrue [simp]: "IsTrue (GetCondition (MarkTrue t cs) t)"
  by (simp add: MarkTrue_def GetCondition_SetCondition)

lemmas concrete =
  nothing_def operatorIssuer_def timeoutWorld_def trueCondition_def theOperator_def
  operatorSeedSecret_def operatorKP_def deletedAccount_def revokeWorld_def refusedWorld_def
  GetCondition_def NatsSecretSeedKey_def NatsSecretJWTKey_def NatsSecretCredsKey_def
  GetGroupVersionKind_def AccountFinalizer_def

section \<open>What finalization touches\<close>

lemma finalizeAccount_footprint:
  "finalizeAccount w acc = (err, acc', effs) \<Longrightarrow>
   (\<forall>e\<in>set effs. isRemoteCall e \<and> \<not> isRemotePush e) \<and>
   SigningKeys acc' = SigningKeys acc \<and> Finalizers acc' = Finalizers acc \<and>
   StatusKeyPair acc' = StatusKeyPair acc \<and> OperatorRef acc' = OperatorRef acc"
  unfolding finalizeAccount_def
  by (auto simp: mark_defs split: if_splits option.splits sum.splits)

lemma acc_reconcile_deleting:
  assumes del: "DeletionTimestamp acc \<noteq> None"
    and r: "acc_reconcile w acc = (err, acc', effs)"
  shows "(\<forall>e\<in>set effs. (isRemoteCall e \<and> \<not> isRemotePush e) \<or> e = UpdateObject (AccountObj acc')) \<and>
         SigningKeys acc' = SigningKeys acc \<and> StatusKeyPair acc' = StatusKeyPair acc"
proof (cases "AccountFinalizer \<in> set (Finalizers acc)")
  case False
  with del r show ?thesis by (auto simp: acc_reconcile_def)
next
  case True
  obtain e1 acc1 effs1 where f: "finalizeAccount w acc = (e1, acc1, effs1)"
    by (cases "finalizeAccount w acc") auto
  note fp = finalizeAccount_footprint [OF f]
  show ?thesis
  proof (cases e1)
    case None
    with del r True f fp show ?thesis
      by (auto simp: acc_reconcile_def Let_def)
  next
    case (Some a)
    with del r True f fp show ?thesis
      by (auto simp: acc_reconcile_def Let_def)
  qed
qed

lemma finalizeAccount_revokeWorld:
  "finalizeAccount revokeWorld deletedAccount =
     (None, deletedAccount,
      [RemoteConnect ''nats://nats:4222'', RemoteDelete ''APUB'', RemoteClose])"
  by (simp add: finalizeAccount_def getNATSOptions_def concrete)

lemma finalizeAccount_refusedWorld:
  "finalizeAccount refusedWorld deletedAccount =
     (Some (OtherError ''connection refused''), deletedAccount, [RemoteConnect ''nats://nats:4222''])"
  by (simp add: finalizeAccount_def getNATSOptions_def concrete)

section \<open>Comparing and replacing a stored token\<close>

lemma Equality_DeepEqual_iff: "Equality_DeepEqual a b \<longleftrightarrow> Content a = Content b"
  by (cases a, cases b) (simp add: Equality_DeepEqual_def)

lemma acc_ensureJWTSecretUpToDate_cases:
  "(\<forall>gotJWT. map_of (sec_Data got) NatsSecretJWTKey = Some gotJWT \<longrightarrow>
      ((\<exists>s. UpdateSecret s \<in> set (effects (acc_ensureJWTSecretUpToDate w acc wantClaims got nextJWT))) \<longleftrightarrow>
         tokenStale w gotJWT wantClaims \<and>
         (\<exists>want. JWTSecretBuild w (Some got) (AccountObj acc) nextJWT = Inr want)) \<and>
      (\<forall>s. UpdateSecret s \<in> set (effects (acc_ensureJWTSecretUpToDate w acc wantClaims got nextJWT)) \<longrightarrow>
         JWTSecretBuild w (Some got) (AccountObj acc) nextJWT = Inr s) \<and>
      (\<forall>want. tokenStale w gotJWT wantClaims \<and>
         JWTSecretBuild w (Some got) (AccountObj acc) nextJWT = Inr want \<and> ClientUpdate w want = None \<longrightarrow>
         fst (acc_ensureJWTSecretUpToDate w acc wantClaims got nextJWT) = (nextJWT, True, None)) \<and>
      (\<not> tokenStale w gotJWT wantClaims \<longrightarrow>
         acc_ensureJWTSecretUpToDate w acc wantClaims got nextJWT =
           ((gotJWT, True, None), MarkJWTSecretReady acc, []))) \<and>
   (map_of (sec_Data got) NatsSecretJWTKey = None \<longrightarrow>
      fst (acc_ensureJWTSecretUpToDate w acc wantClaims got nextJWT) = ([], False, None) \<and>
      effects (acc_ensureJWTSecretUpToDate w acc wantClaims got nextJWT) = []) \<and>
   (\<forall>s. CreateSecret s \<notin> set (effects (acc_ensureJWTSecretUpToDate w acc wantClaims got nextJWT)))"
  unfolding acc_ensureJWTSecretUpToDate_def tokenStale_def Let_def
  by (auto split: option.splits sum.splits if_splits)

lemma usr_ensureJWTSecretUpToDate_cases:
  "(\<forall>gotJWT. map_of (sec_Data got) NatsSecretJWTKey = Some gotJWT \<longrightarrow>
      ((\<exists>s. UpdateSecret s \<in> set (effects (usr_ensureJWTSecretUpToDate w usr wantClaims got nextJWT))) \<longleftrightarrow>
         tokenStale w gotJWT wantClaims \<and>
         (\<exists>want. JWTSecretBuild w (Some got) (UserObj usr) nextJWT = Inr want)) \<and>
      (\<forall>s. UpdateSecret s \<in> set (effects (usr_ensureJWTSecretUpToDate w usr wantClaims got nextJWT)) \<longrightarrow>
         JWTSecretBuild w (Some got) (UserObj usr) nextJWT = Inr s) \<and>
      (\<forall>want. tokenStale w gotJWT wantClaims \<and>
         JWTSecretBuild w (Some got) (UserObj usr) nextJWT = Inr want \<and> ClientUpdate w want = None \<longrightarrow>
         fst (usr_ensureJWTSecretUpToDate w usr wantClaims got nextJWT) = (nextJWT, True, None)) \<and>
      (\<not> tokenStale w gotJWT wantClaims \<longrightarrow>
         usr_ensureJWTSecretUpToDate w usr wantClaims got nextJWT =
           ((gotJWT, True, None), MarkJWTSecretReady usr, []))) \<and>
   (map_of (sec_Data got) NatsSecretJWTKey = None \<longrightarrow>
      fst (usr_ensureJWTSecretUpToDate w usr wantClaims got nextJWT) = ([], False, None) \<and>
      effects (usr_ensureJWTSecretUpToDate w usr wantClaims got nextJWT) = []) \<and>
   (\<forall>s. CreateSecret s \<notin> set (effects (usr_ensureJWTSecretUpToDate w usr wantClaims got nextJWT)))"
  unfolding usr_ensureJWTSecretUpToDate_def tokenStale_def Let_def
  by (auto split: option.splits sum.splits if_splits)

lemma tokenStale_iff:
  "tokenStale w gotJWT wantClaims \<longleftrightarrow>
     (\<forall>c. jwt_Decode w gotJWT = Inr c \<longrightarrow> Content c \<noteq> Content wantClaims)"
  by (auto simp: tokenStale_def Equality_DeepEqual_iff split: sum.splits)

lemmas concrete2 =
  liveAccount_def storedJWTSecret_def wantedClaims_def sameClaimsWorld_def foreignOwnerWorld_def

section \<open>A pass changes the status only\<close>

lemma acc_sameSpec_refl [simp]: "acc_sameSpec a a"
  by (simp add: acc_sameSpec_def)

lemma acc_sameSpec_trans: "acc_sameSpec a b \<Longrightarrow> acc_sameSpec b c \<Longrightarrow> acc_sameSpec a c"
  by (simp add: acc_sameSpec_def)

lemma acc_sameSpec_fields:
  assumes "acc_sameSpec a b"
  shows "Name b = Name a" "Namespace b = Namespace a" "UID b = UID a"
    "acc_Issuer b = acc_Issuer a" "acc_SeedSecretName b = acc_SeedSecretName a"
    "acc_JWTSecretName b = acc_JWTSecretName a" "acc_SigningKeysSelector b = acc_SigningKeysSelector a"
    "DeletionTimestamp b = DeletionTimestamp a" "Finalizers b = Finalizers a"
  using assms by (cases a, cases b, simp add: acc_sameSpec_def)+

lemma acc_sameSpec_marks [simp]:
  "acc_sameSpec a (MarkSeedSecretReady p n a)" "acc_sameSpec a (MarkSeedSecretFailed r m a)"
  "acc_sameSpec a (MarkSeedSecretUnknown r m a)" "acc_sameSpec a (MarkIssuerResolved a)"
  "acc_sameSpec a (MarkIssuerResolveFailed r m a)" "acc_sameSpec a (MarkIssuerResolveUnknown r m a)"
  "acc_sameSpec a (MarkJWTSecretReady a)" "acc_sameSpec a (MarkJWTSecretFailed r m a)"
  "acc_sameSpec a (MarkJWTSecretUnknown r m a)" "acc_sameSpec a (MarkJWTPushed a)"
  "acc_sameSpec a (MarkJWTPushFailed r m a)" "acc_sameSpec a (MarkOperatorResolved ref a)"
  "acc_sameSpec a (MarkOperatorResolveFailed r m a)" "acc_sameSpec a (MarkOperatorResolveUnknown r m a)"
  "acc_sameSpec a (MarkSigningKeysUpdated sks a)"
  by (simp_all add: acc_sameSpec_def mark_defs)

lemma acc_sameSpec_markFromError [simp]:
  "acc_sameSpec a (markFromError err MarkIssuerResolveFailed MarkIssuerResolveUnknown a)"
  "acc_sameSpec a (markFromError err MarkOperatorResolveFailed MarkOperatorResolveUnknown a)"
  by (cases err; cases "asConditionError err"; cases "fst (the (asConditionError err))";
      auto simp: markFromError_def split: option.splits)+

lemma usr_sameSpec_refl [simp]: "usr_sameSpec a a"
  by (simp add: usr_sameSpec_def)

lemma usr_sameSpec_trans: "usr_sameSpec a b \<Longrightarrow> usr_sameSpec b c \<Longrightarrow> usr_sameSpec a c"
  by (simp add: usr_sameSpec_def)

lemma usr_sameSpec_fields:
  assumes "usr_sameSpec a b"
  shows "Name b = Name a" "Namespace b = Namespace a" "UID b = UID a"
    "usr_Issuer b = usr_Issuer a" "usr_SeedSecretName b = usr_SeedSecretName a"
    "usr_JWTSecretName b = usr_JWTSecretName a"
    "usr_CredentialsSecretName b = usr_CredentialsSecretName a"
  using assms by (cases a, cases b, simp add: usr_sameSpec_def)+

lemma usr_sameSpec_marks [simp]:
  "usr_sameSpec a (MarkSeedSecretReady p n a)" "usr_sameSpec a (MarkSeedSecretFailed r m a)"
  "usr_sameSpec a (MarkSeedSecretUnknown r m a)" "usr_sameSpec a (MarkIssuerResolved a)"
  "usr_sameSpec a (MarkIssuerResolveFailed r m a)" "usr_sameSpec a (MarkIssuerResolveUnknown r m a)"
  "usr_sameSpec a (MarkJWTSecretReady a)" "usr_sameSpec a (MarkJWTSecretFailed r m a)"
  "usr_sameSpec a (MarkJWTSecretUnknown r m a)" "usr_sameSpec a (MarkAccountResolved ref a)"
  "usr_sameSpec a (MarkAccountResolveFailed r m a)" "usr_sameSpec a (MarkAccountResolveUnknown r m a)"
  "usr_sameSpec a (MarkCredentialsSecretReady a)" "usr_sameSpec a (MarkCredentialsSecretFailed r m a)"
  "usr_sameSpec a (MarkCredentialsSecretUnknown r m a)"
  by (simp_all add: usr_sameSpec_def mark_defs)

lemma usr_sameSpec_markFromError [simp]:
  "usr_sameSpec a (markFromError err MarkIssuerResolveFailed MarkIssuerResolveUnknown a)"
  "usr_sameSpec a (markFromError err MarkAccountResolveFailed MarkAccountResolveUnknown a)"
  "usr_sameSpec a (markFromError err MarkSeedSecretFailed MarkSeedSecretUnknown a)"
  by (cases err; cases "asConditionError err"; cases "fst (the (asConditionError err))";
      auto simp: markFromError_def split: option.splits)+

section \<open>What each stage of the account pipeline touches\<close>

lemma acc_createSeedSecret_footprint:
  "acc_createSeedSecret w acc = (err, acc', effs) \<Longrightarrow>
   acc_sameSpec acc acc' \<and>
   (\<forall>e\<in>set effs. \<not> isRemoteCall e \<and> \<not> isStatusUpdate e \<and> (\<forall>s. e \<noteq> UpdateSecret s))"
  unfolding acc_createSeedSecret_def Let_def
  by (auto split: sum.splits option.splits)

lemma acc_ensureSeedSecretUpToDate_footprint:
  "acc_ensureSeedSecretUpToDate w acc got = (r, acc', effs) \<Longrightarrow>
   acc_sameSpec acc acc' \<and>
   (\<forall>e\<in>set effs. \<not> isRemoteCall e \<and> \<not> isStatusUpdate e \<and> \<not> isKeyGeneration e \<and>
      (\<forall>s. e \<noteq> CreateSecret s) \<and>
      (\<forall>s. e = UpdateSecret s \<longrightarrow> repairedSeedSecret w got (AccountObj acc) = Some s))"
  unfolding acc_ensureSeedSecretUpToDate_def repairedSeedSecret_def Let_def
  by (auto split: sum.splits option.splits if_splits)

lemma acc_reconcileSeedSecret_footprint:
  assumes "acc_reconcileSeedSecret w acc = (r, acc', effs)"
  shows "acc_sameSpec acc acc' \<and>
   (\<forall>e\<in>set effs. \<not> isRemoteCall e \<and> \<not> isStatusUpdate e \<and>
      (isKeyGeneration e \<longrightarrow> seedSecretAbsent w (Namespace acc) (acc_SeedSecretName acc)) \<and>
      (\<forall>s. e = CreateSecret s \<longrightarrow> seedSecretAbsent w (Namespace acc) (acc_SeedSecretName acc)) \<and>
      (\<forall>s. e = UpdateSecret s \<longrightarrow>
         (\<exists>got. SecretsGet w (Namespace acc) (acc_SeedSecretName acc) = Inr got \<and>
                repairedSeedSecret w got (AccountObj acc) = Some s)))"
proof (cases "SecretsGet w (Namespace acc) (acc_SeedSecretName acc)")
  case (Inr got)
  with assms have "acc_ensureSeedSecretUpToDate w acc got = (r, acc', effs)"
    by (simp add: acc_reconcileSeedSecret_def)
  from acc_ensureSeedSecretUpToDate_footprint [OF this] Inr show ?thesis
    by auto
next
  case (Inl err)
  show ?thesis
  proof (cases "IsNotFound err")
    case True
    obtain e a es where c: "acc_createSeedSecret w acc = (e, a, es)"
      by (cases "acc_createSeedSecret w acc") auto
    with assms Inl True have "a = acc'" "es = effs"
      by (simp_all add: acc_reconcileSeedSecret_def)
    with acc_createSeedSecret_footprint [OF c] Inl True show ?thesis
      by (auto simp: seedSecretAbsent_def)
  next
    case False
    with assms Inl show ?thesis
      by (auto simp: acc_reconcileSeedSecret_def)
  qed
qed

lemma resolveOperator_sameSpec:
  "resolveOperator w acc issuer = (r, acc') \<Longrightarrow> acc_sameSpec acc acc'"
  unfolding resolveOperator_def Let_def
  by (auto split: object.splits prod.splits if_splits option.splits)

lemma resolveOperator_independent:
  "acc_sameSpec acc acc2 \<Longrightarrow> fst (resolveOperator w acc issuer) = fst (resolveOperator w acc2 issuer)"
  unfolding resolveOperator_def Let_def
  by (auto split: object.splits prod.splits if_splits option.splits)

lemma ensureSigningKeysUpdated_footprint:
  "ensureSigningKeysUpdated w acc = (err, acc', effs) \<Longrightarrow>
   acc_sameSpec acc acc' \<and> (\<forall>e\<in>set effs. isEvent e)"
  unfolding ensureSigningKeysUpdated_def Let_def
  by (auto split: sum.splits option.splits if_splits)

lemma acc_loadIssuerSeed_sameSpec:
  "acc_loadIssuerSeed w acc issuer = (r, acc') \<Longrightarrow> acc_sameSpec acc acc'"
  unfolding acc_loadIssuerSeed_def
  by (auto split: sum.splits option.splits if_splits)

lemma acc_createJWTSecret_footprint:
  "acc_createJWTSecret w acc jwt = (err, acc', effs) \<Longrightarrow>
   acc_sameSpec acc acc' \<and>
   (\<forall>e\<in>set effs. \<not> isRemoteCall e \<and> \<not> isStatusUpdate e \<and> \<not> isKeyGeneration e)"
  unfolding acc_createJWTSecret_def
  by (auto split: sum.splits option.splits)

lemma acc_ensureJWTSecretUpToDate_footprint:
  "acc_ensureJWTSecretUpToDate w acc wantClaims got nextJWT = (r, acc', effs) \<Longrightarrow>
   acc_sameSpec acc acc' \<and>
   (\<forall>e\<in>set effs. \<not> isRemoteCall e \<and> \<not> isStatusUpdate e \<and> \<not> isKeyGeneration e)"
  unfolding acc_ensureJWTSecretUpToDate_def Let_def
  by (auto split: sum.splits option.splits if_splits)

lemma acc_reconcileJWTSecret_footprint:
  assumes "acc_reconcileJWTSecret w acc kp = (r, acc', effs)"
  shows "acc_sameSpec acc acc' \<and>
   (\<forall>e\<in>set effs. \<not> isRemoteCall e \<and> \<not> isStatusUpdate e \<and> \<not> isKeyGeneration e)"
proof (cases "nsc_CreateAccountClaims w acc kp")
  case (Inl err)
  with assms show ?thesis by (auto simp: acc_reconcileJWTSecret_def)
next
  case (Inr p)
  obtain wantClaims nextJWT where p: "p = (wantClaims, nextJWT)" by (cases p)
  show ?thesis
  proof (cases "SecretsGet w (Namespace acc) (acc_JWTSecretName acc)")
    case (Inr got)
    with assms \<open>nsc_CreateAccountClaims w acc kp = Inr p\<close> p
    have "acc_ensureJWTSecretUpToDate w acc wantClaims got nextJWT = (r, acc', effs)"
      by (simp add: acc_reconcileJWTSecret_def)
    from acc_ensureJWTSecretUpToDate_footprint [OF this] show ?thesis .
  next
    case (Inl err)
    obtain e a es where c: "acc_createJWTSecret w acc nextJWT = (e, a, es)"
      by (cases "acc_createJWTSecret w acc nextJWT") auto
    from acc_createJWTSecret_footprint [OF c] assms Inl \<open>nsc_CreateAccountClaims w acc kp = Inr p\<close> p c
    show ?thesis
      by (auto simp: acc_reconcileJWTSecret_def split: if_splits)
  qed
qed

lemma ensureJWTPushed_footprint:
  "ensureJWTPushed w acc operator kp jwt = (err, acc', effs) \<Longrightarrow>
   acc_sameSpec acc acc' \<and> (\<forall>e\<in>set effs. isRemoteCall e \<and> \<not> isRemoteDelete e)"
  unfolding ensureJWTPushed_def
  by (auto split: sum.splits option.splits)

lemma publish_footprint:
  "publish w acc operator kp jwt = (err, acc', effs) \<Longrightarrow>
   acc_sameSpec acc acc' \<and> (\<forall>e\<in>set effs. isRemoteCall e \<and> \<not> isRemoteDelete e) \<and>
   (effs \<noteq> [] \<longrightarrow> (\<exists>op. operator = Some op \<and> \<not> IsSystemAccount acc op))"
  unfolding publish_def
  using ensureJWTPushed_footprint [of w acc _ kp jwt err acc' effs]
  by (auto split: option.splits if_splits)

lemma isRemoteDelete_isRemoteCall: "isRemoteDelete e \<Longrightarrow> isRemoteCall e"
  by (cases e) auto

lemma isEvent_only:
  "isEvent e \<Longrightarrow> \<not> isRemoteCall e \<and> \<not> isKeyGeneration e \<and> \<not> isStatusUpdate e \<and> \<not> isSecretWrite e"
  by (cases e) auto

lemma isRemoteCall_only:
  "isRemoteCall e \<Longrightarrow> \<not> isKeyGeneration e \<and> \<not> isStatusUpdate e \<and> \<not> isSecretWrite e \<and> \<not> isEvent e"
  by (cases e) auto

lemma IsSystemAccount_sameSpec:
  "acc_sameSpec acc acc2 \<Longrightarrow> IsSystemAccount acc2 op = IsSystemAccount acc op"
  using acc_sameSpec_fields(1,2) [of acc acc2]
  by (auto simp: IsSystemAccount_def split: option.splits)

lemma acc_pipeline_footprint:
  assumes p: "acc_pipeline w acc = (err, acc', effs)"
  shows "acc_sameSpec acc acc' \<and>
    (\<forall>e\<in>set effs. \<not> isStatusUpdate e \<and> \<not> isRemoteDelete e \<and>
       (isKeyGeneration e \<longrightarrow> seedSecretAbsent w (Namespace acc) (acc_SeedSecretName acc)) \<and>
       (isRemoteCall e \<longrightarrow> (\<exists>op. resolvedOperator w acc = Some op \<and> \<not> IsSystemAccount acc op)))"
proof -
  let ?P = "\<lambda>e. \<not> isStatusUpdate e \<and> \<not> isRemoteDelete e \<and>
       (isKeyGeneration e \<longrightarrow> seedSecretAbsent w (Namespace acc) (acc_SeedSecretName acc)) \<and>
       (isRemoteCall e \<longrightarrow> (\<exists>op. resolvedOperator w acc = Some op \<and> \<not> IsSystemAccount acc op))"
  obtain ok1 err1 acc1 e1 where s1: "acc_reconcileSeedSecret w acc = ((ok1, err1), acc1, e1)"
    by (cases "acc_reconcileSeedSecret w acc") auto
  from acc_reconcileSeedSecret_footprint [OF s1]
  have a1: "acc_sameSpec acc acc1" and f1: "\<forall>e\<in>set e1. ?P e"
    using isRemoteDelete_isRemoteCall by blast+
  show ?thesis
  proof (cases "err1 \<noteq> None \<or> \<not> ok1")
    case True
    with p s1 have "acc' = acc1" "effs = e1" by (auto simp: acc_pipeline_def)
    with a1 f1 show ?thesis by simp
  next
    case n1: False
    obtain issuerO ok2 err2 where s2:
      "resolveIssuer w (acc_Issuer acc1) (Namespace acc1) = (issuerO, ok2, err2)"
      by (cases "resolveIssuer w (acc_Issuer acc1) (Namespace acc1)") auto
    show ?thesis
    proof (cases "err2 \<noteq> None \<or> \<not> ok2 \<or> issuerO = None")
      case True
      with p s1 n1 s2 have "effs = e1" "acc_sameSpec acc1 acc'"
        by (auto simp: acc_pipeline_def split: option.splits if_splits)
      with a1 f1 show ?thesis using acc_sameSpec_trans by blast
    next
      case n2: False
      then obtain issuer where i: "issuerO = Some issuer" by auto
      obtain opO ok3 err3 acc2 where s3: "resolveOperator w acc1 issuer = ((opO, ok3, err3), acc2)"
        by (cases "resolveOperator w acc1 issuer") auto
      have a2: "acc_sameSpec acc acc2"
        using resolveOperator_sameSpec [OF s3] a1 by (rule acc_sameSpec_trans [rotated])
      have ro: "resolvedOperator w acc = opO"
        using s2 i s3 resolveOperator_independent [OF a1, of w issuer] a1
        by (simp add: resolvedOperator_def acc_sameSpec_fields)
      show ?thesis
      proof (cases "err3 \<noteq> None \<or> \<not> ok3")
        case True
        with p s1 n1 s2 n2 i s3 have "effs = e1" "acc' = acc2"
          by (auto simp: acc_pipeline_def)
        with a2 f1 show ?thesis by simp
      next
        case n3: False
        obtain err4 acc3 e3 where s4: "ensureSigningKeysUpdated w acc2 = (err4, acc3, e3)"
          by (cases "ensureSigningKeysUpdated w acc2") auto
        from ensureSigningKeysUpdated_footprint [OF s4]
        have a3: "acc_sameSpec acc acc3" and f3: "\<forall>e\<in>set e3. ?P e"
          using a2 acc_sameSpec_trans isEvent_only isRemoteDelete_isRemoteCall by blast+
        show ?thesis
        proof (cases "err4 \<noteq> None")
          case True
          with p s1 n1 s2 n2 i s3 n3 s4 have "effs = e1 @ e3" "acc' = acc3"
            by (auto simp: acc_pipeline_def)
          with a3 f1 f3 show ?thesis by auto
        next
          case n4: False
          obtain kpO ok5 err5 acc4 where s5: "acc_loadIssuerSeed w acc3 issuer = ((kpO, ok5, err5), acc4)"
            by (cases "acc_loadIssuerSeed w acc3 issuer") auto
          have a4: "acc_sameSpec acc acc4"
            using acc_loadIssuerSeed_sameSpec [OF s5] a3 by (rule acc_sameSpec_trans [rotated])
          show ?thesis
          proof (cases "err5 \<noteq> None \<or> \<not> ok5 \<or> kpO = None")
            case True
            with p s1 n1 s2 n2 i s3 n3 s4 n4 s5 have "effs = e1 @ e3" "acc' = acc4"
              by (auto simp: acc_pipeline_def split: option.splits if_splits)
            with a4 f1 f3 show ?thesis by auto
          next
            case n5: False
            then obtain kp where k: "kpO = Some kp" by auto
            obtain jwt ok6 err6 acc5 e5 where s6:
              "acc_reconcileJWTSecret w acc4 kp = ((jwt, ok6, err6), acc5, e5)"
              by (cases "acc_reconcileJWTSecret w acc4 kp") auto
            from acc_reconcileJWTSecret_footprint [OF s6]
            have a5: "acc_sameSpec acc acc5" and f5: "\<forall>e\<in>set e5. ?P e"
              using a4 acc_sameSpec_trans isRemoteDelete_isRemoteCall by blast+
            show ?thesis
            proof (cases "err6 \<noteq> None \<or> \<not> ok6")
              case True
              with p s1 n1 s2 n2 i s3 n3 s4 n4 s5 n5 k s6 have "effs = e1 @ e3 @ e5" "acc' = acc5"
                by (auto simp: acc_pipeline_def)
              with a5 f1 f3 f5 show ?thesis by auto
            next
              case n6: False
              obtain err7 acc6 e6 where s7: "publish w acc5 opO kp jwt = (err7, acc6, e6)"
                by (cases "publish w acc5 opO kp jwt") auto
              from publish_footprint [OF s7]
              have a6: "acc_sameSpec acc acc6" and f6: "\<forall>e\<in>set e6. ?P e"
                using a5 ro IsSystemAccount_sameSpec [OF a5] acc_sameSpec_trans isRemoteCall_only
                by (blast, fastforce)
              from p s1 n1 s2 n2 i s3 n3 s4 n4 s5 n5 k s6 n6 s7
              have "effs = e1 @ e3 @ e5 @ e6" "acc' = acc6"
                by (auto simp: acc_pipeline_def)
              with a6 f1 f3 f5 f6 show ?thesis by auto
            qed
          qed
        qed
      qed
    qed
  qed
qed

section \<open>What each stage of the user pipeline touches\<close>

lemma base_ensureSeedSecretUpToDate_footprint:
  "base_ensureSeedSecretUpToDate w owner got = (r, effs) \<Longrightarrow>
   (\<forall>e\<in>set effs. \<not> isRemoteCall e \<and> \<not> isStatusUpdate e \<and> \<not> isKeyGeneration e \<and>
      (\<forall>s. e \<noteq> CreateSecret s) \<and>
      (\<forall>s. e = UpdateSecret s \<longrightarrow> repairedSeedSecret w got owner = Some s))"
  unfolding base_ensureSeedSecretUpToDate_def repairedSeedSecret_def
  by (auto split: sum.splits option.splits if_splits)

lemma usr_createSeedSecret_footprint:
  "usr_createSeedSecret w usr = (r, usr', effs) \<Longrightarrow>
   usr_sameSpec usr usr' \<and>
   (\<forall>e\<in>set effs. \<not> isRemoteCall e \<and> \<not> isStatusUpdate e \<and> (\<forall>s. e \<noteq> UpdateSecret s))"
  unfolding usr_createSeedSecret_def Let_def
  by (auto split: sum.splits option.splits)

lemma usr_reconcileSeedSecret_footprint:
  assumes "usr_reconcileSeedSecret w usr = (r, usr', effs)"
  shows "usr_sameSpec usr usr' \<and>
   (\<forall>e\<in>set effs. \<not> isRemoteCall e \<and> \<not> isStatusUpdate e \<and>
      (isKeyGeneration e \<longrightarrow> seedSecretAbsent w (Namespace usr) (usr_SeedSecretName usr)) \<and>
      (\<forall>s. e = CreateSecret s \<longrightarrow> seedSecretAbsent w (Namespace usr) (usr_SeedSecretName usr)) \<and>
      (\<forall>s. e = UpdateSecret s \<longrightarrow>
         (\<exists>got. SecretsGet w (Namespace usr) (usr_SeedSecretName usr) = Inr got \<and>
                repairedSeedSecret w got (UserObj usr) = Some s)))"
proof (cases "SecretsGet w (Namespace usr) (usr_SeedSecretName usr)")
  case (Inr got)
  obtain kp ok err es where b: "base_ensureSeedSecretUpToDate w (UserObj usr) got = ((kp, ok, err), es)"
    by (cases "base_ensureSeedSecretUpToDate w (UserObj usr) got") auto
  from assms Inr b have "es = effs" "usr_sameSpec usr usr'"
    by (auto simp: usr_reconcileSeedSecret_def Let_def split: if_splits option.splits)
  with base_ensureSeedSecretUpToDate_footprint [OF b] Inr show ?thesis
    by auto
next
  case (Inl err)
  show ?thesis
  proof (cases "IsNotFound err")
    case True
    with assms Inl have c: "usr_createSeedSecret w usr = (r, usr', effs)"
      by (simp add: usr_reconcileSeedSecret_def)
    from usr_createSeedSecret_footprint [OF c] Inl True show ?thesis
      by (auto simp: seedSecretAbsent_def)
  next
    case False
    with assms Inl show ?thesis
      by (auto simp: usr_reconcileSeedSecret_def)
  qed
qed

lemma resolveAccount_sameSpec:
  "resolveAccount w usr issuer = (r, usr') \<Longrightarrow> usr_sameSpec usr usr'"
  unfolding resolveAccount_def Let_def
  by (auto split: object.splits prod.splits if_splits option.splits)

lemma usr_createJWTSecret_footprint:
  "usr_createJWTSecret w usr jwt = (r, usr', effs) \<Longrightarrow>
   usr_sameSpec usr usr' \<and>
   (\<forall>e\<in>set effs. \<not> isRemoteCall e \<and> \<not> isStatusUpdate e \<and> \<not> isKeyGeneration e)"
  unfolding usr_createJWTSecret_def
  by (auto split: sum.splits option.splits)

lemma usr_ensureJWTSecretUpToDate_footprint:
  "usr_ensureJWTSecretUpToDate w usr wantClaims got nextJWT = (r, usr', effs) \<Longrightarrow>
   usr_sameSpec usr usr' \<and>
   (\<forall>e\<in>set effs. \<not> isRemoteCall e \<and> \<not> isStatusUpdate e \<and> \<not> isKeyGeneration e)"
  unfolding usr_ensureJWTSecretUpToDate_def Let_def
  by (auto split: sum.splits option.splits if_splits)

lemma usr_reconcileJWTSecret_footprint:
  assumes "usr_reconcileJWTSecret w usr issuer = (r, usr', effs)"
  shows "usr_sameSpec usr usr' \<and>
   (\<forall>e\<in>set effs. \<not> isRemoteCall e \<and> \<not> isStatusUpdate e \<and> \<not> isKeyGeneration e)"
proof -
  obtain kpO ok err where l: "base_loadIssuerSeed w issuer PrefixByteAccount = (kpO, ok, err)"
    by (cases "base_loadIssuerSeed w issuer PrefixByteAccount") auto
  show ?thesis
  proof (cases "err \<noteq> None \<or> \<not> ok \<or> kpO = None")
    case True
    with assms l show ?thesis
      by (auto simp: usr_reconcileJWTSecret_def split: if_splits option.splits)
  next
    case False
    then obtain kp where k: "kpO = Some kp" "err = None" "ok" by auto
    let ?u = "MarkIssuerResolved usr"
    have u: "usr_sameSpec usr ?u" by simp
    show ?thesis
    proof (cases "nsc_CreateUserClaims w ?u kp")
      case (Inl e)
      with assms l k show ?thesis
        by (auto simp: usr_reconcileJWTSecret_def Let_def usr_sameSpec_def mark_defs)
    next
      case (Inr p)
      obtain wantClaims nextJWT where p: "p = (wantClaims, nextJWT)" by (cases p)
      have ns: "Namespace ?u = Namespace usr" "usr_JWTSecretName ?u = usr_JWTSecretName usr"
        by (simp_all add: MarkIssuerResolved_def)
      show ?thesis
      proof (cases "SecretsGet w (Namespace usr) (usr_JWTSecretName usr)")
        case g: (Inr got)
        with assms l k Inr p ns
        have "usr_ensureJWTSecretUpToDate w ?u wantClaims got nextJWT = (r, usr', effs)"
          by (simp add: usr_reconcileJWTSecret_def Let_def)
        from usr_ensureJWTSecretUpToDate_footprint [OF this] show ?thesis
          using usr_sameSpec_trans [OF u] by blast
      next
        case g: (Inl e)
        obtain ok2 err2 u2 es where c: "usr_createJWTSecret w ?u nextJWT = ((ok2, err2), u2, es)"
          by (cases "usr_createJWTSecret w ?u nextJWT") auto
        from assms l k Inr p ns g c have "(es = effs \<and> u2 = usr') \<or> (effs = [] \<and> usr_sameSpec ?u usr')"
          by (auto simp: usr_reconcileJWTSecret_def Let_def split: if_splits)
        with usr_createJWTSecret_footprint [OF c] show ?thesis
          using usr_sameSpec_trans [OF u] by auto
      qed
    qed
  qed
qed

lemma reconcileUserCredentialSecret_footprint:
  "reconcileUserCredentialSecret w usr ujwt seed = (err, usr', effs) \<Longrightarrow>
   usr_sameSpec usr usr' \<and>
   (\<forall>e\<in>set effs. \<not> isRemoteCall e \<and> \<not> isStatusUpdate e \<and> \<not> isKeyGeneration e)"
  unfolding reconcileUserCredentialSecret_def createCredentialsSecret_def
    ensureCredentialsSecretUpToDate_def Let_def
  by (auto split: sum.splits option.splits if_splits)

lemma usr_pipeline_footprint:
  assumes p: "usr_pipeline w usr = (err, usr', effs)"
  shows "usr_sameSpec usr usr' \<and>
    (\<forall>e\<in>set effs. \<not> isStatusUpdate e \<and> \<not> isRemoteCall e \<and>
       (isKeyGeneration e \<longrightarrow> seedSecretAbsent w (Namespace usr) (usr_SeedSecretName usr)))"
proof -
  let ?P = "\<lambda>e. \<not> isStatusUpdate e \<and> \<not> isRemoteCall e \<and>
       (isKeyGeneration e \<longrightarrow> seedSecretAbsent w (Namespace usr) (usr_SeedSecretName usr))"
  obtain seed ok1 err1 usr1 e1 where s1: "usr_reconcileSeedSecret w usr = ((seed, ok1, err1), usr1, e1)"
    by (cases "usr_reconcileSeedSecret w usr") auto
  from usr_reconcileSeedSecret_footprint [OF s1]
  have a1: "usr_sameSpec usr usr1" and f1: "\<forall>e\<in>set e1. ?P e"
    by blast+
  show ?thesis
  proof (cases "err1 \<noteq> None \<or> \<not> ok1")
    case True
    with p s1 have "usr' = usr1" "effs = e1" by (auto simp: usr_pipeline_def)
    with a1 f1 show ?thesis by simp
  next
    case n1: False
    obtain issuerO ok2 err2 where s2:
      "resolveIssuer w (usr_Issuer usr1) (Namespace usr1) = (issuerO, ok2, err2)"
      by (cases "resolveIssuer w (usr_Issuer usr1) (Namespace usr1)") auto
    show ?thesis
    proof (cases "err2 \<noteq> None \<or> \<not> ok2 \<or> issuerO = None")
      case True
      with p s1 n1 s2 have "effs = e1" "usr_sameSpec usr1 usr'"
        by (auto simp: usr_pipeline_def split: option.splits if_splits)
      with a1 f1 show ?thesis using usr_sameSpec_trans by blast
    next
      case n2: False
      then obtain issuer where i: "issuerO = Some issuer" by auto
      obtain accO ok3 err3 usr2 where s3: "resolveAccount w usr1 issuer = ((accO, ok3, err3), usr2)"
        by (cases "resolveAccount w usr1 issuer") auto
      have a2: "usr_sameSpec usr usr2"
        using resolveAccount_sameSpec [OF s3] a1 by (rule usr_sameSpec_trans [rotated])
      show ?thesis
      proof (cases "err3 \<noteq> None \<or> \<not> ok3")
        case True
        with p s1 n1 s2 n2 i s3 have "effs = e1" "usr' = usr2"
          by (auto simp: usr_pipeline_def)
        with a2 f1 show ?thesis by simp
      next
        case n3: False
        obtain ujwt ok4 err4 usr3 e3 where s4:
          "usr_reconcileJWTSecret w usr2 issuer = ((ujwt, ok4, err4), usr3, e3)"
          by (cases "usr_reconcileJWTSecret w usr2 issuer") auto
        from usr_reconcileJWTSecret_footprint [OF s4]
        have a3: "usr_sameSpec usr usr3" and f3: "\<forall>e\<in>set e3. ?P e"
          using a2 usr_sameSpec_trans by blast+
        show ?thesis
        proof (cases "err4 \<noteq> None \<or> \<not> ok4")
          case True
          with p s1 n1 s2 n2 i s3 n3 s4 have "effs = e1 @ e3" "usr' = usr3"
            by (auto simp: usr_pipeline_def)
          with a3 f1 f3 show ?thesis by auto
        next
          case n4: False
          obtain err5 usr4 e4 where s5:
            "reconcileUserCredentialSecret w usr3 ujwt seed = (err5, usr4, e4)"
            by (cases "reconcileUserCredentialSecret w usr3 ujwt seed") auto
          from reconcileUserCredentialSecret_footprint [OF s5]
          have a4: "usr_sameSpec usr usr4" and f4: "\<forall>e\<in>set e4. ?P e"
            using a3 usr_sameSpec_trans by blast+
          from p s1 n1 s2 n2 i s3 n3 s4 n4 s5 have "effs = e1 @ e3 @ e4" "usr' = usr4"
            by (auto simp: usr_pipeline_def)
          with a4 f1 f3 f4 show ?thesis by auto
        qed
      qed
    qed
  qed
qed

section \<open>What a whole pass touches\<close>

lemma acc_reconcile_keygen:
  assumes r: "acc_reconcile w acc = (err, acc', effs)" and e: "e \<in> set effs" and k: "isKeyGeneration e"
  shows "seedSecretAbsent w (Namespace acc) (acc_SeedSecretName acc)"
proof (cases "DeletionTimestamp acc = None")
  case False
  from acc_reconcile_deleting [OF False r] e k show ?thesis
    using isRemoteCall_only by (cases e) auto
next
  case True
  show ?thesis
  proof (cases "AccountFinalizer \<in> set (Finalizers acc)")
    case f: True
    with True r have "acc_pipeline w acc = (err, acc', effs)"
      by (simp add: acc_reconcile_def)
    from acc_pipeline_footprint [OF this] e k show ?thesis by blast
  next
    case f: False
    let ?a = "acc\<lparr>Finalizers := Finalizers acc @ [AccountFinalizer]\<rparr>"
    obtain e1 a1 es1 where p: "acc_pipeline w ?a = (e1, a1, es1)"
      by (cases "acc_pipeline w ?a") auto
    from True f r p have "set effs \<subseteq> insert (UpdateObject (AccountObj ?a)) (set es1)"
      by (auto simp: acc_reconcile_def Let_def split: option.splits)
    with e k have "e \<in> set es1" by auto
    with acc_pipeline_footprint [OF p] k show ?thesis by auto
  qed
qed

lemma Account_Reconcile_keygen:
  assumes g: "AccountsGet w ns name = Inr acc"
    and e: "e \<in> set (effects (Account_Reconcile w ns name))" and k: "isKeyGeneration e"
  shows "seedSecretAbsent w (Namespace acc) (acc_SeedSecretName acc)"
proof -
  let ?a = "acc\<lparr>Conditions := InitializeConditions AccountConditionSet (Conditions acc)\<rparr>"
  obtain e1 a1 es1 where r: "acc_reconcile w ?a = (e1, a1, es1)"
    by (cases "acc_reconcile w ?a") auto
  from g r have "set (effects (Account_Reconcile w ns name)) \<subseteq> insert (UpdateStatus (AccountObj a1)) (set es1)"
    by (auto simp: Account_Reconcile_def Let_def split: option.splits)
  with e k have "e \<in> set es1" by auto
  from acc_reconcile_keygen [OF r this k] show ?thesis by simp
qed

lemma User_Reconcile_keygen:
  assumes g: "UsersGet w ns name = Inr usr"
    and e: "e \<in> set (effects (User_Reconcile w ns name))" and k: "isKeyGeneration e"
  shows "seedSecretAbsent w (Namespace usr) (usr_SeedSecretName usr)"
proof -
  let ?u = "usr\<lparr>Conditions := InitializeConditions UserConditionSet (Conditions usr)\<rparr>"
  obtain e1 u1 es1 where r: "usr_pipeline w ?u = (e1, u1, es1)"
    by (cases "usr_pipeline w ?u") auto
  from g r have "set (effects (User_Reconcile w ns name)) \<subseteq> insert (UpdateStatus (UserObj u1)) (set es1)"
    by (auto simp: User_Reconcile_def Let_def split: option.splits)
  with e k have "e \<in> set es1" by auto
  with usr_pipeline_footprint [OF r] k show ?thesis by auto
qed

section \<open>The converged cluster, evaluated\<close>

lemmas concrete3 =
  accountIssuer_def accountSeedSecret_def accountKP_def theUser_def userSeedSecret_def userKP_def
  userJWTSecret_def userCredsSecret_def wantedUserClaims_def builtSecret_def clusterSecrets_def
  clusterWorld_def seedOnlySecrets_def seedOnlyWorld_def

lemma theUser_marks:
  "MarkSeedSecretReady ''UPUB'' ''u-seed'' theUser = theUser"
  "MarkIssuerResolved theUser = theUser"
  "MarkAccountResolved \<lparr>ref_Namespace = ''default'', ref_Name = ''a''\<rparr> theUser = theUser"
  "MarkJWTSecretReady theUser = theUser"
  "MarkCredentialsSecretReady theUser = theUser"
  "theUser\<lparr>Conditions := InitializeConditions UserConditionSet (Conditions theUser)\<rparr> = theUser"
  by (simp_all add: theUser_def trueCondition_def mark_defs MarkTrue_def SetCondition_def
      UserConditionSet_def)

lemma theUser_fields:
  "Namespace theUser = ''default''" "usr_Issuer theUser = accountIssuer"
  "usr_SeedSecretName theUser = ''u-seed''" "usr_JWTSecretName theUser = ''u-jwt''"
  "usr_CredentialsSecretName theUser = ''u-creds''"
  by (simp_all add: theUser_def)

lemma liveAccount_marks:
  "MarkSeedSecretReady ''APUB'' ''a-seed'' liveAccount = liveAccount"
  "MarkIssuerResolved liveAccount = liveAccount"
  "MarkOperatorResolved \<lparr>ref_Namespace = ''default'', ref_Name = ''op''\<rparr> liveAccount = liveAccount"
  "MarkSigningKeysUpdated [] liveAccount = liveAccount"
  "MarkJWTSecretReady liveAccount = liveAccount"
  "MarkJWTPushed liveAccount = liveAccount"
  "liveAccount\<lparr>Conditions := InitializeConditions AccountConditionSet (Conditions liveAccount)\<rparr> = liveAccount"
  by (simp_all add: liveAccount_def deletedAccount_def trueCondition_def mark_defs MarkTrue_def
      SetCondition_def AccountConditionSet_def)

lemma liveAccount_fields:
  "Namespace liveAccount = ''default''" "Name liveAccount = ''a''" "UID liveAccount = ''uid-a''"
  "acc_Issuer liveAccount = operatorIssuer"
  "acc_SeedSecretName liveAccount = ''a-seed''" "acc_JWTSecretName liveAccount = ''a-jwt''"
  "acc_SigningKeysSelector liveAccount = None" "SigningKeys liveAccount = []"
  "DeletionTimestamp liveAccount = None" "Finalizers liveAccount = [AccountFinalizer]"
  "StatusKeyPair liveAccount = Some \<lparr>PublicKey = ''APUB'', SeedSecretName = ''a-seed''\<rparr>"
  "IsTrue (GetCondition (Conditions liveAccount) SeedSecretReady)"
  by (simp_all add: liveAccount_def deletedAccount_def GetCondition_def trueCondition_def)

lemma clusterWorld_store:
  "SecretsGet clusterWorld = clusterSecrets"
  "SchemeNew clusterWorld (GetGroupVersionKind (Ref accountIssuer)) = Inr AccountKind"
  "SchemeNew clusterWorld (GetGroupVersionKind (Ref operatorIssuer)) = Inr OperatorKind"
  "ClientGet clusterWorld AccountKind = (\<lambda>_ _. Inr (AccountObj liveAccount))"
  "ClientGet clusterWorld OperatorKind = (\<lambda>_ _. Inr (OperatorObj theOperator))"
  "AccountsGet clusterWorld = (\<lambda>_ _. Inr liveAccount)"
  "UsersGet clusterWorld = (\<lambda>_ _. Inr theUser)"
  "SigningKeysList clusterWorld = (\<lambda>_ _. Inr [])"
  "ClientCreate clusterWorld = (\<lambda>_. None)" "ClientUpdate clusterWorld = (\<lambda>_. None)"
  by (simp_all add: clusterWorld_def nothing_def accountIssuer_def operatorIssuer_def
      GetGroupVersionKind_def)

lemma clusterWorld_libs:
  "nkeys_FromSeed clusterWorld ''SOSEED'' = Inr operatorKP"
  "nkeys_FromSeed clusterWorld ''SASEED'' = Inr accountKP"
  "nkeys_FromSeed clusterWorld ''SUSEED'' = Inr userKP"
  "nkeys_DecodeSeed clusterWorld ''SOSEED'' = Inr PrefixByteOperator"
  "nkeys_DecodeSeed clusterWorld ''SASEED'' = Inr PrefixByteAccount"
  "jwt_Decode clusterWorld ''OLDJWT'' = Inr \<lparr>IssuedAt = 100, Content = ''account a, issuer OPUB''\<rparr>"
  "jwt_Decode clusterWorld ''OLDUJWT'' = Inr \<lparr>IssuedAt = 100, Content = ''user u, issuer APUB''\<rparr>"
  "nsc_CreateAccountClaims clusterWorld = (\<lambda>_ _. Inr (wantedClaims, ''NEWJWT''))"
  "nsc_CreateUserClaims clusterWorld = (\<lambda>_ _. Inr (wantedUserClaims, ''NEWUJWT''))"
  "SysAccountLoader_Load clusterWorld = (\<lambda>_. Inr ''SYSSEED'')"
  "nsc_Connect clusterWorld = (\<lambda>_ _ _ _. None)" "nsc_Push clusterWorld = (\<lambda>_. None)"
  "KeyPairSecretBuild clusterWorld (Some s) = (\<lambda>_ _. Inr s)"
  "JWTSecretBuild clusterWorld = (\<lambda>got owner jwt. Inr (builtSecret got owner ''-jwt'' [(''jwt'', jwt)]))"
  "UserCredentialSecretBuild clusterWorld =
     (\<lambda>got owner jwt seed. Inr (builtSecret got owner ''-creds'' [(''creds'', jwt @ ''+'' @ seed)]))"
  by (simp_all add: clusterWorld_def nothing_def)

lemma clusterSecrets_simps:
  "clusterSecrets ns ''op-seed'' = Inr operatorSeedSecret"
  "clusterSecrets ns ''a-seed'' = Inr accountSeedSecret"
  "clusterSecrets ns ''a-jwt'' = Inr storedJWTSecret"
  "clusterSecrets ns ''u-seed'' = Inr userSeedSecret"
  "clusterSecrets ns ''u-jwt'' = Inr userJWTSecret"
  "clusterSecrets ns ''u-creds'' = Inr userCredsSecret"
  by (simp_all add: clusterSecrets_def)

lemma cluster_secret_data:
  "map_of (sec_Data operatorSeedSecret) NatsSecretSeedKey = Some ''SOSEED''"
  "map_of (sec_Data accountSeedSecret) NatsSecretSeedKey = Some ''SASEED''"
  "map_of (sec_Data userSeedSecret) NatsSecretSeedKey = Some ''SUSEED''"
  "map_of (sec_Data storedJWTSecret) NatsSecretJWTKey = Some ''OLDJWT''"
  "map_of (sec_Data userJWTSecret) NatsSecretJWTKey = Some ''OLDUJWT''"
  by (simp_all add: operatorSeedSecret_def accountSeedSecret_def userSeedSecret_def
      storedJWTSecret_def userJWTSecret_def NatsSecretSeedKey_def NatsSecretJWTKey_def)

lemma cluster_keys:
  "kp_PublicKey operatorKP = Inr ''OPUB''" "kp_PublicKey accountKP = Inr ''APUB''"
  "kp_PublicKey userKP = Inr ''UPUB''" "kp_Seed userKP = Inr ''SUSEED''"
  by (simp_all add: operatorKP_def accountKP_def userKP_def)

lemmas cluster = clusterWorld_store clusterWorld_libs clusterSecrets_simps cluster_secret_data
  cluster_keys theUser_fields theUser_marks liveAccount_fields liveAccount_marks

lemma cluster_user_seed:
  "usr_reconcileSeedSecret clusterWorld theUser = ((''SUSEED'', True, None), theUser, [])"
  by (simp add: usr_reconcileSeedSecret_def base_ensureSeedSecretUpToDate_def Let_def cluster)

lemma cluster_user_issuer:
  "resolveIssuer clusterWorld accountIssuer ''default'' = (Some (AccountObj liveAccount), True, None)"
  by (simp add: resolveIssuer_def Let_def cluster)

lemma cluster_user_account:
  "resolveAccount clusterWorld theUser (AccountObj liveAccount) = ((Some liveAccount, True, None), theUser)"
  by (simp add: resolveAccount_def Let_def cluster)

lemma cluster_user_issuer_seed:
  "base_loadIssuerSeed clusterWorld (AccountObj liveAccount) PrefixByteAccount = (Some accountKP, True, None)"
  by (simp add: base_loadIssuerSeed_def cluster)

lemma cluster_user_jwt:
  "usr_reconcileJWTSecret clusterWorld theUser (AccountObj liveAccount) =
     ((''OLDUJWT'', True, None), theUser, [])"
  by (simp add: usr_reconcileJWTSecret_def cluster_user_issuer_seed usr_ensureJWTSecretUpToDate_def
      Let_def Equality_DeepEqual_iff cluster wantedUserClaims_def)

lemma cluster_user_creds:
  "reconcileUserCredentialSecret clusterWorld theUser ''OLDUJWT'' ''SUSEED'' = (None, theUser, [])"
  by (simp add: reconcileUserCredentialSecret_def ensureCredentialsSecretUpToDate_def cluster
      builtSecret_def userCredsSecret_def)

lemma cluster_user_pipeline: "usr_pipeline clusterWorld theUser = (None, theUser, [])"
  by (simp add: usr_pipeline_def cluster_user_seed cluster_user_issuer cluster_user_account
      cluster_user_jwt cluster_user_creds cluster)

lemma cluster_User_Reconcile: "User_Reconcile clusterWorld ''default'' ''u'' = (None, Some theUser, [])"
  by (simp add: User_Reconcile_def cluster_user_pipeline cluster)

lemma theOperator_fields:
  "Namespace theOperator = ''default''" "Name theOperator = ''op''"
  "StatusKeyPair theOperator = Some \<lparr>PublicKey = ''OPUB'', SeedSecretName = ''op-seed''\<rparr>"
  "AccountServerURL theOperator = ''nats://nats:4222''" "TLSConfig theOperator = None"
  "ResolvedSystemAccount theOperator = Some \<lparr>ref_Namespace = ''default'', ref_Name = ''sys''\<rparr>"
  "theOperator\<lparr>Conditions := InitializeConditions OperatorConditionSet (Conditions theOperator)\<rparr> = theOperator"
  "IsTrue (GetCondition (Conditions theOperator) SeedSecretReady)"
  by (simp_all add: theOperator_def OperatorConditionSet_def GetCondition_def trueCondition_def)

lemma cluster_secret_names:
  "sec_Name accountSeedSecret = ''a-seed''" "sec_Name userSeedSecret = ''u-seed''"
  by (simp_all add: accountSeedSecret_def userSeedSecret_def)

lemma cluster_account_seed:
  "acc_reconcileSeedSecret clusterWorld liveAccount = ((True, None), liveAccount, [])"
  by (simp add: acc_reconcileSeedSecret_def acc_ensureSeedSecretUpToDate_def Let_def cluster
      cluster_secret_names)

lemma cluster_account_issuer:
  "resolveIssuer clusterWorld operatorIssuer ''default'' = (Some (OperatorObj theOperator), True, None)"
  by (simp add: resolveIssuer_def Let_def cluster theOperator_fields)

lemma cluster_account_operator:
  "resolveOperator clusterWorld liveAccount (OperatorObj theOperator) =
     ((Some theOperator, True, None), liveAccount)"
  by (simp add: resolveOperator_def Let_def cluster theOperator_fields)

lemma cluster_account_signing_keys:
  "ensureSigningKeysUpdated clusterWorld liveAccount = (None, liveAccount, [])"
  by (simp add: ensureSigningKeysUpdated_def Let_def cluster labels_Everything_def
      NextSigningKeys_def desiredSigningKeys_def)

lemma cluster_account_issuer_seed:
  "acc_loadIssuerSeed clusterWorld liveAccount (OperatorObj theOperator) =
     ((Some operatorKP, True, None), liveAccount)"
  by (simp add: acc_loadIssuerSeed_def cluster theOperator_fields)

lemma cluster_account_jwt:
  "acc_reconcileJWTSecret clusterWorld liveAccount operatorKP = ((''OLDJWT'', True, None), liveAccount, [])"
  by (simp add: acc_reconcileJWTSecret_def acc_ensureJWTSecretUpToDate_def
      Let_def Equality_DeepEqual_iff cluster wantedClaims_def)

lemma cluster_account_not_system: "\<not> IsSystemAccount liveAccount theOperator"
  by (simp add: IsSystemAccount_def cluster theOperator_fields)

lemma cluster_account_publish:
  "publish clusterWorld liveAccount (Some theOperator) operatorKP ''OLDJWT'' =
     (None, liveAccount, [RemoteConnect ''nats://nats:4222'', RemotePush ''OLDJWT'', RemoteClose])"
  by (simp add: publish_def cluster_account_not_system ensureJWTPushed_def getNATSOptions_def cluster
      theOperator_fields)

lemma cluster_account_pipeline:
  "acc_pipeline clusterWorld liveAccount =
     (None, liveAccount, [RemoteConnect ''nats://nats:4222'', RemotePush ''OLDJWT'', RemoteClose])"
  by (simp add: acc_pipeline_def cluster_account_seed cluster_account_issuer cluster_account_operator
      cluster_account_signing_keys cluster_account_issuer_seed cluster_account_jwt
      cluster_account_publish cluster)

lemma cluster_Account_Reconcile:
  "Account_Reconcile clusterWorld ''default'' ''a'' =
     (None, Some liveAccount, [RemoteConnect ''nats://nats:4222'', RemotePush ''OLDJWT'', RemoteClose])"
  by (simp add: Account_Reconcile_def acc_reconcile_def cluster_account_pipeline cluster)

lemma seedOnlyWorld_facts:
  "SecretsGet seedOnlyWorld = seedOnlySecrets"
  "seedOnlySecrets ns ''u-seed'' = Inr userSeedSecret"
  "seedOnlySecrets ns ''a-seed'' = Inr accountSeedSecret"
  "seedOnlySecrets ns ''u-jwt'' = Inl (StatusNotFound ''not found'')"
  "seedOnlySecrets ns ''u-creds'' = Inl (StatusNotFound ''not found'')"
  "SchemeNew seedOnlyWorld = SchemeNew clusterWorld" "ClientGet seedOnlyWorld = ClientGet clusterWorld"
  "UsersGet seedOnlyWorld = UsersGet clusterWorld"
  "nkeys_FromSeed seedOnlyWorld = nkeys_FromSeed clusterWorld"
  "nkeys_DecodeSeed seedOnlyWorld = nkeys_DecodeSeed clusterWorld"
  "nsc_CreateUserClaims seedOnlyWorld = nsc_CreateUserClaims clusterWorld"
  "KeyPairSecretBuild seedOnlyWorld = KeyPairSecretBuild clusterWorld"
  "JWTSecretBuild seedOnlyWorld = JWTSecretBuild clusterWorld"
  "UserCredentialSecretBuild seedOnlyWorld = UserCredentialSecretBuild clusterWorld"
  "ClientCreate seedOnlyWorld = (\<lambda>_. None)" "ClientUpdate seedOnlyWorld = (\<lambda>_. None)"
  by (simp_all add: seedOnlyWorld_def seedOnlySecrets_def clusterSecrets_def clusterWorld_def nothing_def)

lemma seedOnly_user_pipeline:
  "usr_pipeline seedOnlyWorld theUser =
     (None, theUser,
      [CreateSecret newUserJWTSecret,
       RecordEvent EventTypeNormal ''JWTSecretCreated'' (''created secret: %s/%s'', [''default'', ''u-jwt'']),
       CreateSecret newUserCredsSecret,
       RecordEvent EventTypeNormal ''CredentialsSecretCreated''
         (''created secret: %s/%s'', [''default'', ''u-creds''])])"
  by (simp add: usr_pipeline_def usr_reconcileSeedSecret_def base_ensureSeedSecretUpToDate_def
      resolveIssuer_def resolveAccount_def usr_reconcileJWTSecret_def base_loadIssuerSeed_def
      usr_createJWTSecret_def reconcileUserCredentialSecret_def createCredentialsSecret_def
      Let_def seedOnlyWorld_facts cluster builtSecret_def newUserJWTSecret_def newUserCredsSecret_def)
     (simp add: theUser_def)

section \<open>Seeds that decode to another public key\<close>

lemma acc_own_seed:
  "SecretsGet w (Namespace acc) (acc_SeedSecretName acc) = Inr got \<Longrightarrow>
   ownSeedKeyPair w got (AccountObj acc) = Some (kp, want) \<Longrightarrow>
   fst (acc_reconcileSeedSecret w acc) = (True, None) \<and>
   fst (snd (acc_reconcileSeedSecret w acc)) = MarkSeedSecretReady (publicKeyOf kp) (sec_Name want) acc"
  unfolding acc_reconcileSeedSecret_def acc_ensureSeedSecretUpToDate_def ownSeedKeyPair_def
    publicKeyOf_def Let_def
  by (auto split: option.splits sum.splits if_splits)

lemma usr_own_seed:
  "SecretsGet w (Namespace usr) (usr_SeedSecretName usr) = Inr got \<Longrightarrow>
   ownSeedKeyPair w got (UserObj usr) = Some (kp, want) \<Longrightarrow>
   fst (fst (usr_reconcileSeedSecret w usr)) = (case kp_Seed kp of Inr sd \<Rightarrow> sd | Inl _ \<Rightarrow> []) \<and>
   snd (fst (usr_reconcileSeedSecret w usr)) = (True, None) \<and>
   fst (snd (usr_reconcileSeedSecret w usr)) =
     MarkSeedSecretReady (publicKeyOf kp) (usr_SeedSecretName usr) usr"
  unfolding usr_reconcileSeedSecret_def base_ensureSeedSecretUpToDate_def ownSeedKeyPair_def
    publicKeyOf_def Let_def
  by (auto split: option.splits sum.splits if_splits)

lemma MarkSeedSecretReady_records:
  "StatusKeyPair (MarkSeedSecretReady pk n x) = Some \<lparr>PublicKey = pk, SeedSecretName = n\<rparr> \<and>
   IsTrue (GetCondition (Conditions (MarkSeedSecretReady pk n x)) SeedSecretReady)"
  by (simp add: MarkSeedSecretReady_def)

lemma issuerKeyMismatchE:
  assumes "issuerKeyMismatch w issuer p"
  obtains keyPair skSeedSecret seed kp pk where
    "obj_KeyPair issuer = Some (Some keyPair)"
    "SecretsGet w (obj_Namespace issuer) (SeedSecretName keyPair) = Inr skSeedSecret"
    "map_of (sec_Data skSeedSecret) NatsSecretSeedKey = Some seed"
    "nkeys_DecodeSeed w seed = Inr p" "nkeys_FromSeed w seed = Inr kp"
    "kp_PublicKey kp = Inr pk" "pk \<noteq> PublicKey keyPair"
proof -
  from assms obtain keyPair where a: "obj_KeyPair issuer = Some (Some keyPair)"
    by (auto simp: issuerKeyMismatch_def split: option.splits)
  from assms a obtain skSeedSecret where
    b: "SecretsGet w (obj_Namespace issuer) (SeedSecretName keyPair) = Inr skSeedSecret"
    by (auto simp: issuerKeyMismatch_def split: sum.splits)
  from assms a b obtain seed where
    c: "map_of (sec_Data skSeedSecret) NatsSecretSeedKey = Some seed"
    by (auto simp: issuerKeyMismatch_def split: option.splits)
  from assms a b c have d: "nkeys_DecodeSeed w seed = Inr p"
    by (auto simp: issuerKeyMismatch_def split: sum.splits)
  from assms a b c d obtain kp where e: "nkeys_FromSeed w seed = Inr kp"
    by (auto simp: issuerKeyMismatch_def split: sum.splits)
  from assms a b c d e obtain pk where f: "kp_PublicKey kp = Inr pk"
    by (auto simp: issuerKeyMismatch_def split: sum.splits)
  from assms a b c d e f have "pk \<noteq> PublicKey keyPair"
    by (simp add: issuerKeyMismatch_def)
  with a b c d e f show thesis by (rule that)
qed

lemma base_loadIssuerSeed_mismatch:
  assumes "issuerKeyMismatch w issuer p"
  shows "\<exists>m. base_loadIssuerSeed w issuer p = (None, False, Some (ConditionFailed ReasonPublicKeyMismatch m))"
proof -
  from assms obtain keyPair skSeedSecret seed kp pk where
    "obj_KeyPair issuer = Some (Some keyPair)"
    "SecretsGet w (obj_Namespace issuer) (SeedSecretName keyPair) = Inr skSeedSecret"
    "map_of (sec_Data skSeedSecret) NatsSecretSeedKey = Some seed"
    "nkeys_DecodeSeed w seed = Inr p" "nkeys_FromSeed w seed = Inr kp"
    "kp_PublicKey kp = Inr pk" "pk \<noteq> PublicKey keyPair"
    by (rule issuerKeyMismatchE)
  then show ?thesis by (fastforce simp: base_loadIssuerSeed_def)
qed

lemma acc_loadIssuerSeed_mismatch:
  assumes "issuerKeyMismatch w issuer PrefixByteOperator"
  shows "\<exists>m. acc_loadIssuerSeed w acc issuer =
     ((None, False, None), MarkIssuerResolveFailed ReasonPublicKeyMismatch m acc)"
proof -
  from assms obtain keyPair skSeedSecret seed kp pk where
    "obj_KeyPair issuer = Some (Some keyPair)"
    "SecretsGet w (obj_Namespace issuer) (SeedSecretName keyPair) = Inr skSeedSecret"
    "map_of (sec_Data skSeedSecret) NatsSecretSeedKey = Some seed"
    "nkeys_DecodeSeed w seed = Inr PrefixByteOperator" "nkeys_FromSeed w seed = Inr kp"
    "kp_PublicKey kp = Inr pk" "pk \<noteq> PublicKey keyPair"
    by (rule issuerKeyMismatchE)
  then show ?thesis by (fastforce simp: acc_loadIssuerSeed_def)
qed

lemma usr_reconcileJWTSecret_mismatch:
  "issuerKeyMismatch w issuer PrefixByteAccount \<Longrightarrow>
   \<exists>m. snd (usr_reconcileJWTSecret w usr issuer) =
     (MarkIssuerResolveFailed ReasonPublicKeyMismatch m usr, [])"
  using base_loadIssuerSeed_mismatch [of w issuer PrefixByteAccount]
  by (fastforce simp: usr_reconcileJWTSecret_def markFromError_def ConditionFailed_def)

lemma acc_pipeline_mismatch:
  assumes "acc_reconcileSeedSecret w acc = ((True, None), acc1, e1)"
    and "resolveIssuer w (acc_Issuer acc1) (Namespace acc1) = (Some issuer, True, None)"
    and "resolveOperator w acc1 issuer = ((op, True, None), acc2)"
    and "ensureSigningKeysUpdated w acc2 = (None, acc3, e3)"
    and "issuerKeyMismatch w issuer PrefixByteOperator"
  shows "\<exists>m. acc_pipeline w acc = (None, MarkIssuerResolveFailed ReasonPublicKeyMismatch m acc3, e1 @ e3)"
  using assms acc_loadIssuerSeed_mismatch [of w issuer acc3]
  by (fastforce simp: acc_pipeline_def)

lemma MarkIssuerResolveFailed_records:
  "GetCondition (Conditions (MarkIssuerResolveFailed r m x)) IssuerResolved =
     Some \<lparr>Status = ConditionStatusFalse, Reason = Some r, Message = m\<rparr>"
  by (simp add: MarkIssuerResolveFailed_def MarkFalse_def GetCondition_SetCondition)

lemma drift_account_seed: "acc_reconcileSeedSecret driftWorld liveAccount =
   ((True, None), liveAccount\<lparr>StatusKeyPair := Some \<lparr>PublicKey = ''BPUB'', SeedSecretName = ''a-seed''\<rparr>\<rparr>, [])"
  by (simp add: acc_reconcileSeedSecret_def acc_ensureSeedSecretUpToDate_def Let_def driftWorld_def
      driftedKP_def cluster cluster_secret_names)
     (simp add: liveAccount_def deletedAccount_def mark_defs MarkTrue_def SetCondition_def trueCondition_def)

lemma issuerDrift_mismatch: "issuerKeyMismatch issuerDriftWorld (OperatorObj theOperator) PrefixByteOperator"
  by (simp add: issuerKeyMismatch_def issuerDriftWorld_def driftedOperatorKP_def cluster theOperator_fields)


lemma driftWorld_facts:
  "SecretsGet driftWorld = SecretsGet clusterWorld"
  "SchemeNew driftWorld = SchemeNew clusterWorld" "ClientGet driftWorld = ClientGet clusterWorld"
  "AccountsGet driftWorld = AccountsGet clusterWorld" "UsersGet driftWorld = UsersGet clusterWorld"
  "SigningKeysList driftWorld = SigningKeysList clusterWorld"
  "ClientCreate driftWorld = ClientCreate clusterWorld" "ClientUpdate driftWorld = ClientUpdate clusterWorld"
  "StatusUpdateAccount driftWorld = (\<lambda>_. None)"
  "nkeys_DecodeSeed driftWorld = nkeys_DecodeSeed clusterWorld"
  "jwt_Decode driftWorld = jwt_Decode clusterWorld"
  "nsc_CreateAccountClaims driftWorld = nsc_CreateAccountClaims clusterWorld"
  "nsc_CreateUserClaims driftWorld = nsc_CreateUserClaims clusterWorld"
  "SysAccountLoader_Load driftWorld = SysAccountLoader_Load clusterWorld"
  "nsc_Connect driftWorld = nsc_Connect clusterWorld" "nsc_Push driftWorld = nsc_Push clusterWorld"
  "KeyPairSecretBuild driftWorld = KeyPairSecretBuild clusterWorld"
  "JWTSecretBuild driftWorld = JWTSecretBuild clusterWorld"
  "nkeys_FromSeed driftWorld ''SASEED'' = Inr driftedKP"
  "nkeys_FromSeed driftWorld ''SOSEED'' = Inr operatorKP"
  "kp_PublicKey driftedKP = Inr ''BPUB''"
  by (simp_all add: driftWorld_def driftedKP_def clusterWorld_def nothing_def)

lemma issuerDriftWorld_facts:
  "SecretsGet issuerDriftWorld = SecretsGet clusterWorld"
  "SchemeNew issuerDriftWorld = SchemeNew clusterWorld" "ClientGet issuerDriftWorld = ClientGet clusterWorld"
  "AccountsGet issuerDriftWorld = AccountsGet clusterWorld" "UsersGet issuerDriftWorld = UsersGet clusterWorld"
  "SigningKeysList issuerDriftWorld = SigningKeysList clusterWorld"
  "ClientCreate issuerDriftWorld = ClientCreate clusterWorld" "ClientUpdate issuerDriftWorld = ClientUpdate clusterWorld"
  "StatusUpdateAccount issuerDriftWorld = (\<lambda>_. None)"
  "nkeys_DecodeSeed issuerDriftWorld = nkeys_DecodeSeed clusterWorld"
  "KeyPairSecretBuild issuerDriftWorld = KeyPairSecretBuild clusterWorld"
  "nkeys_FromSeed issuerDriftWorld ''SASEED'' = Inr accountKP"
  "nkeys_FromSeed issuerDriftWorld ''SOSEED'' = Inr driftedOperatorKP"
  "kp_PublicKey driftedOperatorKP = Inr ''XPUB''"
  by (simp_all add: issuerDriftWorld_def driftedOperatorKP_def clusterWorld_def nothing_def)

lemma driftedAccount_fields:
  "Name driftedAccount = ''a''" "Namespace driftedAccount = ''default''"
  "acc_Issuer driftedAccount = acc_Issuer liveAccount"
  "acc_JWTSecretName driftedAccount = acc_JWTSecretName liveAccount"
  "acc_SigningKeysSelector driftedAccount = acc_SigningKeysSelector liveAccount"
  "UID driftedAccount = UID liveAccount"
  "SigningKeys driftedAccount = SigningKeys liveAccount"
  "OperatorRef driftedAccount = OperatorRef liveAccount"
  "Conditions driftedAccount = Conditions liveAccount"
  "StatusKeyPair driftedAccount = Some \<lparr>PublicKey = ''BPUB'', SeedSecretName = ''a-seed''\<rparr>"
  by (simp_all add: driftedAccount_def cluster)

lemma drift_pipeline:
  "acc_pipeline driftWorld liveAccount =
     (None, driftedAccount, [RemoteConnect ''nats://nats:4222'', RemotePush ''OLDJWT'', RemoteClose])"
proof -
  have m: "MarkIssuerResolved driftedAccount = driftedAccount"
    "MarkOperatorResolved \<lparr>ref_Namespace = ''default'', ref_Name = ''op''\<rparr> driftedAccount = driftedAccount"
    "MarkSigningKeysUpdated [] driftedAccount = driftedAccount"
    "MarkJWTSecretReady driftedAccount = driftedAccount"
    "MarkJWTPushed driftedAccount = driftedAccount"
    by (simp_all add: driftedAccount_def liveAccount_def deletedAccount_def trueCondition_def mark_defs
        MarkTrue_def SetCondition_def)
  have s1: "acc_reconcileSeedSecret driftWorld liveAccount = ((True, None), driftedAccount, [])"
    unfolding driftedAccount_def by (rule drift_account_seed)
  have s2: "resolveIssuer driftWorld operatorIssuer ''default'' = (Some (OperatorObj theOperator), True, None)"
    by (simp add: resolveIssuer_def Let_def driftWorld_facts cluster theOperator_fields)
  have s3: "resolveOperator driftWorld driftedAccount (OperatorObj theOperator) =
     ((Some theOperator, True, None), driftedAccount)"
    by (simp add: resolveOperator_def Let_def driftWorld_facts cluster theOperator_fields m)
  have s4: "ensureSigningKeysUpdated driftWorld driftedAccount = (None, driftedAccount, [])"
    by (simp add: ensureSigningKeysUpdated_def Let_def driftWorld_facts driftedAccount_fields cluster
        labels_Everything_def NextSigningKeys_def desiredSigningKeys_def m)
  have s5: "acc_loadIssuerSeed driftWorld driftedAccount (OperatorObj theOperator) =
     ((Some operatorKP, True, None), driftedAccount)"
    by (simp add: acc_loadIssuerSeed_def driftWorld_facts cluster theOperator_fields m)
  have s6: "acc_reconcileJWTSecret driftWorld driftedAccount operatorKP =
     ((''OLDJWT'', True, None), driftedAccount, [])"
    by (simp add: acc_reconcileJWTSecret_def acc_ensureJWTSecretUpToDate_def driftedAccount_fields
      Let_def Equality_DeepEqual_iff driftWorld_facts cluster wantedClaims_def m)
  have ns: "\<not> IsSystemAccount driftedAccount theOperator"
    by (simp add: IsSystemAccount_def driftedAccount_fields cluster theOperator_fields)
  have s7: "publish driftWorld driftedAccount (Some theOperator) operatorKP ''OLDJWT'' =
     (None, driftedAccount, [RemoteConnect ''nats://nats:4222'', RemotePush ''OLDJWT'', RemoteClose])"
    by (simp add: publish_def ns ensureJWTPushed_def getNATSOptions_def driftWorld_facts cluster
      theOperator_fields m)
  show ?thesis
    by (simp add: acc_pipeline_def s1 s2 s3 s4 s5 s6 s7 driftedAccount_fields cluster)
qed

lemma drift_Account_Reconcile:
  "Account_Reconcile driftWorld ''default'' ''a'' =
     (None, Some driftedAccount,
      [RemoteConnect ''nats://nats:4222'', RemotePush ''OLDJWT'', RemoteClose,
       UpdateStatus (AccountObj driftedAccount)])"
  by (simp add: Account_Reconcile_def acc_reconcile_def drift_pipeline driftWorld_facts cluster
      acc_Status_def driftedAccount_fields)

lemma issuerDrift_pipeline:
  "acc_pipeline issuerDriftWorld liveAccount =
     (None, MarkIssuerResolveFailed ReasonPublicKeyMismatch
        (''public key mismatch, wanted %q but got %q'', [''OPUB'', ''XPUB'']) liveAccount, [])"
proof -
  have s1: "acc_reconcileSeedSecret issuerDriftWorld liveAccount = ((True, None), liveAccount, [])"
    by (simp add: acc_reconcileSeedSecret_def acc_ensureSeedSecretUpToDate_def Let_def
        issuerDriftWorld_facts cluster cluster_secret_names)
  have s2: "resolveIssuer issuerDriftWorld operatorIssuer ''default'' = (Some (OperatorObj theOperator), True, None)"
    by (simp add: resolveIssuer_def Let_def issuerDriftWorld_facts cluster theOperator_fields)
  have s3: "resolveOperator issuerDriftWorld liveAccount (OperatorObj theOperator) =
     ((Some theOperator, True, None), liveAccount)"
    by (simp add: resolveOperator_def Let_def issuerDriftWorld_facts cluster theOperator_fields)
  have s4: "ensureSigningKeysUpdated issuerDriftWorld liveAccount = (None, liveAccount, [])"
    by (simp add: ensureSigningKeysUpdated_def Let_def issuerDriftWorld_facts cluster
        labels_Everything_def NextSigningKeys_def desiredSigningKeys_def)
  have s5: "acc_loadIssuerSeed issuerDriftWorld liveAccount (OperatorObj theOperator) =
     ((None, False, None), MarkIssuerResolveFailed ReasonPublicKeyMismatch
        (''public key mismatch, wanted %q but got %q'', [''OPUB'', ''XPUB'']) liveAccount)"
    by (simp add: acc_loadIssuerSeed_def issuerDriftWorld_facts cluster theOperator_fields)
  show ?thesis
    by (simp add: acc_pipeline_def s1 s2 s3 s4 s5 cluster)
qed

lemma drift_user_issuer_mismatch:
  "issuerKeyMismatch driftWorld (AccountObj liveAccount) PrefixByteAccount"
  by (simp add: issuerKeyMismatch_def driftWorld_facts cluster)

lemma drift_own_seed:
  "ownSeedKeyPair driftWorld accountSeedSecret (AccountObj liveAccount) = Some (driftedKP, accountSeedSecret)"
  "ownSeedKeyPair driftWorld userSeedSecret (UserObj theUser) = Some (userKP, userSeedSecret)"
  "nkeys_FromSeed driftWorld ''SUSEED'' = Inr userKP"
  "publicKeyOf driftedKP = ''BPUB''" "publicKeyOf userKP = ''UPUB''"
  by (simp_all add: ownSeedKeyPair_def driftWorld_facts cluster publicKeyOf_def driftWorld_def)

section \<open>Signing-key membership\<close>

lemma set_NextSigningKeys:
  "set (NextSigningKeys uid prev skList) = set (desiredSigningKeys uid skList)"
  by (auto simp: NextSigningKeys_def Let_def)

lemma NextSigningKeys_unchanged_iff:
  "NextSigningKeys uid prev skList = prev \<longleftrightarrow> set (desiredSigningKeys uid skList) = set prev"
proof
  assume e: "NextSigningKeys uid prev skList = prev"
  have "set (NextSigningKeys uid prev skList) = set (desiredSigningKeys uid skList)"
    by (rule set_NextSigningKeys)
  with e show "set (desiredSigningKeys uid skList) = set prev" by simp
next
  assume s: "set (desiredSigningKeys uid skList) = set prev"
  then show "NextSigningKeys uid prev skList = prev"
    by (simp add: NextSigningKeys_def Let_def)
qed

lemma set_desiredSigningKeys:
  "set (desiredSigningKeys uid skList) =
     {embedded sk | sk. sk \<in> set skList \<and> isReady SigningKeyConditionSet (Conditions sk) \<and> ownedBy uid sk}"
  by (auto simp: desiredSigningKeys_def)

lemma ensureSigningKeysUpdated_listed:
  assumes "listedSigningKeys w acc = Some skList"
  shows "ensureSigningKeysUpdated w acc =
     (None, MarkSigningKeysUpdated (NextSigningKeys (UID acc) (SigningKeys acc) skList) acc,
      if SigningKeys acc \<noteq> NextSigningKeys (UID acc) (SigningKeys acc) skList
      then [signingKeysChanged] else [])"
  using assms
  by (auto simp: listedSigningKeys_def ensureSigningKeysUpdated_def Let_def signingKeysChanged_def
      split: sum.splits option.splits)

lemma signingKey_facts:
  "isReady SigningKeyConditionSet (Conditions (signingKey n pk r uid)) = r"
  "ownedBy u (signingKey n pk r uid) = (uid = u)"
  "embedded (signingKey n pk r uid) =
     \<lparr>sk_Name = n, sk_KeyPair = \<lparr>PublicKey = pk, SeedSecretName = n @ ''-seed''\<rparr>\<rparr>"
  "ownerIsAccount (signingKey n pk r uid) acc = (Namespace acc = ''default'' \<and> Name acc = ''a'')"
  by (auto simp: signingKey_def isReady_def SigningKeyConditionSet_def GetCondition_def
      trueCondition_def ownedBy_def ownerA_def embedded_def ownerIsAccount_def)

lemma staleWorld_listing: "listedSigningKeys staleWorld liveAccount = Some [staleKey]"
  by (simp add: listedSigningKeys_def staleWorld_def cluster labels_Everything_def)

lemma stale_membership:
  "ensureSigningKeysUpdated staleWorld liveAccount = (None, liveAccount, [])"
  by (simp add: ensureSigningKeysUpdated_listed [OF staleWorld_listing] NextSigningKeys_def
      desiredSigningKeys_def staleKey_def signingKey_facts cluster)

lemma shrunkWorld_listing: "listedSigningKeys shrunkWorld recordedAccount = Some [keyA, keyC]"
  by (simp add: listedSigningKeys_def shrunkWorld_def recordedAccount_def cluster labels_Everything_def)

lemma recordedAccount_fields:
  "UID recordedAccount = ''uid-a''" "SigningKeys recordedAccount = [embedded keyA, embedded keyB]"
  by (simp_all add: recordedAccount_def cluster)

lemma shrunk_next:
  "NextSigningKeys ''uid-a'' [embedded keyA, embedded keyB] [keyA, keyC] = [embedded keyA]"
  by (simp add: NextSigningKeys_def desiredSigningKeys_def keyA_def keyB_def keyC_def signingKey_facts)

lemma shrunk_membership:
  "ensureSigningKeysUpdated shrunkWorld recordedAccount =
     (None, MarkSigningKeysUpdated [embedded keyA] recordedAccount, [signingKeysChanged])"
  by (simp add: ensureSigningKeysUpdated_listed [OF shrunkWorld_listing] recordedAccount_fields
      shrunk_next)

section \<open>Converged resources\<close>

lemma conditionsSet_mark:
  "conditionsSet ts cs \<Longrightarrow> t \<in> set ts \<Longrightarrow> MarkTrue t cs = cs"
  by (auto simp: conditionsSet_def list_all_iff MarkTrue_def SetCondition_def trueCondition_def
      intro: AList.update_triv)

lemma conditionsSet_initialized:
  "conditionsSet ts cs \<Longrightarrow> set ts' \<subseteq> set ts \<Longrightarrow> InitializeConditions ts' cs = cs"
  by (induction ts' arbitrary: cs) (auto simp: conditionsSet_def list_all_iff)

lemma desiredSeedSecretE:
  assumes "desiredSeedSecret w owner name = Some kp"
  obtains got seed where "SecretsGet w (obj_Namespace owner) name = Inr got"
    "map_of (sec_Data got) NatsSecretSeedKey = Some seed" "nkeys_FromSeed w seed = Inr kp"
    "KeyPairSecretBuild w (Some got) owner kp = Inr got" "sec_Name got = name"
proof -
  from assms obtain got where a: "SecretsGet w (obj_Namespace owner) name = Inr got"
    by (auto simp: desiredSeedSecret_def split: sum.splits)
  from assms a obtain seed where b: "map_of (sec_Data got) NatsSecretSeedKey = Some seed"
    by (auto simp: desiredSeedSecret_def split: option.splits)
  from assms a b obtain kp' where c: "nkeys_FromSeed w seed = Inr kp'"
    by (auto simp: desiredSeedSecret_def split: sum.splits)
  from assms a b c have d: "KeyPairSecretBuild w (Some got) owner kp' = Inr got \<and> sec_Name got = name \<and> kp' = kp"
    by (auto simp: desiredSeedSecret_def split: if_splits)
  with a b c show thesis by (auto intro: that)
qed

lemma currentTokenE:
  assumes "currentToken w ns name wantClaims = Some jwt"
  obtains got gotClaims where "SecretsGet w ns name = Inr got"
    "map_of (sec_Data got) NatsSecretJWTKey = Some jwt" "jwt_Decode w jwt = Inr gotClaims"
    "Equality_DeepEqual gotClaims wantClaims"
proof -
  from assms obtain got where a: "SecretsGet w ns name = Inr got"
    by (auto simp: currentToken_def split: sum.splits)
  from assms a obtain j where b: "map_of (sec_Data got) NatsSecretJWTKey = Some j"
    by (auto simp: currentToken_def split: option.splits)
  from assms a b have c: "j = jwt" "\<not> tokenStale w jwt wantClaims"
    by (auto simp: currentToken_def split: if_splits)
  then obtain gotClaims where "jwt_Decode w jwt = Inr gotClaims" "Equality_DeepEqual gotClaims wantClaims"
    by (auto simp: tokenStale_def split: sum.splits)
  with a b c show thesis by (auto intro: that)
qed


lemma usr_convergedE:
  assumes "usr_converged w usr"
  obtains kp issuer account issuerKP wantClaims nextJWT ujwt where
    "conditionsSet UserConditionSet (Conditions usr)"
    "desiredSeedSecret w (UserObj usr) (usr_SeedSecretName usr) = Some kp"
    "StatusKeyPair usr = Some \<lparr>PublicKey = publicKeyOf kp, SeedSecretName = usr_SeedSecretName usr\<rparr>"
    "resolveIssuer w (usr_Issuer usr) (Namespace usr) = (Some issuer, True, None)"
    "fst (resolveAccount w usr issuer) = (Some account, True, None)"
    "AccountRef usr = Some \<lparr>ref_Namespace = Namespace account, ref_Name = Name account\<rparr>"
    "base_loadIssuerSeed w issuer PrefixByteAccount = (Some issuerKP, True, None)"
    "nsc_CreateUserClaims w usr issuerKP = Inr (wantClaims, nextJWT)"
    "currentToken w (Namespace usr) (usr_JWTSecretName usr) wantClaims = Some ujwt"
    "credentialsCurrent w usr ujwt (seedOf kp)"
proof -
  from assms have c: "conditionsSet UserConditionSet (Conditions usr)"
    by (simp add: usr_converged_def)
  from assms obtain kp where a: "desiredSeedSecret w (UserObj usr) (usr_SeedSecretName usr) = Some kp"
    by (auto simp: usr_converged_def split: option.splits)
  from assms a have k: "StatusKeyPair usr = Some \<lparr>PublicKey = publicKeyOf kp, SeedSecretName = usr_SeedSecretName usr\<rparr>"
    by (simp add: usr_converged_def)
  from assms a obtain issuer where i: "resolveIssuer w (usr_Issuer usr) (Namespace usr) = (Some issuer, True, None)"
    by (cases "resolveIssuer w (usr_Issuer usr) (Namespace usr)")
       (auto simp: usr_converged_def split: option.splits bool.splits)
  from assms a i obtain account where r: "fst (resolveAccount w usr issuer) = (Some account, True, None)"
    by (cases "fst (resolveAccount w usr issuer)")
       (auto simp: usr_converged_def split: option.splits bool.splits)
  from assms a i r have ar: "AccountRef usr = Some \<lparr>ref_Namespace = Namespace account, ref_Name = Name account\<rparr>"
    by (simp add: usr_converged_def)
  from assms a i r obtain issuerKP where l: "base_loadIssuerSeed w issuer PrefixByteAccount = (Some issuerKP, True, None)"
    by (cases "base_loadIssuerSeed w issuer PrefixByteAccount")
       (auto simp: usr_converged_def split: option.splits bool.splits)
  from assms a i r l obtain wantClaims nextJWT where n: "nsc_CreateUserClaims w usr issuerKP = Inr (wantClaims, nextJWT)"
    by (cases "nsc_CreateUserClaims w usr issuerKP") (auto simp: usr_converged_def)
  from assms a i r l n obtain ujwt where t: "currentToken w (Namespace usr) (usr_JWTSecretName usr) wantClaims = Some ujwt"
    by (auto simp: usr_converged_def split: option.splits)
  from assms a i r l n t have cr: "credentialsCurrent w usr ujwt (seedOf kp)"
    by (simp add: usr_converged_def)
  from c a k i r ar l n t cr show thesis by (rule that)
qed

lemma resolveAccount_resolved:
  "fst (resolveAccount w usr issuer) = (Some account, True, None) \<Longrightarrow>
   resolveAccount w usr issuer =
     ((Some account, True, None),
      MarkAccountResolved \<lparr>ref_Namespace = Namespace account, ref_Name = Name account\<rparr> usr)"
  unfolding resolveAccount_def Let_def
  by (auto split: object.splits prod.splits if_splits option.splits)

lemma usr_converged_marks:
  assumes "conditionsSet UserConditionSet (Conditions usr)"
  shows "StatusKeyPair usr = Some \<lparr>PublicKey = pk, SeedSecretName = n\<rparr> \<Longrightarrow> MarkSeedSecretReady pk n usr = usr"
    "MarkIssuerResolved usr = usr" "MarkJWTSecretReady usr = usr" "MarkCredentialsSecretReady usr = usr"
    "AccountRef usr = Some ref \<Longrightarrow> MarkAccountResolved ref usr = usr"
    "usr\<lparr>Conditions := InitializeConditions UserConditionSet (Conditions usr)\<rparr> = usr"
  using conditionsSet_mark [OF assms] conditionsSet_initialized [OF assms, of UserConditionSet]
  by (simp_all add: mark_defs UserConditionSet_def)

lemma usr_converged_pipeline:
  assumes "usr_converged w usr"
  shows "usr_pipeline w usr = (None, usr, [])"
proof -
  from assms obtain kp issuer account issuerKP wantClaims nextJWT ujwt where
    c: "conditionsSet UserConditionSet (Conditions usr)"
    and a: "desiredSeedSecret w (UserObj usr) (usr_SeedSecretName usr) = Some kp"
    and k: "StatusKeyPair usr = Some \<lparr>PublicKey = publicKeyOf kp, SeedSecretName = usr_SeedSecretName usr\<rparr>"
    and i: "resolveIssuer w (usr_Issuer usr) (Namespace usr) = (Some issuer, True, None)"
    and r: "fst (resolveAccount w usr issuer) = (Some account, True, None)"
    and ar: "AccountRef usr = Some \<lparr>ref_Namespace = Namespace account, ref_Name = Name account\<rparr>"
    and l: "base_loadIssuerSeed w issuer PrefixByteAccount = (Some issuerKP, True, None)"
    and n: "nsc_CreateUserClaims w usr issuerKP = Inr (wantClaims, nextJWT)"
    and t: "currentToken w (Namespace usr) (usr_JWTSecretName usr) wantClaims = Some ujwt"
    and cr: "credentialsCurrent w usr ujwt (seedOf kp)"
    by (rule usr_convergedE)
  note m = usr_converged_marks [OF c]
  from a obtain got seed where g: "SecretsGet w (Namespace usr) (usr_SeedSecretName usr) = Inr got"
    "map_of (sec_Data got) NatsSecretSeedKey = Some seed" "nkeys_FromSeed w seed = Inr kp"
    "KeyPairSecretBuild w (Some got) (UserObj usr) kp = Inr got"
    by (rule desiredSeedSecretE) simp
  have s1: "usr_reconcileSeedSecret w usr = ((seedOf kp, True, None), usr, [])"
    using g m(1) [OF k]
    by (simp add: usr_reconcileSeedSecret_def base_ensureSeedSecretUpToDate_def Let_def seedOf_def
        publicKeyOf_def)
  have s2: "resolveAccount w usr issuer = ((Some account, True, None), usr)"
    using resolveAccount_resolved [OF r] m(5) [OF ar] by simp
  from t obtain jgot gotClaims where j: "SecretsGet w (Namespace usr) (usr_JWTSecretName usr) = Inr jgot"
    "map_of (sec_Data jgot) NatsSecretJWTKey = Some ujwt" "jwt_Decode w ujwt = Inr gotClaims"
    "Equality_DeepEqual gotClaims wantClaims"
    by (rule currentTokenE)
  have s3: "usr_reconcileJWTSecret w usr issuer = ((ujwt, True, None), usr, [])"
    using l n j m(2,3)
    by (simp add: usr_reconcileJWTSecret_def usr_ensureJWTSecretUpToDate_def Let_def)
  from cr obtain cgot where cg: "SecretsGet w (Namespace usr) (usr_CredentialsSecretName usr) = Inr cgot"
    "UserCredentialSecretBuild w (Some cgot) (UserObj usr) ujwt (seedOf kp) = Inr cgot"
    by (auto simp: credentialsCurrent_def split: sum.splits)
  have s4: "reconcileUserCredentialSecret w usr ujwt (seedOf kp) = (None, usr, [])"
    using cg m(4)
    by (simp add: reconcileUserCredentialSecret_def ensureCredentialsSecretUpToDate_def)
  show ?thesis
    by (simp add: usr_pipeline_def s1 i s2 s3 s4)
qed

lemma usr_converged_Reconcile:
  assumes "UsersGet w ns name = Inr usr" "usr_converged w usr"
  shows "User_Reconcile w ns name = (None, Some usr, [])"
proof -
  from assms(2) have c: "conditionsSet UserConditionSet (Conditions usr)"
    by (simp add: usr_converged_def)
  show ?thesis
    using assms(1) usr_converged_marks(6) [OF c] usr_converged_pipeline [OF assms(2)]
    by (simp add: User_Reconcile_def)
qed


lemma acc_convergedE:
  assumes "acc_converged w acc = Some (operator, issuerKP, ajwt)"
  obtains kp issuer skList wantClaims nextJWT where
    "conditionsSet AccountConditionSet (Conditions acc)"
    "DeletionTimestamp acc = None" "AccountFinalizer \<in> set (Finalizers acc)"
    "desiredSeedSecret w (AccountObj acc) (acc_SeedSecretName acc) = Some kp"
    "StatusKeyPair acc = Some \<lparr>PublicKey = publicKeyOf kp, SeedSecretName = acc_SeedSecretName acc\<rparr>"
    "resolveIssuer w (acc_Issuer acc) (Namespace acc) = (Some issuer, True, None)"
    "fst (resolveOperator w acc issuer) = (Some operator, True, None)"
    "OperatorRef acc = Some \<lparr>ref_Namespace = Namespace operator, ref_Name = Name operator\<rparr>"
    "listedSigningKeys w acc = Some skList"
    "set (desiredSigningKeys (UID acc) skList) = set (SigningKeys acc)"
    "fst (acc_loadIssuerSeed w acc issuer) = (Some issuerKP, True, None)"
    "nsc_CreateAccountClaims w acc issuerKP = Inr (wantClaims, nextJWT)"
    "currentToken w (Namespace acc) (acc_JWTSecretName acc) wantClaims = Some ajwt"
proof -
  from assms have c: "conditionsSet AccountConditionSet (Conditions acc)"
    "DeletionTimestamp acc = None" "AccountFinalizer \<in> set (Finalizers acc)"
    by (auto simp: acc_converged_def split: if_splits)
  from assms c obtain kp where a: "desiredSeedSecret w (AccountObj acc) (acc_SeedSecretName acc) = Some kp"
    by (auto simp: acc_converged_def split: option.splits)
  from assms c a have k: "StatusKeyPair acc = Some \<lparr>PublicKey = publicKeyOf kp, SeedSecretName = acc_SeedSecretName acc\<rparr>"
    by (auto simp: acc_converged_def split: if_splits)
  from assms c a k obtain issuer where i: "resolveIssuer w (acc_Issuer acc) (Namespace acc) = (Some issuer, True, None)"
    by (cases "resolveIssuer w (acc_Issuer acc) (Namespace acc)")
       (auto simp: acc_converged_def split: option.splits bool.splits)
  from assms c a k i obtain op' where r': "fst (resolveOperator w acc issuer) = (Some op', True, None)"
    by (cases "fst (resolveOperator w acc issuer)")
       (auto simp: acc_converged_def split: option.splits bool.splits)
  from assms c a k i r' have orr': "OperatorRef acc = Some \<lparr>ref_Namespace = Namespace op', ref_Name = Name op'\<rparr>"
    by (auto simp: acc_converged_def split: if_splits)
  from assms c a k i r' orr' obtain skList where sl: "listedSigningKeys w acc = Some skList"
    by (auto simp: acc_converged_def split: option.splits)
  from assms c a k i r' orr' sl have ss: "set (desiredSigningKeys (UID acc) skList) = set (SigningKeys acc)"
    by (auto simp: acc_converged_def split: if_splits)
  from assms c a k i r' orr' sl ss obtain ikp where l': "fst (acc_loadIssuerSeed w acc issuer) = (Some ikp, True, None)"
    by (cases "fst (acc_loadIssuerSeed w acc issuer)")
       (auto simp: acc_converged_def split: option.splits bool.splits)
  from assms c a k i r' orr' sl ss l' obtain wantClaims nextJWT where
    n': "nsc_CreateAccountClaims w acc ikp = Inr (wantClaims, nextJWT)"
    by (cases "nsc_CreateAccountClaims w acc ikp") (auto simp: acc_converged_def)
  from assms c a k i r' orr' sl ss l' n' obtain j where
    t': "currentToken w (Namespace acc) (acc_JWTSecretName acc) wantClaims = Some j"
    by (auto simp: acc_converged_def split: option.splits)
  from assms c a k i r' orr' sl ss l' n' t' have e: "op' = operator" "ikp = issuerKP" "j = ajwt"
    by (simp_all add: acc_converged_def)
  from c a k i r' orr' sl ss l' n' t' show thesis unfolding e by (rule that)
qed

lemma resolveOperator_resolved:
  "fst (resolveOperator w acc issuer) = (Some operator, True, None) \<Longrightarrow>
   resolveOperator w acc issuer =
     ((Some operator, True, None),
      MarkOperatorResolved \<lparr>ref_Namespace = Namespace operator, ref_Name = Name operator\<rparr> acc)"
  unfolding resolveOperator_def Let_def
  by (auto split: object.splits prod.splits if_splits option.splits)

lemma acc_loadIssuerSeed_loaded:
  "fst (acc_loadIssuerSeed w acc issuer) = (Some issuerKP, True, None) \<Longrightarrow>
   acc_loadIssuerSeed w acc issuer = ((Some issuerKP, True, None), MarkIssuerResolved acc)"
  unfolding acc_loadIssuerSeed_def
  by (auto split: option.splits sum.splits if_splits)

lemma acc_converged_marks:
  assumes "conditionsSet AccountConditionSet (Conditions acc)"
  shows "StatusKeyPair acc = Some \<lparr>PublicKey = pk, SeedSecretName = n\<rparr> \<Longrightarrow> MarkSeedSecretReady pk n acc = acc"
    "MarkIssuerResolved acc = acc" "MarkJWTSecretReady acc = acc" "MarkJWTPushed acc = acc"
    "OperatorRef acc = Some ref \<Longrightarrow> MarkOperatorResolved ref acc = acc"
    "MarkSigningKeysUpdated (SigningKeys acc) acc = acc"
    "acc\<lparr>Conditions := InitializeConditions AccountConditionSet (Conditions acc)\<rparr> = acc"
  using conditionsSet_mark [OF assms] conditionsSet_initialized [OF assms, of AccountConditionSet]
  by (simp_all add: mark_defs AccountConditionSet_def)

lemma acc_converged_stages:
  assumes "acc_converged w acc = Some (operator, issuerKP, ajwt)"
  shows "acc_pipeline w acc = publish w acc (Some operator) issuerKP ajwt"
proof -
  from assms obtain kp issuer skList wantClaims nextJWT where
    c: "conditionsSet AccountConditionSet (Conditions acc)"
    and a: "desiredSeedSecret w (AccountObj acc) (acc_SeedSecretName acc) = Some kp"
    and k: "StatusKeyPair acc = Some \<lparr>PublicKey = publicKeyOf kp, SeedSecretName = acc_SeedSecretName acc\<rparr>"
    and i: "resolveIssuer w (acc_Issuer acc) (Namespace acc) = (Some issuer, True, None)"
    and r: "fst (resolveOperator w acc issuer) = (Some operator, True, None)"
    and orr: "OperatorRef acc = Some \<lparr>ref_Namespace = Namespace operator, ref_Name = Name operator\<rparr>"
    and sl: "listedSigningKeys w acc = Some skList"
    and ss: "set (desiredSigningKeys (UID acc) skList) = set (SigningKeys acc)"
    and l: "fst (acc_loadIssuerSeed w acc issuer) = (Some issuerKP, True, None)"
    and n: "nsc_CreateAccountClaims w acc issuerKP = Inr (wantClaims, nextJWT)"
    and t: "currentToken w (Namespace acc) (acc_JWTSecretName acc) wantClaims = Some ajwt"
    by (rule acc_convergedE)
  note m = acc_converged_marks [OF c]
  from a obtain got seed where g: "SecretsGet w (Namespace acc) (acc_SeedSecretName acc) = Inr got"
    "map_of (sec_Data got) NatsSecretSeedKey = Some seed" "nkeys_FromSeed w seed = Inr kp"
    "KeyPairSecretBuild w (Some got) (AccountObj acc) kp = Inr got" "sec_Name got = acc_SeedSecretName acc"
    by (rule desiredSeedSecretE) simp
  have s1: "acc_reconcileSeedSecret w acc = ((True, None), acc, [])"
    using g m(1) [OF k]
    by (simp add: acc_reconcileSeedSecret_def acc_ensureSeedSecretUpToDate_def Let_def publicKeyOf_def)
  have s2: "resolveOperator w acc issuer = ((Some operator, True, None), acc)"
    using resolveOperator_resolved [OF r] m(5) [OF orr] by simp
  have nx: "NextSigningKeys (UID acc) (SigningKeys acc) skList = SigningKeys acc"
    using ss by (simp add: NextSigningKeys_unchanged_iff)
  have s3: "ensureSigningKeysUpdated w acc = (None, acc, [])"
    using ensureSigningKeysUpdated_listed [OF sl] nx m(6) by simp
  have s4: "acc_loadIssuerSeed w acc issuer = ((Some issuerKP, True, None), acc)"
    using acc_loadIssuerSeed_loaded [OF l] m(2) by simp
  from t obtain jgot gotClaims where j: "SecretsGet w (Namespace acc) (acc_JWTSecretName acc) = Inr jgot"
    "map_of (sec_Data jgot) NatsSecretJWTKey = Some ajwt" "jwt_Decode w ajwt = Inr gotClaims"
    "Equality_DeepEqual gotClaims wantClaims"
    by (rule currentTokenE)
  have s5: "acc_reconcileJWTSecret w acc issuerKP = ((ajwt, True, None), acc, [])"
    using n j m(3)
    by (simp add: acc_reconcileJWTSecret_def acc_ensureJWTSecretUpToDate_def Let_def)
  show ?thesis
    by (cases "publish w acc (Some operator) issuerKP ajwt")
       (simp add: acc_pipeline_def s1 i s2 s3 s4 s5)
qed

lemma acc_converged_Reconcile:
  assumes g: "AccountsGet w ns name = Inr acc"
    and cv: "acc_converged w acc = Some (operator, issuerKP, ajwt)"
  shows "IsSystemAccount acc operator \<Longrightarrow> Account_Reconcile w ns name = (None, Some acc, [])"
    and "\<not> IsSystemAccount acc operator \<Longrightarrow> pushAccepted w operator issuerKP ajwt \<Longrightarrow>
      Account_Reconcile w ns name =
        (None, Some acc, [RemoteConnect (AccountServerURL operator), RemotePush ajwt, RemoteClose])"
    and "\<forall>e\<in>set (effects (Account_Reconcile w ns name)). \<not> isSecretWrite e \<and> \<not> isKeyGeneration e"
proof -
  from cv have c: "conditionsSet AccountConditionSet (Conditions acc)"
    and d: "DeletionTimestamp acc = None" "AccountFinalizer \<in> set (Finalizers acc)"
    by (auto elim: acc_convergedE)
  note m = acc_converged_marks [OF c]
  have r: "acc_reconcile w acc = publish w acc (Some operator) issuerKP ajwt"
    using d acc_converged_stages [OF cv] by (simp add: acc_reconcile_def)
  { assume "IsSystemAccount acc operator"
    then have "publish w acc (Some operator) issuerKP ajwt = (None, acc, [])"
      using m(4) by (simp add: publish_def)
    then show "Account_Reconcile w ns name = (None, Some acc, [])"
      using g m(7) r by (simp add: Account_Reconcile_def) }
  { assume "\<not> IsSystemAccount acc operator" "pushAccepted w operator issuerKP ajwt"
    then have "publish w acc (Some operator) issuerKP ajwt =
        (None, acc, [RemoteConnect (AccountServerURL operator), RemotePush ajwt, RemoteClose])"
      using m(4) by (auto simp: publish_def ensureJWTPushed_def pushAccepted_def split: sum.splits)
    then show "Account_Reconcile w ns name =
        (None, Some acc, [RemoteConnect (AccountServerURL operator), RemotePush ajwt, RemoteClose])"
      using g m(7) r by (simp add: Account_Reconcile_def) }
  obtain err acc' effs where p: "publish w acc (Some operator) issuerKP ajwt = (err, acc', effs)"
    by (cases "publish w acc (Some operator) issuerKP ajwt") auto
  from publish_footprint [OF p] have "\<forall>e\<in>set effs. isRemoteCall e"
    by simp
  then have e: "\<forall>e\<in>set effs. \<not> isSecretWrite e \<and> \<not> isKeyGeneration e"
    using isRemoteCall_only by blast
  show "\<forall>e\<in>set (effects (Account_Reconcile w ns name)). \<not> isSecretWrite e \<and> \<not> isKeyGeneration e"
    using g m(7) r p e
    by (auto simp: Account_Reconcile_def Let_def split: option.splits if_splits)
qed


lemma cluster_conditionsSet:
  "conditionsSet UserConditionSet (Conditions theUser)"
  "conditionsSet AccountConditionSet (Conditions liveAccount)"
  "conditionsSet AccountConditionSet (Conditions systemAccount)"
  by (simp_all add: conditionsSet_def UserConditionSet_def AccountConditionSet_def theUser_def
      systemAccount_def liveAccount_def deletedAccount_def)

lemma cluster_usr_converged: "usr_converged clusterWorld theUser"
  by (simp add: usr_converged_def cluster_conditionsSet desiredSeedSecret_def cluster
      cluster_secret_names publicKeyOf_def cluster_user_issuer cluster_user_account
      cluster_user_issuer_seed currentToken_def tokenStale_def Equality_DeepEqual_iff
      wantedUserClaims_def credentialsCurrent_def seedOf_def)
     (simp add: theUser_def builtSecret_def userCredsSecret_def)

lemma cluster_acc_converged:
  "acc_converged clusterWorld liveAccount = Some (theOperator, operatorKP, ''OLDJWT'')"
  by (simp add: acc_converged_def cluster_conditionsSet desiredSeedSecret_def cluster
      cluster_secret_names publicKeyOf_def cluster_account_issuer cluster_account_operator
      cluster_account_issuer_seed currentToken_def tokenStale_def Equality_DeepEqual_iff
      wantedClaims_def listedSigningKeys_def labels_Everything_def desiredSigningKeys_def
      theOperator_fields)
     (simp add: liveAccount_def deletedAccount_def)

lemma cluster_pushAccepted: "pushAccepted clusterWorld theOperator operatorKP ''OLDJWT''"
  by (simp add: pushAccepted_def getNATSOptions_def cluster theOperator_fields)


lemma sysWorld_facts:
  "AccountsGet sysWorld = (\<lambda>_ _. Inr systemAccount)"
  "SecretsGet sysWorld = SecretsGet clusterWorld"
  "SchemeNew sysWorld = SchemeNew clusterWorld" "ClientGet sysWorld = ClientGet clusterWorld"
  "SigningKeysList sysWorld = SigningKeysList clusterWorld"
  "nkeys_FromSeed sysWorld = nkeys_FromSeed clusterWorld"
  "nkeys_DecodeSeed sysWorld = nkeys_DecodeSeed clusterWorld"
  "jwt_Decode sysWorld = jwt_Decode clusterWorld"
  "nsc_CreateAccountClaims sysWorld = nsc_CreateAccountClaims clusterWorld"
  "KeyPairSecretBuild sysWorld = KeyPairSecretBuild clusterWorld"
  by (simp_all add: sysWorld_def)

lemma systemAccount_fields:
  "Namespace systemAccount = ''default''" "Name systemAccount = ''sys''" "UID systemAccount = ''uid-sys''"
  "acc_Issuer systemAccount = operatorIssuer"
  "acc_SeedSecretName systemAccount = ''a-seed''" "acc_JWTSecretName systemAccount = ''a-jwt''"
  "acc_SigningKeysSelector systemAccount = None" "SigningKeys systemAccount = []"
  "DeletionTimestamp systemAccount = None" "Finalizers systemAccount = [AccountFinalizer]"
  "StatusKeyPair systemAccount = Some \<lparr>PublicKey = ''APUB'', SeedSecretName = ''a-seed''\<rparr>"
  "OperatorRef systemAccount = Some \<lparr>ref_Namespace = ''default'', ref_Name = ''op''\<rparr>"
  by (simp_all add: systemAccount_def liveAccount_def deletedAccount_def)

lemma sys_acc_converged:
  "acc_converged sysWorld systemAccount = Some (theOperator, operatorKP, ''OLDJWT'')"
  by (simp add: acc_converged_def cluster_conditionsSet desiredSeedSecret_def sysWorld_facts
      systemAccount_fields cluster cluster_secret_names publicKeyOf_def resolveIssuer_def
      resolveOperator_def acc_loadIssuerSeed_def Let_def
      currentToken_def tokenStale_def Equality_DeepEqual_iff
      wantedClaims_def listedSigningKeys_def labels_Everything_def desiredSigningKeys_def
      theOperator_fields)

lemma sys_IsSystemAccount: "IsSystemAccount systemAccount theOperator"
  by (simp add: IsSystemAccount_def systemAccount_fields theOperator_fields)

section \<open>The superseded system-account test\<close>

lemma isSystemAccount_unresolved:
  "\<not> IsTrue (GetCondition (Conditions acc) OperatorResolved) \<Longrightarrow> isSystemAccount w acc = Inr (True, None)"
  by (simp add: isSystemAccount_def)

lemma isSystemAccount_fetch_error:
  "IsTrue (GetCondition (Conditions acc) OperatorResolved) \<Longrightarrow> OperatorRef acc = Some ref \<Longrightarrow>
   OperatorsGet w (ref_Namespace ref) (ref_Name ref) = Inl err \<Longrightarrow>
   isSystemAccount w acc = Inr (True, Some err)"
  by (simp add: isSystemAccount_def)

lemma isSystemAccount_pending:
  "IsTrue (GetCondition (Conditions acc) OperatorResolved) \<Longrightarrow> OperatorRef acc = Some ref \<Longrightarrow>
   OperatorsGet w (ref_Namespace ref) (ref_Name ref) = Inr operator \<Longrightarrow>
   \<not> IsTrue (GetCondition (Conditions operator) SystemAccountResolved) \<Longrightarrow>
   isSystemAccount w acc = Inr (True, None)"
  by (simp add: isSystemAccount_def)

lemma isSystemAccount_false:
  "isSystemAccount w acc = Inr (False, e) \<Longrightarrow>
   e = None \<and> IsTrue (GetCondition (Conditions acc) OperatorResolved) \<and>
   (\<exists>ref operator sys. OperatorRef acc = Some ref \<and>
      OperatorsGet w (ref_Namespace ref) (ref_Name ref) = Inr operator \<and>
      IsTrue (GetCondition (Conditions operator) SystemAccountResolved) \<and>
      ResolvedSystemAccount operator = Some sys \<and>
      (Name acc \<noteq> ref_Name sys \<or> Namespace acc \<noteq> ref_Namespace sys))"
  unfolding isSystemAccount_def
  by (auto split: if_splits option.splits sum.splits)

lemma isSystemAccount_differs:
  "IsTrue (GetCondition (Conditions acc) OperatorResolved) \<Longrightarrow> OperatorRef acc = Some ref \<Longrightarrow>
   OperatorsGet w (ref_Namespace ref) (ref_Name ref) = Inr operator \<Longrightarrow>
   IsTrue (GetCondition (Conditions operator) SystemAccountResolved) \<Longrightarrow>
   ResolvedSystemAccount operator = Some sys \<Longrightarrow>
   isSystemAccount w acc = Inr (Name acc = ref_Name sys \<and> Namespace acc = ref_Namespace sys, None)"
  by (simp add: isSystemAccount_def)

lemma updateAccountJWTSigningKeys_push:
  "updateAccountJWTSigningKeys w s acc operatorSeed jwtSecret sKeys = (err, calls) \<Longrightarrow>
   c \<in> set calls \<Longrightarrow> isPush c \<Longrightarrow> isSystemAccount w acc = Inr (False, None)"
  unfolding updateAccountJWTSigningKeys_def Let_def
  by (auto split: sum.splits option.splits if_splits prod.splits)

lemma ensureSeedJWTSecrets_push:
  "ensureSeedJWTSecrets w s acc sKeys opSkey = (err, acc', calls) \<Longrightarrow>
   c \<in> set calls \<Longrightarrow> isPush c \<Longrightarrow> isSystemAccount w acc = Inr (False, None)"
  unfolding ensureSeedJWTSecrets_def Let_def
  by (auto split: sum.splits option.splits if_splits prod.splits
      dest: updateAccountJWTSigningKeys_push)


lemma superseded_facts:
  "OperatorsGet clusterWorld = (\<lambda>_ _. Inr theOperator)"
  "OperatorsGet emptyStore = (\<lambda>_ _. Inr theOperator)"
  "OperatorsGet nothing = (\<lambda>_ _. Inl (StatusNotFound ''not found''))"
  "OperatorsGet pendingOperatorWorld = (\<lambda>_ _. Inr (theOperator\<lparr>Conditions := []\<rparr>))"
  "SecretsGet emptyStore = (\<lambda>_ _. Inl (StatusNotFound ''not found''))"
  "nkeys_FromSeed emptyStore ''SOSEED'' = Inr operatorKP"
  "SetControllerReference emptyStore = (\<lambda>_ s. Inr s)"
  "IsTrue (GetCondition (Conditions liveAccount) OperatorResolved)"
  "OperatorRef liveAccount = Some \<lparr>ref_Namespace = ''default'', ref_Name = ''op''\<rparr>"
  "IsTrue (GetCondition (Conditions theOperator) SystemAccountResolved)"
  "\<not> IsTrue (GetCondition (Conditions unresolvedAccount) OperatorResolved)"
  "Namespace unresolvedAccount = ''default''" "Name unresolvedAccount = ''a''"
  "acc_SeedSecretName unresolvedAccount = ''a-seed''" "acc_JWTSecretName unresolvedAccount = ''a-jwt''"
  "acc_Claims unresolvedAccount = []" "acc_Claims liveAccount = []"
  by (simp_all add: clusterWorld_def emptyStore_def pendingOperatorWorld_def nothing_def
      liveAccount_def deletedAccount_def theOperator_def unresolvedAccount_def GetCondition_def
      trueCondition_def)

lemma GetCondition_Nil: "GetCondition [] t = None"
  by (simp add: GetCondition_def)

lemma superseded_tests:
  "isSystemAccount clusterWorld unresolvedAccount = Inr (True, None)"
  "isSystemAccount emptyStore unresolvedAccount = Inr (True, None)"
  "isSystemAccount nothing liveAccount = Inr (True, Some (StatusNotFound ''not found''))"
  "isSystemAccount pendingOperatorWorld liveAccount = Inr (True, None)"
  "isSystemAccount clusterWorld liveAccount = Inr (False, None)"
  "isSystemAccount emptyStore liveAccount = Inr (False, None)"
  by (simp_all add: isSystemAccount_def superseded_facts GetCondition_Nil theOperator_fields cluster)

lemma superseded_accepting:
  "nsc_CreateAccount accepting = (\<lambda>_ _ _. Inr (''AJWT'', ''APUB'', ''SASEED''))"
  "createOrUpdateSecret accepting = (\<lambda>_ _. None)" "nsc_PushJWT accepting = (\<lambda>_. None)"
  by (simp_all add: accepting_def)

lemma superseded_first_pass:
  "snd (snd (ensureSeedJWTSecrets emptyStore accepting liveAccount [] ''SOSEED'')) =
     [WriteSecret (NewSecret ''a-jwt'' ''default'' [(NatsSecretJWTKey, ''AJWT'')] False) False,
      WriteSecret (NewSecret ''a-seed'' ''default'' [(NatsSecretSeedKey, ''SASEED'')] True) False,
      PushJWT ''AJWT'']"
  "snd (snd (ensureSeedJWTSecrets emptyStore accepting unresolvedAccount [] ''SOSEED'')) =
     [WriteSecret (NewSecret ''a-jwt'' ''default'' [(NatsSecretJWTKey, ''AJWT'')] False) False,
      WriteSecret (NewSecret ''a-seed'' ''default'' [(NatsSecretSeedKey, ''SASEED'')] True) False]"
  by (simp_all add: ensureSeedJWTSecrets_def Let_def superseded_facts superseded_tests
      superseded_accepting errors_IsNotFound_def cluster)

section \<open>Issuer resolution: which failures are handled\<close>



section \<open>Finalization\<close>




section \<open>A pass over an Account marked for deletion\<close>

text \<open>
  C10. When the fetched Account carries a deletion timestamp, the pass is the
  finalization and the removal of the finalizer, or nothing when the finalizer is
  already gone: it creates and updates no secret, generates no key pair, pushes no
  token and records no event; its only effects are the calls that revoke the token at
  the remote authority, the update that removes the finalizer and the status update;
  and the signing-key membership and the key pair in the status are left as fetched.
  So a secret write, a key generation, a push or a membership change in a pass means
  that the deletion timestamp is zero.
\<close>

theorem deletion_runs_finalization_only:
  "AccountsGet w ns name = Inr fetched \<Longrightarrow> DeletionTimestamp fetched \<noteq> None \<Longrightarrow>
   Account_Reconcile w ns name = (err, res, effs) \<Longrightarrow>
   (\<forall>e\<in>set effs. \<not> isSecretWrite e \<and> \<not> isKeyGeneration e \<and> \<not> isRemotePush e \<and> \<not> isEvent e) \<and>
   (\<forall>e\<in>set effs. (isRemoteCall e \<and> \<not> isRemotePush e) \<or> (\<exists>a. e = UpdateObject (AccountObj a)) \<or>
                   isStatusUpdate e) \<and>
   (\<exists>acc'. res = Some acc' \<and> SigningKeys acc' = SigningKeys fetched \<and>
           StatusKeyPair acc' = StatusKeyPair fetched) \<and>
   (\<forall>acc. DeletionTimestamp acc \<noteq> None \<longrightarrow>
      acc_reconcile w acc =
        (if AccountFinalizer \<in> set (Finalizers acc) then
           (let (err, acc1, e1) = finalizeAccount w acc in
              if err \<noteq> None then (err, acc1, e1)
              else
                (let acc2 = acc1\<lparr>Finalizers := removeAll AccountFinalizer (Finalizers acc1)\<rparr>
                 in (UpdateAccount w acc2, acc2, e1 @ [UpdateObject (AccountObj acc2)])))
         else (None, acc, [])))"
proof -
  assume g: "AccountsGet w ns name = Inr fetched"
    and del: "DeletionTimestamp fetched \<noteq> None"
    and r: "Account_Reconcile w ns name = (err, res, effs)"
  define acc where
    "acc = fetched\<lparr>Conditions := InitializeConditions AccountConditionSet (Conditions fetched)\<rparr>"
  obtain e1 acc1 effs1 where b: "acc_reconcile w acc = (e1, acc1, effs1)"
    by (cases "acc_reconcile w acc") auto
  have del': "DeletionTimestamp acc \<noteq> None" using del by (simp add: acc_def)
  note fp = acc_reconcile_deleting [OF del' b]
  have effs: "effs = effs1 \<or> effs = effs1 @ [UpdateStatus (AccountObj acc1)]"
    and res: "res = Some acc1"
    using r g b [unfolded acc_def] unfolding Account_Reconcile_def Let_def
    by (auto split: if_splits option.splits)
  have one: "\<forall>e\<in>set effs1. \<not> isSecretWrite e \<and> \<not> isKeyGeneration e \<and> \<not> isRemotePush e \<and> \<not> isEvent e"
  proof
    fix e assume "e \<in> set effs1"
    with fp have "(isRemoteCall e \<and> \<not> isRemotePush e) \<or> e = UpdateObject (AccountObj acc1)" by blast
    then show "\<not> isSecretWrite e \<and> \<not> isKeyGeneration e \<and> \<not> isRemotePush e \<and> \<not> isEvent e"
      by (cases e) auto
  qed
  have c1: "\<forall>e\<in>set effs. \<not> isSecretWrite e \<and> \<not> isKeyGeneration e \<and> \<not> isRemotePush e \<and> \<not> isEvent e"
    using effs one by auto
  have c2: "\<forall>e\<in>set effs. (isRemoteCall e \<and> \<not> isRemotePush e) \<or> (\<exists>a. e = UpdateObject (AccountObj a)) \<or>
                   isStatusUpdate e"
    using effs fp by auto
  have c3: "\<exists>acc'. res = Some acc' \<and> SigningKeys acc' = SigningKeys fetched \<and>
           StatusKeyPair acc' = StatusKeyPair fetched"
    using res fp by (simp add: acc_def)
  have c4: "\<forall>acc. DeletionTimestamp acc \<noteq> None \<longrightarrow>
      acc_reconcile w acc =
        (if AccountFinalizer \<in> set (Finalizers acc) then
           (let (err, acc1, e1) = finalizeAccount w acc in
              if err \<noteq> None then (err, acc1, e1)
              else
                (let acc2 = acc1\<lparr>Finalizers := removeAll AccountFinalizer (Finalizers acc1)\<rparr>
                 in (UpdateAccount w acc2, acc2, e1 @ [UpdateObject (AccountObj acc2)])))
         else (None, acc, []))"
    by (simp add: acc_reconcile_def)
  from c1 c2 c3 c4 show ?thesis by blast
qed

theorem deletion_runs_finalization_only_witness:
  "AccountsGet revokeWorld ''default'' ''a'' = Inr deletedAccount \<and>
   DeletionTimestamp deletedAccount \<noteq> None \<and>
   Account_Reconcile revokeWorld ''default'' ''a'' =
     (None, Some (deletedAccount\<lparr>Finalizers := []\<rparr>),
      [RemoteConnect ''nats://nats:4222'', RemoteDelete ''APUB'', RemoteClose,
       UpdateObject (AccountObj (deletedAccount\<lparr>Finalizers := []\<rparr>))]) \<and>
   SigningKeys (deletedAccount\<lparr>Finalizers := []\<rparr>) = SigningKeys deletedAccount"
proof -
  have g: "AccountsGet revokeWorld ''default'' ''a'' = Inr deletedAccount"
    by (simp add: concrete)
  have d: "DeletionTimestamp deletedAccount \<noteq> None"
    by (simp add: concrete)
  have i: "deletedAccount\<lparr>Conditions := InitializeConditions AccountConditionSet (Conditions deletedAccount)\<rparr>
           = deletedAccount"
    by (simp add: deletedAccount_def AccountConditionSet_def)
  have u: "UpdateAccount revokeWorld = (\<lambda>_. None)"
    by (simp add: concrete)
  have b: "acc_reconcile revokeWorld deletedAccount =
     (None, deletedAccount\<lparr>Finalizers := []\<rparr>,
      [RemoteConnect ''nats://nats:4222'', RemoteDelete ''APUB'', RemoteClose,
       UpdateObject (AccountObj (deletedAccount\<lparr>Finalizers := []\<rparr>))])"
    using d by (simp add: acc_reconcile_def finalizeAccount_revokeWorld u Let_def)
      (simp add: deletedAccount_def AccountFinalizer_def)
  have r: "Account_Reconcile revokeWorld ''default'' ''a'' =
     (None, Some (deletedAccount\<lparr>Finalizers := []\<rparr>),
      [RemoteConnect ''nats://nats:4222'', RemoteDelete ''APUB'', RemoteClose,
       UpdateObject (AccountObj (deletedAccount\<lparr>Finalizers := []\<rparr>))])"
    by (simp add: Account_Reconcile_def g i b acc_Status_def)
  from deletion_runs_finalization_only [OF g d r] g d r show ?thesis by simp
qed

section \<open>Reconciling a stored token\<close>

text \<open>
  C1, as stated, at a concrete input: the JWT secret of the Account exists and holds a
  token that does not decode, and the replacement secret cannot be built because the
  stored secret has another controller. The step issues no write: the stored token is
  not replaced, and the build error is returned.
\<close>

theorem stale_token_not_replaced:
  "map_of (sec_Data storedJWTSecret) NatsSecretJWTKey = Some ''OLDJWT'' \<and>
   tokenStale foreignOwnerWorld ''OLDJWT'' wantedClaims \<and>
   acc_ensureJWTSecretUpToDate foreignOwnerWorld liveAccount wantedClaims storedJWTSecret ''NEWJWT'' =
     (([], False, Some (OtherError ''Object is already owned by another controller'')),
      MarkSeedSecretUnknown ReasonUnknownError (''Object is already owned by another controller'', []) liveAccount,
      [])"
  by (simp add: acc_ensureJWTSecretUpToDate_def tokenStale_def concrete concrete2)

text \<open>
  C1, amended. For an Account and for a User whose JWT secret exists and holds a token:
  the step issues an update of the secret exactly when the stored token is stale (it
  does not decode, or its claims differ from the canonical claims with the issuance
  timestamp excluded) and the replacement secret can be built; the update carries the
  secret built around the freshly signed candidate, and when the store accepts it the
  candidate is returned. When the token is not stale, the stored token is returned as
  it is, the JWT condition is marked ready and nothing is written. Staleness does not
  depend on the issuance timestamp: a token is stale exactly when it does not decode to
  claims with the canonical content. A secret without the token field is left alone,
  and the step never creates a secret.
\<close>

theorem ensureJWTSecretUpToDate_replaces_stale_token:
  "((\<forall>gotJWT. map_of (sec_Data got) NatsSecretJWTKey = Some gotJWT \<longrightarrow>
      ((\<exists>s. UpdateSecret s \<in> set (effects (acc_ensureJWTSecretUpToDate w acc wantClaims got nextJWT))) \<longleftrightarrow>
         tokenStale w gotJWT wantClaims \<and>
         (\<exists>want. JWTSecretBuild w (Some got) (AccountObj acc) nextJWT = Inr want)) \<and>
      (\<forall>s. UpdateSecret s \<in> set (effects (acc_ensureJWTSecretUpToDate w acc wantClaims got nextJWT)) \<longrightarrow>
         JWTSecretBuild w (Some got) (AccountObj acc) nextJWT = Inr s) \<and>
      (\<forall>want. tokenStale w gotJWT wantClaims \<and>
         JWTSecretBuild w (Some got) (AccountObj acc) nextJWT = Inr want \<and> ClientUpdate w want = None \<longrightarrow>
         fst (acc_ensureJWTSecretUpToDate w acc wantClaims got nextJWT) = (nextJWT, True, None)) \<and>
      (\<not> tokenStale w gotJWT wantClaims \<longrightarrow>
         acc_ensureJWTSecretUpToDate w acc wantClaims got nextJWT =
           ((gotJWT, True, None), MarkJWTSecretReady acc, []))) \<and>
    (map_of (sec_Data got) NatsSecretJWTKey = None \<longrightarrow>
      fst (acc_ensureJWTSecretUpToDate w acc wantClaims got nextJWT) = ([], False, None) \<and>
      effects (acc_ensureJWTSecretUpToDate w acc wantClaims got nextJWT) = []) \<and>
    (\<forall>s. CreateSecret s \<notin> set (effects (acc_ensureJWTSecretUpToDate w acc wantClaims got nextJWT)))) \<and>
   ((\<forall>gotJWT. map_of (sec_Data got) NatsSecretJWTKey = Some gotJWT \<longrightarrow>
      ((\<exists>s. UpdateSecret s \<in> set (effects (usr_ensureJWTSecretUpToDate w usr wantClaims got nextJWT))) \<longleftrightarrow>
         tokenStale w gotJWT wantClaims \<and>
         (\<exists>want. JWTSecretBuild w (Some got) (UserObj usr) nextJWT = Inr want)) \<and>
      (\<forall>s. UpdateSecret s \<in> set (effects (usr_ensureJWTSecretUpToDate w usr wantClaims got nextJWT)) \<longrightarrow>
         JWTSecretBuild w (Some got) (UserObj usr) nextJWT = Inr s) \<and>
      (\<forall>want. tokenStale w gotJWT wantClaims \<and>
         JWTSecretBuild w (Some got) (UserObj usr) nextJWT = Inr want \<and> ClientUpdate w want = None \<longrightarrow>
         fst (usr_ensureJWTSecretUpToDate w usr wantClaims got nextJWT) = (nextJWT, True, None)) \<and>
      (\<not> tokenStale w gotJWT wantClaims \<longrightarrow>
         usr_ensureJWTSecretUpToDate w usr wantClaims got nextJWT =
           ((gotJWT, True, None), MarkJWTSecretReady usr, []))) \<and>
    (map_of (sec_Data got) NatsSecretJWTKey = None \<longrightarrow>
      fst (usr_ensureJWTSecretUpToDate w usr wantClaims got nextJWT) = ([], False, None) \<and>
      effects (usr_ensureJWTSecretUpToDate w usr wantClaims got nextJWT) = []) \<and>
    (\<forall>s. CreateSecret s \<notin> set (effects (usr_ensureJWTSecretUpToDate w usr wantClaims got nextJWT)))) \<and>
   (\<forall>gotJWT. tokenStale w gotJWT wantClaims \<longleftrightarrow>
      (\<forall>c. jwt_Decode w gotJWT = Inr c \<longrightarrow> Content c \<noteq> Content wantClaims)) \<and>
   IsTrue (GetCondition (Conditions (MarkJWTSecretReady acc)) JWTSecretReady) \<and>
   IsTrue (GetCondition (Conditions (MarkJWTSecretReady usr)) JWTSecretReady)"
  using acc_ensureJWTSecretUpToDate_cases [of got w acc wantClaims nextJWT]
    usr_ensureJWTSecretUpToDate_cases [of got w usr wantClaims nextJWT]
    tokenStale_iff [of w _ wantClaims]
  by (simp add: MarkJWTSecretReady_def)

theorem ensureJWTSecretUpToDate_replaces_stale_token_witness:
  "map_of (sec_Data storedJWTSecret) NatsSecretJWTKey = Some ''OLDJWT'' \<and>
   jwt_Decode sameClaimsWorld ''OLDJWT'' = Inr \<lparr>IssuedAt = 100, Content = ''account a, issuer OPUB''\<rparr> \<and>
   IssuedAt wantedClaims = 200 \<and>
   \<not> tokenStale sameClaimsWorld ''OLDJWT'' wantedClaims \<and>
   acc_ensureJWTSecretUpToDate sameClaimsWorld liveAccount wantedClaims storedJWTSecret ''NEWJWT'' =
     ((''OLDJWT'', True, None), MarkJWTSecretReady liveAccount, [])"
proof -
  have k: "map_of (sec_Data storedJWTSecret) NatsSecretJWTKey = Some ''OLDJWT''"
    by (simp add: concrete concrete2)
  have d: "jwt_Decode sameClaimsWorld ''OLDJWT'' = Inr \<lparr>IssuedAt = 100, Content = ''account a, issuer OPUB''\<rparr>"
    by (simp add: concrete concrete2)
  have s: "\<not> tokenStale sameClaimsWorld ''OLDJWT'' wantedClaims"
    by (simp add: tokenStale_def d Equality_DeepEqual_iff) (simp add: wantedClaims_def)
  from ensureJWTSecretUpToDate_replaces_stale_token
         [of storedJWTSecret sameClaimsWorld liveAccount wantedClaims "''NEWJWT''"] k d s
  show ?thesis by (simp add: wantedClaims_def)
qed

section \<open>Publication and the system account\<close>

text \<open>
  C7. For an Account that is the resolved Operator's system account the publication
  step issues no effect at all, so no push and no other remote call, returns no error
  and marks the JWT-pushed condition True. Whatever the publication step does is a
  remote call, and it makes one only for an Account that is not the system account of
  its Operator; the same holds for the whole pipeline, with the Operator it resolves.
\<close>

theorem system_account_not_pushed:
  "(IsSystemAccount acc op \<longrightarrow>
      publish w acc (Some op) issuerKP accountJWT = (None, MarkJWTPushed acc, []) \<and>
      IsTrue (GetCondition (Conditions (MarkJWTPushed acc)) JWTPushed)) \<and>
   (\<forall>e\<in>set (effects (publish w acc operator issuerKP accountJWT)).
      isRemoteCall e \<and> (\<exists>op. operator = Some op \<and> \<not> IsSystemAccount acc op)) \<and>
   (\<forall>e\<in>set (effects (acc_pipeline w acc)).
      isRemoteCall e \<longrightarrow> (\<exists>op. resolvedOperator w acc = Some op \<and> \<not> IsSystemAccount acc op))"
proof -
  obtain e1 a1 es1 where p: "publish w acc operator issuerKP accountJWT = (e1, a1, es1)"
    by (cases "publish w acc operator issuerKP accountJWT") auto
  obtain e2 a2 es2 where q: "acc_pipeline w acc = (e2, a2, es2)"
    by (cases "acc_pipeline w acc") auto
  have one: "IsSystemAccount acc op \<longrightarrow>
      publish w acc (Some op) issuerKP accountJWT = (None, MarkJWTPushed acc, []) \<and>
      IsTrue (GetCondition (Conditions (MarkJWTPushed acc)) JWTPushed)"
    by (simp add: publish_def MarkJWTPushed_def)
  have two: "\<forall>e\<in>set (effects (publish w acc operator issuerKP accountJWT)).
      isRemoteCall e \<and> (\<exists>op. operator = Some op \<and> \<not> IsSystemAccount acc op)"
    using publish_footprint [OF p] by (auto simp: p)
  have three: "\<forall>e\<in>set (effects (acc_pipeline w acc)).
      isRemoteCall e \<longrightarrow> (\<exists>op. resolvedOperator w acc = Some op \<and> \<not> IsSystemAccount acc op)"
    using acc_pipeline_footprint [OF q] by (simp add: q)
  from one two three show ?thesis by blast
qed

theorem system_account_not_pushed_witness:
  "IsSystemAccount systemAccount theOperator \<and>
   publish clusterWorld systemAccount (Some theOperator) operatorKP ''OLDJWT'' =
     (None, MarkJWTPushed systemAccount, []) \<and>
   \<not> IsSystemAccount liveAccount theOperator \<and>
   effects (publish clusterWorld liveAccount (Some theOperator) operatorKP ''OLDJWT'') =
     [RemoteConnect ''nats://nats:4222'', RemotePush ''OLDJWT'', RemoteClose]"
proof -
  have s: "IsSystemAccount systemAccount theOperator"
    by (simp add: IsSystemAccount_def systemAccount_def theOperator_fields cluster)
  from system_account_not_pushed [of systemAccount theOperator clusterWorld operatorKP "''OLDJWT''"] s
    cluster_account_not_system cluster_account_publish
  show ?thesis by simp
qed

section \<open>The seed secret is created once\<close>



section \<open>A seed that decodes to another public key\<close>




section \<open>The signing-key membership resolver\<close>




section \<open>A pass over a converged resource\<close>




section \<open>The superseded system-account test fails closed\<close>

text \<open>
  C9. In the superseded revision, \<open>isSystemAccount\<close> answers true whenever the
  Account's operator-resolved condition is not True, whenever the fetch of the Operator
  returns an error (which it hands on), and whenever the Operator's
  system-account-resolved condition is not True. It answers false only without an
  error, when the Operator was fetched and the name or the namespace of its resolved
  system account differs from the Account's. Both places that publish a token,
  \<open>ensureSeedJWTSecrets\<close> and \<open>updateAccountJWTSigningKeys\<close>, issue the push only
  when the test answered false without an error.
\<close>

theorem isSystemAccount_fails_closed:
  "(\<not> IsTrue (GetCondition (Conditions acc) OperatorResolved) \<longrightarrow>
      isSystemAccount w acc = Inr (True, None)) \<and>
   (IsTrue (GetCondition (Conditions acc) OperatorResolved) \<longrightarrow> OperatorRef acc = Some ref \<longrightarrow>
      (OperatorsGet w (ref_Namespace ref) (ref_Name ref) = Inl err \<longrightarrow>
         isSystemAccount w acc = Inr (True, Some err)) \<and>
      (OperatorsGet w (ref_Namespace ref) (ref_Name ref) = Inr operator \<longrightarrow>
       \<not> IsTrue (GetCondition (Conditions operator) SystemAccountResolved) \<longrightarrow>
         isSystemAccount w acc = Inr (True, None))) \<and>
   (isSystemAccount w acc = Inr (False, e) \<longrightarrow>
      e = None \<and>
      (\<exists>r fetched sys.
         OperatorRef acc = Some r \<and>
         OperatorsGet w (ref_Namespace r) (ref_Name r) = Inr fetched \<and>
         ResolvedSystemAccount fetched = Some sys \<and>
         (Name acc \<noteq> ref_Name sys \<or> Namespace acc \<noteq> ref_Namespace sys))) \<and>
   (\<forall>c\<in>set (snd (snd (ensureSeedJWTSecrets w s acc sKeys opSkey))).
      isPush c \<longrightarrow> isSystemAccount w acc = Inr (False, None)) \<and>
   (\<forall>c\<in>set (snd (updateAccountJWTSigningKeys w s acc opSkey jwtSecret keys)).
      isPush c \<longrightarrow> isSystemAccount w acc = Inr (False, None))"
proof (intro conjI impI ballI)
  assume "\<not> IsTrue (GetCondition (Conditions acc) OperatorResolved)"
  then show "isSystemAccount w acc = Inr (True, None)"
    by (rule isSystemAccount_unresolved)
next
  assume "IsTrue (GetCondition (Conditions acc) OperatorResolved)" "OperatorRef acc = Some ref"
    "OperatorsGet w (ref_Namespace ref) (ref_Name ref) = Inl err"
  then show "isSystemAccount w acc = Inr (True, Some err)"
    by (rule isSystemAccount_fetch_error)
next
  assume "IsTrue (GetCondition (Conditions acc) OperatorResolved)" "OperatorRef acc = Some ref"
    "OperatorsGet w (ref_Namespace ref) (ref_Name ref) = Inr operator"
    "\<not> IsTrue (GetCondition (Conditions operator) SystemAccountResolved)"
  then show "isSystemAccount w acc = Inr (True, None)"
    by (rule isSystemAccount_pending)
next
  assume f: "isSystemAccount w acc = Inr (False, e)"
  from isSystemAccount_false [OF f] show "e = None" by simp
  from isSystemAccount_false [OF f]
  show "\<exists>r fetched sys.
         OperatorRef acc = Some r \<and>
         OperatorsGet w (ref_Namespace r) (ref_Name r) = Inr fetched \<and>
         ResolvedSystemAccount fetched = Some sys \<and>
         (Name acc \<noteq> ref_Name sys \<or> Namespace acc \<noteq> ref_Namespace sys)"
    by blast
next
  fix c assume c: "c \<in> set (snd (snd (ensureSeedJWTSecrets w s acc sKeys opSkey)))" "isPush c"
  obtain err' acc' calls where r: "ensureSeedJWTSecrets w s acc sKeys opSkey = (err', acc', calls)"
    by (cases "ensureSeedJWTSecrets w s acc sKeys opSkey") auto
  from c have "c \<in> set calls" by (simp add: r)
  from ensureSeedJWTSecrets_push [OF r this c(2)]
  show "isSystemAccount w acc = Inr (False, None)" .
next
  fix c assume c: "c \<in> set (snd (updateAccountJWTSigningKeys w s acc opSkey jwtSecret keys))" "isPush c"
  obtain err' calls where r: "updateAccountJWTSigningKeys w s acc opSkey jwtSecret keys = (err', calls)"
    by (cases "updateAccountJWTSigningKeys w s acc opSkey jwtSecret keys") auto
  from c have "c \<in> set calls" by (simp add: r)
  from updateAccountJWTSigningKeys_push [OF r this c(2)]
  show "isSystemAccount w acc = Inr (False, None)" .
qed

theorem isSystemAccount_fails_closed_witness:
  "\<not> IsTrue (GetCondition (Conditions unresolvedAccount) OperatorResolved) \<and>
   isSystemAccount emptyStore unresolvedAccount = Inr (True, None) \<and>
   filter isPush (snd (snd (ensureSeedJWTSecrets emptyStore accepting unresolvedAccount [] ''SOSEED''))) = [] \<and>
   IsTrue (GetCondition (Conditions liveAccount) OperatorResolved) \<and>
   OperatorRef liveAccount = Some \<lparr>ref_Namespace = ''default'', ref_Name = ''op''\<rparr> \<and>
   OperatorsGet nothing ''default'' ''op'' = Inl (StatusNotFound ''not found'') \<and>
   isSystemAccount nothing liveAccount = Inr (True, Some (StatusNotFound ''not found'')) \<and>
   OperatorsGet pendingOperatorWorld ''default'' ''op'' = Inr (theOperator\<lparr>Conditions := []\<rparr>) \<and>
   isSystemAccount pendingOperatorWorld liveAccount = Inr (True, None) \<and>
   isSystemAccount emptyStore liveAccount = Inr (False, None) \<and>
   filter isPush (snd (snd (ensureSeedJWTSecrets emptyStore accepting liveAccount [] ''SOSEED''))) =
     [PushJWT ''AJWT'']"
  using isSystemAccount_fails_closed
          [where w = emptyStore and acc = unresolvedAccount and s = accepting and sKeys = "[]"
             and opSkey = "''SOSEED''" and e = None
             and ref = "\<lparr>ref_Namespace = ''default'', ref_Name = ''op''\<rparr>"]
        isSystemAccount_fails_closed
          [where w = nothing and acc = liveAccount and s = accepting and sKeys = "[]"
             and opSkey = "''SOSEED''" and e = None
             and ref = "\<lparr>ref_Namespace = ''default'', ref_Name = ''op''\<rparr>"
             and err = "StatusNotFound ''not found''"]
        isSystemAccount_fails_closed
          [where w = pendingOperatorWorld and acc = liveAccount and s = accepting and sKeys = "[]"
             and opSkey = "''SOSEED''" and e = None
             and ref = "\<lparr>ref_Namespace = ''default'', ref_Name = ''op''\<rparr>"
             and operator = "theOperator\<lparr>Conditions := []\<rparr>"]
        isSystemAccount_fails_closed
          [where w = emptyStore and acc = liveAccount and s = accepting and sKeys = "[]"
             and opSkey = "''SOSEED''" and e = None
             and ref = "\<lparr>ref_Namespace = ''default'', ref_Name = ''op''\<rparr>"]
  by (simp add: superseded_facts superseded_tests superseded_first_pass GetCondition_Nil)

end
